theory Spec2Isabelle
  imports Main
begin

section \<open>JavaScript values\<close>

text \<open>
  The client is JavaScript/TypeScript, so arguments and response bodies are dynamically
  typed.  Numbers are modelled as mathematical integers plus \<open>NaN\<close>: the clock is
  in whole milliseconds and the token lifetime in whole seconds, and \<open>NaN\<close> is what
  arithmetic on \<open>undefined\<close> produces.  Fractions, infinities and rounding beyond
  \<open>2^53\<close> are outside the model.  A string is a list of characters, one UTF-16 code
  unit each, so \<open>s.length\<close> is the length of the list.  The model is meant for
  ASCII text; a character from U+0080 to U+00FF, the most that a character of this model
  can be, takes two bytes in UTF-8.  An object is a plain data object: it lists its own
  properties in enumeration order, with no key twice and none that hides an inherited
  member (\<open>constructor\<close>, \<open>toString\<close>, \<open>hasOwnProperty\<close>).
\<close>

datatype jsnum = Num int | NaN

datatype jsval =
    JUndefined
  | JNull
  | JBool bool
  | JNum jsnum
  | JStr string
  | JArr "jsval list"
  | JObj "(string \<times> jsval) list"

datatype js_error =
    Error string
  | TypeError string
  | AxiosError jsval

subsection \<open>Arithmetic and comparison\<close>

fun num_add :: "jsnum \<Rightarrow> jsnum \<Rightarrow> jsnum" where
  "num_add (Num a) (Num b) = Num (a + b)"
| "num_add _ _ = NaN"

fun num_sub :: "jsnum \<Rightarrow> jsnum \<Rightarrow> jsnum" where
  "num_sub (Num a) (Num b) = Num (a - b)"
| "num_sub _ _ = NaN"

fun num_mul :: "jsnum \<Rightarrow> jsnum \<Rightarrow> jsnum" where
  "num_mul (Num a) (Num b) = Num (a * b)"
| "num_mul _ _ = NaN"

text \<open>\<open>a >= b\<close> on numbers: false as soon as one side is \<open>NaN\<close>.\<close>

fun num_ge :: "jsnum \<Rightarrow> jsnum \<Rightarrow> bool" where
  "num_ge (Num a) (Num b) = (b \<le> a)"
| "num_ge _ _ = False"

subsection \<open>Conversions\<close>

fun truthy :: "jsval \<Rightarrow> bool" where
  "truthy JUndefined = False"
| "truthy JNull = False"
| "truthy (JBool b) = b"
| "truthy (JNum (Num n)) = (n \<noteq> 0)"
| "truthy (JNum NaN) = False"
| "truthy (JStr s) = (s \<noteq> [])"
| "truthy (JArr xs) = True"
| "truthy (JObj kvs) = True"

text \<open>\<open>Array.prototype.join\<close> on already converted elements.\<close>

fun join :: "string \<Rightarrow> string list \<Rightarrow> string" where
  "join sep [] = []"
| "join sep [x] = x"
| "join sep (x # y # ys) = x @ sep @ join sep (y # ys)"

fun digits :: "nat \<Rightarrow> string" where
  "digits n =
     (if n < 10 then [''0123456789'' ! n]
      else digits (n div 10) @ [''0123456789'' ! (n mod 10)])"

declare digits.simps [simp del]

definition int_toString :: "int \<Rightarrow> string" where
  "int_toString i = (if i < 0 then ''-'' @ digits (nat (- i)) else digits (nat i))"

fun num_toString :: "jsnum \<Rightarrow> string" where
  "num_toString (Num i) = int_toString i"
| "num_toString NaN = ''NaN''"

text \<open>
  \<open>ToString\<close>, as string concatenation with \<open>+\<close> applies it.  (Integers of
  magnitude \<open>10^21\<close> and more print in exponent notation in JavaScript; they do not
  occur here.)
\<close>

fun ToString :: "jsval \<Rightarrow> string" where
  "ToString JUndefined = ''undefined''"
| "ToString JNull = ''null''"
| "ToString (JBool b) = (if b then ''true'' else ''false'')"
| "ToString (JNum n) = num_toString n"
| "ToString (JStr s) = s"
| "ToString (JArr xs) =
     join '','' (map (\<lambda>x. if x = JUndefined \<or> x = JNull then [] else ToString x) xs)"
| "ToString (JObj kvs) = ''[object Object]''"

subsection \<open>Property access\<close>

text \<open>
  \<open>v.name\<close> for the property names the client reads (\<open>length\<close>,
  \<open>access_token\<close>, \<open>expires_in\<close>, \<open>html\<close>): reading a property of
  \<open>undefined\<close> or \<open>null\<close> throws, strings and arrays have a \<open>length\<close>,
  objects have their own properties, and everything else is \<open>undefined\<close>.
\<close>

fun get_prop :: "jsval \<Rightarrow> string \<Rightarrow> js_error + jsval" where
  "get_prop JUndefined k =
     Inl (TypeError (''Cannot read properties of undefined (reading '' @ k @ '')''))"
| "get_prop JNull k =
     Inl (TypeError (''Cannot read properties of null (reading '' @ k @ '')''))"
| "get_prop (JStr s) k =
     Inr (if k = ''length'' then JNum (Num (int (length s))) else JUndefined)"
| "get_prop (JArr xs) k =
     Inr (if k = ''length'' then JNum (Num (int (length xs))) else JUndefined)"
| "get_prop (JObj kvs) k =
     Inr (case map_of kvs k of None \<Rightarrow> JUndefined | Some v \<Rightarrow> v)"
| "get_prop _ k = Inr JUndefined"

text \<open>\<open>obj[k] = v\<close>: overwrite in place, or append a new property.\<close>

fun set_prop :: "(string \<times> jsval) list \<Rightarrow> string \<Rightarrow> jsval \<Rightarrow> (string \<times> jsval) list" where
  "set_prop [] k v = [(k, v)]"
| "set_prop ((k', v') # kvs) k v =
     (if k' = k then (k, v) # kvs else (k', v') # set_prop kvs k v)"

subsection \<open>JSON.stringify and Buffer.byteLength\<close>

definition hex4 :: "nat \<Rightarrow> string" where
  "hex4 n = ''00'' @ [''0123456789abcdef'' ! (n div 16), ''0123456789abcdef'' ! (n mod 16)]"

definition json_escape :: "char \<Rightarrow> string" where
  "json_escape ch =
     (if ch = CHR ''\"'' then [CHR 0x5C, CHR ''\"'']
      else if ch = CHR 0x5C then [CHR 0x5C, CHR 0x5C]
      else if ch = CHR 0x08 then [CHR 0x5C, CHR ''b'']
      else if ch = CHR 0x09 then [CHR 0x5C, CHR ''t'']
      else if ch = CHR 0x0A then [CHR 0x5C, CHR ''n'']
      else if ch = CHR 0x0C then [CHR 0x5C, CHR ''f'']
      else if ch = CHR 0x0D then [CHR 0x5C, CHR ''r'']
      else if (of_char ch :: nat) < 32 then [CHR 0x5C, CHR ''u''] @ hex4 (of_char ch)
      else [ch])"

definition json_quote :: "string \<Rightarrow> string" where
  "json_quote s = [CHR ''\"''] @ concat (map json_escape s) @ [CHR ''\"'']"

text \<open>
  The JSON text of a value inside an array or object.  An \<open>undefined\<close> array element
  is written \<open>null\<close>, an \<open>undefined\<close> property is left out, \<open>NaN\<close> is
  \<open>null\<close>.
\<close>

fun json_text :: "jsval \<Rightarrow> string" where
  "json_text JUndefined = ''null''"
| "json_text JNull = ''null''"
| "json_text (JBool b) = (if b then ''true'' else ''false'')"
| "json_text (JNum (Num i)) = int_toString i"
| "json_text (JNum NaN) = ''null''"
| "json_text (JStr s) = json_quote s"
| "json_text (JArr xs) = ''['' @ join '','' (map json_text xs) @ '']''"
| "json_text (JObj kvs) =
     ''{'' @ join '',''
        (map (\<lambda>(k, v). json_quote k @ '':'' @ json_text v)
           (filter (\<lambda>(k, v). v \<noteq> JUndefined) kvs)) @ ''}''"

text \<open>\<open>JSON.stringify(v)\<close>: \<open>undefined\<close> at top level stays \<open>undefined\<close>.\<close>

definition JSON_stringify :: "jsval \<Rightarrow> jsval" where
  "JSON_stringify v = (if v = JUndefined then JUndefined else JStr (json_text v))"

text \<open>
  \<open>Buffer.byteLength(x)\<close> counts the bytes of the UTF-8 encoding of a string: one for
  a character below U+0080, two for a character from U+0080 to U+07FF.  It throws unless
  it is given a string (or a buffer).
\<close>

definition utf8_bytes :: "char \<Rightarrow> nat" where
  "utf8_bytes ch = (if (of_char ch :: nat) < 128 then 1 else 2)"

definition utf8_length :: "string \<Rightarrow> nat" where
  "utf8_length s = sum_list (map utf8_bytes s)"

fun Buffer_byteLength :: "jsval \<Rightarrow> js_error + nat" where
  "Buffer_byteLength (JStr s) = Inr (utf8_length s)"
| "Buffer_byteLength _ =
     Inl (TypeError ''The \"string\" argument must be of type string or an instance of Buffer or ArrayBuffer'')"

section \<open>The environment\<close>

text \<open>
  What the client needs from outside: the clock, the HTTP transport (\<open>axios\<close>), URL
  resolution, the number grammar of strings, a hash, and the base64 text of a buffer made
  from a value: \<open>Buffer.from(data, 'utf-8').toString('base64')\<close> and
  \<open>new Buffer(data).toString('base64')\<close>, which throw for some values.  The
  outside world is a value of an arbitrary type \<open>'w\<close>: the transport reads and
  changes it, the clock reads it.
\<close>

text \<open>
  The argument of \<open>axios.request\<close>.  Its field \<open>method\<close> is called
  \<open>http_method\<close> here.
\<close>

record request =
  http_method :: jsval
  url :: string
  data :: jsval
  headers :: "(string \<times> jsval) list"

record response =
  response_data :: jsval
  response_status :: nat

record 'w platform =
  Date_now :: "'w \<Rightarrow> int"
  axios_request :: "request \<Rightarrow> 'w \<Rightarrow> (js_error + response) \<times> 'w"
  URL_href :: "string \<Rightarrow> string \<Rightarrow> js_error + string"
  StringToNumber :: "string \<Rightarrow> jsnum"
  md5 :: "string \<Rightarrow> string"
  Buffer_from_base64 :: "jsval \<Rightarrow> js_error + string"
  new_Buffer_base64 :: "jsval \<Rightarrow> js_error + string"

text \<open>
  The run of the client is observed through a trace: every call of \<open>getToken\<close>, every
  reading of the clock, every request handed to the transport and what the transport
  answered (\<open>Inl\<close> when it threw) is appended to it.  The trace is an observer only;
  no function reads it.
\<close>

datatype event =
    GetTokenCall
  | ClockRead int
  | HttpRequest request
  | HttpResponse "js_error + response"

record 'w world =
  env :: 'w
  trace :: "event list"

text \<open>
  \<open>ToNumber\<close>, as the operator \<open>-\<close> applies it to its operands.  An array or an
  object is converted through its string form.
\<close>

fun ToNumber :: "'w platform \<Rightarrow> jsval \<Rightarrow> jsnum" where
  "ToNumber P JUndefined = NaN"
| "ToNumber P JNull = Num 0"
| "ToNumber P (JBool b) = Num (if b then 1 else 0)"
| "ToNumber P (JNum n) = n"
| "ToNumber P (JStr s) = StringToNumber P s"
| "ToNumber P (JArr xs) = StringToNumber P (ToString (JArr xs))"
| "ToNumber P (JObj kvs) = StringToNumber P (ToString (JObj kvs))"

section \<open>The TypeScript client: class SendPulseClient\<close>

record TokenData =
  access_token :: jsval
  expires_at :: jsnum

record client =
  clientId :: string
  clientSecret :: string
  apiUrl :: string
  token :: "TokenData option"

text \<open>The constructor, with its default arguments.\<close>

definition SendPulseClient :: "string \<Rightarrow> string option \<Rightarrow> string option \<Rightarrow> client" where
  "SendPulseClient cid secret api =
     \<lparr>clientId = cid,
      clientSecret = (case secret of None \<Rightarrow> [] | Some s \<Rightarrow> s),
      apiUrl = (case api of None \<Rightarrow> ''https://api.sendpulse.com'' | Some u \<Rightarrow> u),
      token = None\<rparr>"

text \<open>
  \<open>sendRequest\<close> and \<open>getToken\<close> call each other.  Every function of the client
  returns its result (\<open>Inl\<close> a thrown error), the client and the world.
\<close>

function sendRequest ::
    "'w platform \<Rightarrow> client \<Rightarrow> 'w world \<Rightarrow> string \<Rightarrow> jsval \<Rightarrow> jsval \<Rightarrow> bool
      \<Rightarrow> (js_error + jsval) \<times> client \<times> 'w world"
  and getToken ::
    "'w platform \<Rightarrow> client \<Rightarrow> 'w world \<Rightarrow> (js_error + unit) \<times> client \<times> 'w world"
where
  "sendRequest P c w path method0 dat useToken =
     (let meth = (if method0 = JUndefined then JStr ''POST'' else method0) in
      case Buffer_byteLength (JSON_stringify dat) of
        Inl e \<Rightarrow> (Inl e, c, w)
      | Inr len \<Rightarrow>
          let headers0 =
                set_prop (set_prop [] ''Content-Type'' (JStr ''application/json''))
                  ''Content-Length'' (JNum (Num (int len)));
              (auth, c1, w1) =
                (if useToken then
                   (let (fetched, c', w') =
                          (case token c of
                             None \<Rightarrow> getToken P c w
                           | Some t \<Rightarrow>
                               let now = Date_now P (env w);
                                   wn = w\<lparr>trace := trace w @ [ClockRead now]\<rparr>
                               in if num_ge (Num now) (expires_at t)
                                  then getToken P c wn
                                  else (Inr (), c, wn))
                    in case fetched of
                         Inl e \<Rightarrow> (Inl e, c', w')
                       | Inr u \<Rightarrow>
                           (case token c' of
                              None \<Rightarrow>
                                (Inl (TypeError
                                   ''Cannot read properties of undefined (reading access_token)''),
                                 c', w')
                            | Some t' \<Rightarrow>
                                (Inr (set_prop headers0 ''Authorization''
                                        (JStr (''Bearer '' @ ToString (access_token t')))),
                                 c', w')))
                 else (Inr headers0, c, w))
          in case auth of
               Inl e \<Rightarrow> (Inl e, c1, w1)
             | Inr hdrs \<Rightarrow>
                 (case URL_href P path (apiUrl c1) of
                    Inl e \<Rightarrow> (Inl e, c1, w1)
                  | Inr href \<Rightarrow>
                      let req = \<lparr>http_method = meth, url = href, data = dat, headers = hdrs\<rparr>;
                          (res, env') = axios_request P req (env w1);
                          w2 = w1\<lparr>env := env',
                                  trace := trace w1 @ [HttpRequest req, HttpResponse res]\<rparr>
                      in (case res of
                            Inl e \<Rightarrow> (Inl e, c1, w2)
                          | Inr resp \<Rightarrow> (Inr (response_data resp), c1, w2))))"
| "getToken P c w =
     (let w0 = w\<lparr>trace := trace w @ [GetTokenCall]\<rparr>;
          (res, c1, w1) =
            sendRequest P c w0 ''oauth/access_token'' (JStr ''POST'')
              (JObj [(''grant_type'', JStr ''client_credentials''),
                     (''client_id'', JStr (clientId c)),
                     (''client_secret'', JStr (clientSecret c))])
              False
      in case res of
           Inl e \<Rightarrow> (Inl e, c1, w1)
         | Inr dat \<Rightarrow>
             (case get_prop dat ''access_token'' of
                Inl e \<Rightarrow> (Inl e, c1, w1)
              | Inr tok \<Rightarrow>
                  let now = Date_now P (env w1);
                      w2 = w1\<lparr>trace := trace w1 @ [ClockRead now]\<rparr>
                  in (case get_prop dat ''expires_in'' of
                        Inl e \<Rightarrow> (Inl e, c1, w2)
                      | Inr ei \<Rightarrow>
                          (Inr (),
                           c1\<lparr>token := Some
                                \<lparr>access_token = tok,
                                 expires_at =
                                   num_add (Num now)
                                     (num_mul (num_sub (ToNumber P ei) (Num 60)) (Num 1000))\<rparr>\<rparr>,
                           w2))))"
  by pat_completeness auto
termination
  by (relation "measure (\<lambda>x. case x of
                    Inl (P, c, w, path, m, d, u) \<Rightarrow> (if u then 2 else 0)
                  | Inr (P, c, w) \<Rightarrow> 1)") auto

declare sendRequest.simps [simp del] getToken.simps [simp del]

subsection \<open>Helpers for the guards of the wrappers\<close>

text \<open>\<open>x.length\<close> used as a condition: the property is read, then tested for truth.\<close>

definition has_length :: "jsval \<Rightarrow> js_error + bool" where
  "has_length x = (case get_prop x ''length'' of Inl e \<Rightarrow> Inl e | Inr l \<Rightarrow> Inr (truthy l))"

fun isArray :: "jsval \<Rightarrow> bool" where
  "isArray (JArr xs) = True"
| "isArray _ = False"

fun typeof :: "jsval \<Rightarrow> string" where
  "typeof JUndefined = ''undefined''"
| "typeof JNull = ''object''"
| "typeof (JBool b) = ''boolean''"
| "typeof (JNum n) = ''number''"
| "typeof (JStr s) = ''string''"
| "typeof (JArr xs) = ''object''"
| "typeof (JObj kvs) = ''object''"

text \<open>
  The payload of the wrappers that take an array or a single string:
  \<^verbatim>\<open>
  if (Array.isArray(xs) && xs.length) data[key] = JSON.stringify(xs);
  else if (typeof xs === 'string') data[key] = JSON.stringify([xs]);\<close>
  The source repeats these lines in each such wrapper.
\<close>

definition set_list_or_string ::
    "(string \<times> jsval) list \<Rightarrow> string \<Rightarrow> jsval \<Rightarrow> js_error + (string \<times> jsval) list" where
  "set_list_or_string dat key xs =
     (case (if isArray xs then has_length xs else Inr False) of
        Inl e \<Rightarrow> Inl e
      | Inr b \<Rightarrow>
          Inr (if b then set_prop dat key (JSON_stringify xs)
               else if typeof xs = ''string'' then set_prop dat key (JSON_stringify (JArr [xs]))
               else dat))"

subsection \<open>The helpers of util.mts\<close>

text \<open>
  What \<open>for (key in x)\<close> visits, each key with \<open>x[key]\<close>: the indices of an
  array or of a string and the properties of an object, in their order.  Every other
  value, \<open>null\<close> and \<open>undefined\<close> included, has none.
\<close>

fun own_entries :: "jsval \<Rightarrow> (string \<times> jsval) list" where
  "own_entries (JStr s) = zip (map digits [0..<length s]) (map (\<lambda>ch. JStr [ch]) s)"
| "own_entries (JArr xs) = zip (map digits [0..<length xs]) xs"
| "own_entries (JObj kvs) = kvs"
| "own_entries _ = []"

text \<open>\<open>Object.assign(target, source)\<close> on the properties of two objects.\<close>

definition Object_assign ::
    "(string \<times> jsval) list \<Rightarrow> (string \<times> jsval) list \<Rightarrow> (string \<times> jsval) list" where
  "Object_assign target source = fold (\<lambda>kv obj. set_prop obj (fst kv) (snd kv)) source target"

text \<open>
  \<open>serializeArray(params, prefix)\<close> flattens nested parameters into keys with
  brackets.  A value of type \<open>object\<close> (an array, an object or \<open>null\<close>) is
  flattened in its turn; no value of the model is a \<open>Date\<close>.
\<close>

function serializeArray :: "jsval \<Rightarrow> jsval \<Rightarrow> (string \<times> jsval) list" where
  "serializeArray params prefix =
     fold (\<lambda>kv result.
             let key = fst kv;
                 value = snd kv;
                 name = (if prefix \<noteq> JUndefined then ToString prefix @ ''['' @ key @ '']''
                         else key)
             in if typeof value = ''object''
                then Object_assign result (serializeArray value (JStr name))
                else set_prop result name value)
          (own_entries params) []"
  by pat_completeness auto
termination
proof (relation "measure (\<lambda>(params, prefix). size params)")
  show "wf (measure (\<lambda>(params, prefix). size params))" by simp
next
  fix params prefix v :: jsval and kv :: "string \<times> jsval" and name :: string
  assume mem: "kv \<in> set (own_entries params)" and val: "v = snd kv"
    and obj: "typeof v = ''object''"
  have "size v < size params"
  proof (cases params)
    case (JStr s)
    with mem val obj show ?thesis by (auto simp: set_zip)
  next
    case (JArr xs)
    with mem val have "(fst kv, v) \<in> set (zip (map digits [0..<length xs]) xs)" by simp
    then have "v \<in> set xs" by (rule set_zip_rightD)
    then have "size v < Suc (size_list size xs)"
      by (simp add: less_Suc_eq_le size_list_estimation')
    with JArr show ?thesis by simp
  next
    case (JObj kvs)
    with mem have "kv \<in> set kvs" by simp
    then have "size (snd kv) < Suc (size_list (size_prod (\<lambda>_. 0) size) kvs)"
      by (induction kvs) (auto simp: less_Suc_eq_le)
    with JObj val show ?thesis by simp
  qed (use mem in simp_all)
  then show "((v, JStr name), (params, prefix)) \<in> measure (\<lambda>(params, prefix). size params)"
    by simp
qed

declare serializeArray.simps [simp del]

text \<open>
  \<open>base64(data)\<close>.  The client runs under Node (\<open>sendRequest\<close> calls
  \<open>Buffer.byteLength\<close>), where no \<open>window\<close> is defined and the function is
  \<open>Buffer.from(data, "utf-8").toString("base64")\<close>.
\<close>

definition base64 :: "'w platform \<Rightarrow> jsval \<Rightarrow> js_error + string" where
  "base64 P data' = Buffer_from_base64 P data'"

subsection \<open>Per-endpoint wrappers\<close>

text \<open>All the methods of the class, in the order of the source.\<close>

definition listAddressBooks ::
    "'w platform \<Rightarrow> client \<Rightarrow> 'w world \<Rightarrow> (js_error + jsval) \<times> client \<times> 'w world" where
  "listAddressBooks P c w = sendRequest P c w ''addressbooks'' (JStr ''GET'') (JObj []) True"

definition createAddressBook ::
    "'w platform \<Rightarrow> client \<Rightarrow> 'w world \<Rightarrow> jsval \<Rightarrow> (js_error + jsval) \<times> client \<times> 'w world" where
  "createAddressBook P c w book_name =
     (if book_name = JUndefined then (Inl (Error ''Empty book name''), c, w)
      else let dat = [(''name'', book_name)]
           in sendRequest P c w ''addressbooks'' (JStr ''POST'') (JObj dat) True)"

definition editAddressBook ::
    "'w platform \<Rightarrow> client \<Rightarrow> 'w world \<Rightarrow> jsval \<Rightarrow> jsval
      \<Rightarrow> (js_error + jsval) \<times> client \<times> 'w world" where
  "editAddressBook P c w id' new_name =
     (if id' = JUndefined \<or> new_name = JUndefined
      then (Inl (Error ''Empty book id or new name''), c, w)
      else let dat = [(''id'', id'), (''name'', new_name)]
           in sendRequest P c w ''addressbooks'' (JStr ''PUT'') (JObj dat) True)"

definition removeAddressBook ::
    "'w platform \<Rightarrow> client \<Rightarrow> 'w world \<Rightarrow> jsval
      \<Rightarrow> (js_error + jsval) \<times> client \<times> 'w world" where
  "removeAddressBook P c w id' =
     (if id' = JUndefined
      then (Inl (Error ''Empty book id''), c, w)
      else let dat = [(''id'', id')]
           in sendRequest P c w ''addressbooks'' (JStr ''DELETE'') (JObj dat) True)"

definition listEmailTemplates ::
    "'w platform \<Rightarrow> client \<Rightarrow> 'w world \<Rightarrow> (js_error + jsval) \<times> client \<times> 'w world" where
  "listEmailTemplates P c w = sendRequest P c w ''template'' (JStr ''GET'') (JObj []) True"

definition getEmailTemplate ::
    "'w platform \<Rightarrow> client \<Rightarrow> 'w world \<Rightarrow> jsval
      \<Rightarrow> (js_error + jsval) \<times> client \<times> 'w world" where
  "getEmailTemplate P c w id' =
     (if id' = JUndefined
      then (Inl (Error ''Empty template id''), c, w)
      else let dat = [(''id'', id')]
           in sendRequest P c w ''template'' (JStr ''GET'') (JObj dat) True)"

definition getBookInfo ::
    "'w platform \<Rightarrow> client \<Rightarrow> 'w world \<Rightarrow> jsval
      \<Rightarrow> (js_error + jsval) \<times> client \<times> 'w world" where
  "getBookInfo P c w id' =
     (if id' = JUndefined
      then (Inl (Error ''Empty book id''), c, w)
      else let dat = [(''id'', id')]
           in sendRequest P c w ''addressbooks/info'' (JStr ''GET'') (JObj dat) True)"

definition getAddressBookEmails ::
    "'w platform \<Rightarrow> client \<Rightarrow> 'w world \<Rightarrow> jsval
      \<Rightarrow> (js_error + jsval) \<times> client \<times> 'w world" where
  "getAddressBookEmails P c w id' =
     (if id' = JUndefined
      then (Inl (Error ''Empty book id''), c, w)
      else let dat = [(''id'', id')]
           in sendRequest P c w ''addressbooks/emails'' (JStr ''GET'') (JObj dat) True)"

definition addAddressBookEmails ::
    "'w platform \<Rightarrow> client \<Rightarrow> 'w world \<Rightarrow> jsval \<Rightarrow> jsval
      \<Rightarrow> (js_error + jsval) \<times> client \<times> 'w world" where
  "addAddressBookEmails P c w book_id emails =
     (if book_id = JUndefined \<or> emails = JUndefined
      then (Inl (Error ''Empty book id or emails''), c, w)
      else let dat = [(''addressBookId'', book_id)]
           in case has_length emails of
                Inl e \<Rightarrow> (Inl e, c, w)
              | Inr b \<Rightarrow>
                  sendRequest P c w ''addressbooks/emails'' (JStr ''POST'')
                    (JObj (if b then set_prop dat ''emails'' (JSON_stringify emails) else dat))
                    True)"

definition removeAddressBookEmails ::
    "'w platform \<Rightarrow> client \<Rightarrow> 'w world \<Rightarrow> jsval \<Rightarrow> jsval
      \<Rightarrow> (js_error + jsval) \<times> client \<times> 'w world" where
  "removeAddressBookEmails P c w book_id emails =
     (if book_id = JUndefined \<or> emails = JUndefined
      then (Inl (Error ''Empty book id or emails''), c, w)
      else let dat = [(''addressBookId'', book_id)]
           in case has_length emails of
                Inl e \<Rightarrow> (Inl e, c, w)
              | Inr b \<Rightarrow>
                  sendRequest P c w ''addressbooks/emails'' (JStr ''DELETE'')
                    (JObj (if b then set_prop dat ''emails'' (JSON_stringify emails) else dat))
                    True)"

definition getEmailInfo ::
    "'w platform \<Rightarrow> client \<Rightarrow> 'w world \<Rightarrow> jsval
      \<Rightarrow> (js_error + jsval) \<times> client \<times> 'w world" where
  "getEmailInfo P c w email =
     (if email = JUndefined
      then (Inl (Error ''Empty email''), c, w)
      else let dat = [(''email'', email)]
           in case base64 P email of
                Inl e \<Rightarrow> (Inl e, c, w)
              | Inr b \<Rightarrow>
                  sendRequest P c w (''emails/'' @ b) (JStr ''GET'') (JObj dat) True)"

definition updateEmailVariables ::
    "'w platform \<Rightarrow> client \<Rightarrow> 'w world \<Rightarrow> jsval \<Rightarrow> jsval \<Rightarrow> jsval
      \<Rightarrow> (js_error + jsval) \<times> client \<times> 'w world" where
  "updateEmailVariables P c w book_id email variables =
     (if book_id = JUndefined \<or> email = JUndefined \<or> variables = JUndefined
      then (Inl (Error ''Empty book id or email or variables''), c, w)
      else let dat = [(''addressBookId'', book_id), (''email'', email),
                      (''variables'', variables)]
           in sendRequest P c w ''addressbooks/emails/variable'' (JStr ''PUT'') (JObj dat) True)"

text \<open>
  \<open>campaignCost\<close> and \<open>createCampaign\<close> differ in the verb only.  The argument
  \<open>body\<close> is not guarded.
\<close>

definition campaignCost ::
    "'w platform \<Rightarrow> client \<Rightarrow> 'w world \<Rightarrow> jsval \<Rightarrow> jsval \<Rightarrow> jsval \<Rightarrow> jsval \<Rightarrow> jsval \<Rightarrow> jsval
      \<Rightarrow> jsval \<Rightarrow> (js_error + jsval) \<times> client \<times> 'w world" where
  "campaignCost P c w name subject from from_name body book_id emails =
     (if name = JUndefined \<or> subject = JUndefined
      then (Inl (Error ''Empty campaign name or subject''), c, w)
      else if from = JUndefined \<or> from_name = JUndefined
      then (Inl (Error ''Empty sender credentials''), c, w)
      else if book_id = JUndefined \<and> emails = JUndefined
      then (Inl (Error ''Empty book id and emails array''), c, w)
      else let dat = [(''name'', name), (''subject'', subject), (''from'', from),
                      (''fromName'', from_name), (''body'', body)];
               dat1 = (if book_id \<noteq> JUndefined then set_prop dat ''addressBookId'' book_id
                       else dat)
           in case (if emails \<noteq> JUndefined then has_length emails else Inr False) of
                Inl e \<Rightarrow> (Inl e, c, w)
              | Inr b \<Rightarrow>
                  sendRequest P c w ''campaigns'' (JStr ''GET'')
                    (JObj (if b then set_prop dat1 ''emails'' (JSON_stringify emails) else dat1))
                    True)"

definition listCampaigns ::
    "'w platform \<Rightarrow> client \<Rightarrow> 'w world \<Rightarrow> jsval \<Rightarrow> jsval
      \<Rightarrow> (js_error + jsval) \<times> client \<times> 'w world" where
  "listCampaigns P c w limit offset =
     (let dat = [];
          dat1 = (if limit \<noteq> JUndefined then set_prop dat ''limit'' limit else dat);
          dat2 = (if offset \<noteq> JUndefined then set_prop dat1 ''offset'' offset else dat1)
      in sendRequest P c w ''campaigns'' (JStr ''GET'') (JObj dat2) True)"

definition getCampaignInfo ::
    "'w platform \<Rightarrow> client \<Rightarrow> 'w world \<Rightarrow> jsval
      \<Rightarrow> (js_error + jsval) \<times> client \<times> 'w world" where
  "getCampaignInfo P c w id' =
     (if id' = JUndefined
      then (Inl (Error ''Empty campaign id''), c, w)
      else let dat = [(''id'', id')]
           in sendRequest P c w (''campaigns/'' @ ToString id') (JStr ''GET'') (JObj dat) True)"

definition campaignStatByCountries ::
    "'w platform \<Rightarrow> client \<Rightarrow> 'w world \<Rightarrow> jsval
      \<Rightarrow> (js_error + jsval) \<times> client \<times> 'w world" where
  "campaignStatByCountries P c w id' =
     (if id' = JUndefined
      then (Inl (Error ''Empty campaign id''), c, w)
      else let dat = [(''id'', id')]
           in sendRequest P c w (''campaigns/'' @ ToString id' @ ''/countries'')
             (JStr ''GET'') (JObj dat) True)"

definition campaignStatByReferrals ::
    "'w platform \<Rightarrow> client \<Rightarrow> 'w world \<Rightarrow> jsval
      \<Rightarrow> (js_error + jsval) \<times> client \<times> 'w world" where
  "campaignStatByReferrals P c w id' =
     (if id' = JUndefined
      then (Inl (Error ''Empty campaign id''), c, w)
      else let dat = [(''id'', id')]
           in sendRequest P c w (''campaigns/'' @ ToString id' @ ''/referrals'')
             (JStr ''GET'') (JObj dat) True)"

definition createCampaign ::
    "'w platform \<Rightarrow> client \<Rightarrow> 'w world \<Rightarrow> jsval \<Rightarrow> jsval \<Rightarrow> jsval \<Rightarrow> jsval \<Rightarrow> jsval \<Rightarrow> jsval
      \<Rightarrow> jsval \<Rightarrow> (js_error + jsval) \<times> client \<times> 'w world" where
  "createCampaign P c w name subject from from_name body book_id emails =
     (if name = JUndefined \<or> subject = JUndefined
      then (Inl (Error ''Empty campaign name or subject''), c, w)
      else if from = JUndefined \<or> from_name = JUndefined
      then (Inl (Error ''Empty sender credentials''), c, w)
      else if book_id = JUndefined \<and> emails = JUndefined
      then (Inl (Error ''Empty book id and emails array''), c, w)
      else let dat = [(''name'', name), (''subject'', subject), (''from'', from),
                      (''fromName'', from_name), (''body'', body)];
               dat1 = (if book_id \<noteq> JUndefined then set_prop dat ''addressBookId'' book_id
                       else dat)
           in case (if emails \<noteq> JUndefined then has_length emails else Inr False) of
                Inl e \<Rightarrow> (Inl e, c, w)
              | Inr b \<Rightarrow>
                  sendRequest P c w ''campaigns'' (JStr ''POST'')
                    (JObj (if b then set_prop dat1 ''emails'' (JSON_stringify emails) else dat1))
                    True)"

definition cancelCampaign ::
    "'w platform \<Rightarrow> client \<Rightarrow> 'w world \<Rightarrow> jsval
      \<Rightarrow> (js_error + jsval) \<times> client \<times> 'w world" where
  "cancelCampaign P c w id' =
     (if id' = JUndefined
      then (Inl (Error ''Empty campaign id''), c, w)
      else let dat = [(''id'', id')]
           in sendRequest P c w ''campaigns'' (JStr ''DELETE'') (JObj dat) True)"

definition listSenders ::
    "'w platform \<Rightarrow> client \<Rightarrow> 'w world \<Rightarrow> (js_error + jsval) \<times> client \<times> 'w world" where
  "listSenders P c w = sendRequest P c w ''senders'' (JStr ''GET'') (JObj []) True"

definition addSender ::
    "'w platform \<Rightarrow> client \<Rightarrow> 'w world \<Rightarrow> jsval \<Rightarrow> jsval
      \<Rightarrow> (js_error + jsval) \<times> client \<times> 'w world" where
  "addSender P c w email name =
     (if email = JUndefined \<or> name = JUndefined
      then (Inl (Error ''Empty sender email or name''), c, w)
      else let dat = [(''email'', email), (''name'', name)]
           in sendRequest P c w ''senders'' (JStr ''POST'') (JObj dat) True)"

definition removeSender ::
    "'w platform \<Rightarrow> client \<Rightarrow> 'w world \<Rightarrow> jsval
      \<Rightarrow> (js_error + jsval) \<times> client \<times> 'w world" where
  "removeSender P c w email =
     (if email = JUndefined
      then (Inl (Error ''Empty sender email''), c, w)
      else let dat = [(''email'', email)]
           in sendRequest P c w ''senders'' (JStr ''DELETE'') (JObj dat) True)"

definition activateSender ::
    "'w platform \<Rightarrow> client \<Rightarrow> 'w world \<Rightarrow> jsval \<Rightarrow> jsval
      \<Rightarrow> (js_error + jsval) \<times> client \<times> 'w world" where
  "activateSender P c w email code =
     (if email = JUndefined \<or> code = JUndefined
      then (Inl (Error ''Empty sender email or activation code''), c, w)
      else let dat = [(''email'', email), (''code'', code)]
           in sendRequest P c w ''senders/activate'' (JStr ''POST'') (JObj dat) True)"

definition getSenderActivationMail ::
    "'w platform \<Rightarrow> client \<Rightarrow> 'w world \<Rightarrow> jsval
      \<Rightarrow> (js_error + jsval) \<times> client \<times> 'w world" where
  "getSenderActivationMail P c w email =
     (if email = JUndefined
      then (Inl (Error ''Empty sender email''), c, w)
      else let dat = [(''email'', email)]
           in sendRequest P c w ''senders/activationMail'' (JStr ''POST'') (JObj dat) True)"

definition getEmailGlobalInfo ::
    "'w platform \<Rightarrow> client \<Rightarrow> 'w world \<Rightarrow> jsval
      \<Rightarrow> (js_error + jsval) \<times> client \<times> 'w world" where
  "getEmailGlobalInfo P c w email =
     (if email = JUndefined
      then (Inl (Error ''Empty email''), c, w)
      else let dat = [(''email'', email)]
           in case base64 P email of
                Inl e \<Rightarrow> (Inl e, c, w)
              | Inr b \<Rightarrow>
                  sendRequest P c w (''emails/'' @ b) (JStr ''GET'') (JObj dat) True)"

definition removeEmailFromAllBooks ::
    "'w platform \<Rightarrow> client \<Rightarrow> 'w world \<Rightarrow> jsval
      \<Rightarrow> (js_error + jsval) \<times> client \<times> 'w world" where
  "removeEmailFromAllBooks P c w email =
     (if email = JUndefined
      then (Inl (Error ''Empty email''), c, w)
      else let dat = [(''email'', email)]
           in case base64 P email of
                Inl e \<Rightarrow> (Inl e, c, w)
              | Inr b \<Rightarrow>
                  sendRequest P c w (''emails/'' @ b) (JStr ''DELETE'') (JObj dat) True)"

definition emailStatByCampaigns ::
    "'w platform \<Rightarrow> client \<Rightarrow> 'w world \<Rightarrow> jsval
      \<Rightarrow> (js_error + jsval) \<times> client \<times> 'w world" where
  "emailStatByCampaigns P c w email =
     (if email = JUndefined
      then (Inl (Error ''Empty email''), c, w)
      else let dat = [(''email'', email)]
           in case base64 P email of
                Inl e \<Rightarrow> (Inl e, c, w)
              | Inr b \<Rightarrow>
                  sendRequest P c w (''emails/'' @ b @ ''/campaigns'')
                    (JStr ''GET'') (JObj dat) True)"

definition getBlackList ::
    "'w platform \<Rightarrow> client \<Rightarrow> 'w world \<Rightarrow> (js_error + jsval) \<times> client \<times> 'w world" where
  "getBlackList P c w = sendRequest P c w ''blacklist'' (JStr ''GET'') (JObj []) True"

definition addToBlackList ::
    "'w platform \<Rightarrow> client \<Rightarrow> 'w world \<Rightarrow> jsval \<Rightarrow> jsval \<Rightarrow> (js_error + jsval) \<times> client \<times> 'w world" where
  "addToBlackList P c w emails comment =
     (if emails = JUndefined then (Inl (Error ''Empty email''), c, w)
      else case set_list_or_string [] ''emails'' emails of
             Inl e \<Rightarrow> (Inl e, c, w)
           | Inr dat \<Rightarrow>
               let dat1 = (if comment \<noteq> JUndefined then set_prop dat ''comment'' comment
                           else dat)
               in sendRequest P c w ''blacklist'' (JStr ''POST'') (JObj dat1) True)"

definition removeFromBlackList ::
    "'w platform \<Rightarrow> client \<Rightarrow> 'w world \<Rightarrow> jsval \<Rightarrow> (js_error + jsval) \<times> client \<times> 'w world" where
  "removeFromBlackList P c w emails =
     (if emails = JUndefined then (Inl (Error ''Empty email''), c, w)
      else case set_list_or_string [] ''emails'' emails of
             Inl e \<Rightarrow> (Inl e, c, w)
           | Inr dat \<Rightarrow>
               sendRequest P c w ''blacklist'' (JStr ''DELETE'') (JObj dat) True)"

definition getBalance ::
    "'w platform \<Rightarrow> client \<Rightarrow> 'w world \<Rightarrow> jsval
      \<Rightarrow> (js_error + jsval) \<times> client \<times> 'w world" where
  "getBalance P c w currency =
     (let dat = [];
          dat1 = (if currency \<noteq> JUndefined then set_prop dat ''currency'' currency else dat)
      in sendRequest P c w ''balance'' (JStr ''GET'') (JObj dat1) True)"

definition smtpListEmails ::
    "'w platform \<Rightarrow> client \<Rightarrow> 'w world \<Rightarrow> jsval \<Rightarrow> jsval \<Rightarrow> jsval \<Rightarrow> jsval
      \<Rightarrow> (js_error + jsval) \<times> client \<times> 'w world" where
  "smtpListEmails P c w limit offset from to =
     (let dat = [];
          dat1 = (if limit \<noteq> JUndefined then set_prop dat ''limit'' limit else dat);
          dat2 = (if offset \<noteq> JUndefined then set_prop dat1 ''offset'' offset else dat1);
          dat3 = (if from \<noteq> JUndefined then set_prop dat2 ''from'' from else dat2);
          dat4 = (if to \<noteq> JUndefined then set_prop dat3 ''to'' to else dat3)
      in sendRequest P c w ''smtp/emails'' (JStr ''GET'') (JObj dat4) True)"

definition smtpGetEmailInfoById ::
    "'w platform \<Rightarrow> client \<Rightarrow> 'w world \<Rightarrow> jsval
      \<Rightarrow> (js_error + jsval) \<times> client \<times> 'w world" where
  "smtpGetEmailInfoById P c w id' =
     (if id' = JUndefined
      then (Inl (Error ''Empty email id''), c, w)
      else let dat = [(''id'', id')]
           in sendRequest P c w (''smtp/emails/'' @ ToString id') (JStr ''GET'') (JObj dat) True)"

definition smtpUnsubscribeEmails ::
    "'w platform \<Rightarrow> client \<Rightarrow> 'w world \<Rightarrow> jsval \<Rightarrow> (js_error + jsval) \<times> client \<times> 'w world" where
  "smtpUnsubscribeEmails P c w emails =
     (if emails = JUndefined then (Inl (Error ''Empty email''), c, w)
      else case set_list_or_string [] ''emails'' emails of
             Inl e \<Rightarrow> (Inl e, c, w)
           | Inr dat \<Rightarrow>
               sendRequest P c w ''smtp/unsubscribe'' (JStr ''POST'') (JObj dat) True)"

definition smtpRemoveFromUnsubscribe ::
    "'w platform \<Rightarrow> client \<Rightarrow> 'w world \<Rightarrow> jsval \<Rightarrow> (js_error + jsval) \<times> client \<times> 'w world" where
  "smtpRemoveFromUnsubscribe P c w emails =
     (if emails = JUndefined then (Inl (Error ''Empty email''), c, w)
      else case set_list_or_string [] ''emails'' emails of
             Inl e \<Rightarrow> (Inl e, c, w)
           | Inr dat \<Rightarrow>
               sendRequest P c w ''smtp/unsubscribe'' (JStr ''DELETE'') (JObj dat) True)"

definition smtpListIP ::
    "'w platform \<Rightarrow> client \<Rightarrow> 'w world \<Rightarrow> (js_error + jsval) \<times> client \<times> 'w world" where
  "smtpListIP P c w = sendRequest P c w ''smtp/ips'' (JStr ''GET'') (JObj []) True"

definition smtpListAllowedDomains ::
    "'w platform \<Rightarrow> client \<Rightarrow> 'w world \<Rightarrow> (js_error + jsval) \<times> client \<times> 'w world" where
  "smtpListAllowedDomains P c w =
     sendRequest P c w ''smtp/domains'' (JStr ''GET'') (JObj []) True"

definition smtpAddDomain ::
    "'w platform \<Rightarrow> client \<Rightarrow> 'w world \<Rightarrow> jsval
      \<Rightarrow> (js_error + jsval) \<times> client \<times> 'w world" where
  "smtpAddDomain P c w email =
     (if email = JUndefined
      then (Inl (Error ''Empty domain name''), c, w)
      else let dat = [(''email'', email)]
           in sendRequest P c w ''smtp/domains'' (JStr ''POST'') (JObj dat) True)"

definition smtpVerifyDomain ::
    "'w platform \<Rightarrow> client \<Rightarrow> 'w world \<Rightarrow> jsval
      \<Rightarrow> (js_error + jsval) \<times> client \<times> 'w world" where
  "smtpVerifyDomain P c w email =
     (if email = JUndefined
      then (Inl (Error ''Empty domain name''), c, w)
      else let dat = [(''email'', email)]
           in sendRequest P c w ''smtp/domains/verify'' (JStr ''POST'') (JObj dat) True)"

text \<open>
  \<open>smtpSendMail\<close> renames the keys \<open>html\<close>, \<open>text\<close> and
  \<open>subject\<close> and flattens every value that is an object or an array.
\<close>

definition smtpSendMail ::
    "'w platform \<Rightarrow> client \<Rightarrow> 'w world \<Rightarrow> jsval
      \<Rightarrow> (js_error + jsval) \<times> client \<times> 'w world" where
  "smtpSendMail P c w email =
     (if email = JUndefined then (Inl (Error ''Empty email data''), c, w)
      else let dat =
                 fold (\<lambda>kv data.
                         let key = fst kv;
                             name' = (if key = ''html'' \<or> key = ''text'' then key @ ''_body''
                                      else if key = ''subject'' then ''subj''
                                      else key);
                             data' = snd kv
                         in if typeof data' = ''object'' \<and> data' \<noteq> JNull
                            then Object_assign data (serializeArray data' (JStr name'))
                            else set_prop data name' data')
                      (own_entries email) []
           in sendRequest P c w ''smtp/emails'' (JStr ''POST'') (JObj dat) True)"

definition smsGetBlackList ::
    "'w platform \<Rightarrow> client \<Rightarrow> 'w world \<Rightarrow> (js_error + jsval) \<times> client \<times> 'w world" where
  "smsGetBlackList P c w =
     sendRequest P c w ''sms/black_list/list'' (JStr ''GET'') (JObj []) True"

definition smsAddPhones ::
    "'w platform \<Rightarrow> client \<Rightarrow> 'w world \<Rightarrow> jsval \<Rightarrow> jsval \<Rightarrow> (js_error + jsval) \<times> client \<times> 'w world" where
  "smsAddPhones P c w phones comment =
     (if phones = JUndefined then (Inl (Error ''Empty phones''), c, w)
      else case set_list_or_string [] ''phones'' phones of
             Inl e \<Rightarrow> (Inl e, c, w)
           | Inr dat \<Rightarrow>
               let dat1 = (if comment \<noteq> JUndefined then set_prop dat ''comment'' comment
                           else dat)
               in sendRequest P c w ''sms/black_list/add'' (JStr ''POST'') (JObj dat1) True)"

definition smsAddPhonesWithVariables ::
    "'w platform \<Rightarrow> client \<Rightarrow> 'w world \<Rightarrow> jsval \<Rightarrow> (js_error + jsval) \<times> client \<times> 'w world" where
  "smsAddPhonesWithVariables P c w phones =
     (if phones = JUndefined then (Inl (Error ''Empty phones''), c, w)
      else case has_length phones of
             Inl e \<Rightarrow> (Inl e, c, w)
           | Inr b \<Rightarrow>
               sendRequest P c w ''sms/black_list/add'' (JStr ''POST'')
                 (JObj (if b then set_prop [] ''phones'' (JSON_stringify phones) else []))
                 True)"

definition smsRemovePhones ::
    "'w platform \<Rightarrow> client \<Rightarrow> 'w world \<Rightarrow> jsval \<Rightarrow> (js_error + jsval) \<times> client \<times> 'w world" where
  "smsRemovePhones P c w phones =
     (if phones = JUndefined then (Inl (Error ''Empty phones''), c, w)
      else case set_list_or_string [] ''phones'' phones of
             Inl e \<Rightarrow> (Inl e, c, w)
           | Inr dat \<Rightarrow>
               sendRequest P c w ''sms/black_list/remove'' (JStr ''POST'') (JObj dat) True)"

definition smsGetPhoneInfo ::
    "'w platform \<Rightarrow> client \<Rightarrow> 'w world \<Rightarrow> jsval
      \<Rightarrow> (js_error + jsval) \<times> client \<times> 'w world" where
  "smsGetPhoneInfo P c w phone =
     (if phone = JUndefined
      then (Inl (Error ''Empty phone''), c, w)
      else let dat = [(''phone'', phone)]
           in sendRequest P c w ''sms/black_list/info'' (JStr ''GET'') (JObj dat) True)"

definition smsUpdatePhonesVariables ::
    "'w platform \<Rightarrow> client \<Rightarrow> 'w world \<Rightarrow> jsval \<Rightarrow> (js_error + jsval) \<times> client \<times> 'w world" where
  "smsUpdatePhonesVariables P c w phones =
     (if phones = JUndefined then (Inl (Error ''Empty phones''), c, w)
      else case has_length phones of
             Inl e \<Rightarrow> (Inl e, c, w)
           | Inr b \<Rightarrow>
               sendRequest P c w ''sms/black_list/edit'' (JStr ''POST'')
                 (JObj (if b then set_prop [] ''phones'' (JSON_stringify phones) else []))
                 True)"

definition smsGetPhonesInfoFromBlacklist ::
    "'w platform \<Rightarrow> client \<Rightarrow> 'w world \<Rightarrow> jsval \<Rightarrow> (js_error + jsval) \<times> client \<times> 'w world" where
  "smsGetPhonesInfoFromBlacklist P c w phones =
     (if phones = JUndefined then (Inl (Error ''Empty phones''), c, w)
      else case set_list_or_string [] ''phones'' phones of
             Inl e \<Rightarrow> (Inl e, c, w)
           | Inr dat \<Rightarrow>
               sendRequest P c w ''sms/black_list/check'' (JStr ''POST'') (JObj dat) True)"

definition smsAddPhonesToBlacklist ::
    "'w platform \<Rightarrow> client \<Rightarrow> 'w world \<Rightarrow> jsval \<Rightarrow> (js_error + jsval) \<times> client \<times> 'w world" where
  "smsAddPhonesToBlacklist P c w phones =
     (if phones = JUndefined then (Inl (Error ''Empty phones''), c, w)
      else case set_list_or_string [] ''phones'' phones of
             Inl e \<Rightarrow> (Inl e, c, w)
           | Inr dat \<Rightarrow>
               sendRequest P c w ''sms/black_list/add'' (JStr ''POST'') (JObj dat) True)"

definition smsDeletePhonesFromBlacklist ::
    "'w platform \<Rightarrow> client \<Rightarrow> 'w world \<Rightarrow> jsval \<Rightarrow> (js_error + jsval) \<times> client \<times> 'w world" where
  "smsDeletePhonesFromBlacklist P c w phones =
     (if phones = JUndefined then (Inl (Error ''Empty phones''), c, w)
      else case set_list_or_string [] ''phones'' phones of
             Inl e \<Rightarrow> (Inl e, c, w)
           | Inr dat \<Rightarrow>
               sendRequest P c w ''sms/black_list/delete'' (JStr ''POST'') (JObj dat) True)"

definition smsAddCampaign ::
    "'w platform \<Rightarrow> client \<Rightarrow> 'w world \<Rightarrow> jsval \<Rightarrow> jsval \<Rightarrow> jsval \<Rightarrow> jsval \<Rightarrow> (js_error + jsval) \<times> client \<times> 'w world" where
  "smsAddCampaign P c w sender_name body addressbook_id phones =
     (if sender_name = JUndefined then (Inl (Error ''Empty sender name''), c, w)
      else if body = JUndefined then (Inl (Error ''Empty sms text''), c, w)
      else if addressbook_id = JUndefined \<or> phones = JUndefined
      then (Inl (Error ''Empty book id or phones''), c, w)
      else case has_length phones of
             Inl e \<Rightarrow> (Inl e, c, w)
           | Inr b \<Rightarrow>
               if \<not> b then (Inl (Error ''Empty book id or phones''), c, w)
               else let dat = [(''sender'', sender_name), (''body'', body),
                               (''addressBookId'', addressbook_id)]
                    in case has_length phones of
                         Inl e \<Rightarrow> (Inl e, c, w)
                       | Inr b' \<Rightarrow>
                           sendRequest P c w ''sms/campaigns'' (JStr ''POST'')
                             (JObj (if b' then set_prop dat ''phones'' (JSON_stringify phones)
                                    else dat))
                             True)"

definition smsSend ::
    "'w platform \<Rightarrow> client \<Rightarrow> 'w world \<Rightarrow> jsval \<Rightarrow> jsval \<Rightarrow> jsval \<Rightarrow> jsval
      \<Rightarrow> (js_error + jsval) \<times> client \<times> 'w world" where
  "smsSend P c w sender_name body addressbook_id phones =
     (if sender_name = JUndefined then (Inl (Error ''Empty sender name''), c, w)
      else if body = JUndefined then (Inl (Error ''Empty sms text''), c, w)
      else if addressbook_id = JUndefined \<and> phones = JUndefined
      then (Inl (Error ''Empty book id and phones array''), c, w)
      else let dat = [(''sender'', sender_name), (''body'', body)];
               dat1 = (if addressbook_id \<noteq> JUndefined
                       then set_prop dat ''addressBookId'' addressbook_id else dat)
           in case (if phones \<noteq> JUndefined then has_length phones else Inr False) of
                Inl e \<Rightarrow> (Inl e, c, w)
              | Inr b \<Rightarrow>
                  sendRequest P c w ''sms/send'' (JStr ''POST'')
                    (JObj (if b then set_prop dat1 ''phones'' (JSON_stringify phones) else dat1))
                    True)"

definition smsGetListCampaigns ::
    "'w platform \<Rightarrow> client \<Rightarrow> 'w world \<Rightarrow> jsval \<Rightarrow> jsval
      \<Rightarrow> (js_error + jsval) \<times> client \<times> 'w world" where
  "smsGetListCampaigns P c w limit offset =
     (let dat = [];
          dat1 = (if limit \<noteq> JUndefined then set_prop dat ''limit'' limit else dat);
          dat2 = (if offset \<noteq> JUndefined then set_prop dat1 ''offset'' offset else dat1)
      in sendRequest P c w ''sms/campaigns'' (JStr ''GET'') (JObj dat2) True)"

definition smsGetCampaignInfo ::
    "'w platform \<Rightarrow> client \<Rightarrow> 'w world \<Rightarrow> jsval
      \<Rightarrow> (js_error + jsval) \<times> client \<times> 'w world" where
  "smsGetCampaignInfo P c w campaign_id =
     (if campaign_id = JUndefined
      then (Inl (Error ''Empty sms campaign id''), c, w)
      else let dat = [(''id'', campaign_id)]
           in sendRequest P c w ''sms/campaigns/info'' (JStr ''GET'') (JObj dat) True)"

definition smsCancelCampaign ::
    "'w platform \<Rightarrow> client \<Rightarrow> 'w world \<Rightarrow> jsval
      \<Rightarrow> (js_error + jsval) \<times> client \<times> 'w world" where
  "smsCancelCampaign P c w campaign_id =
     (if campaign_id = JUndefined
      then (Inl (Error ''Empty sms campaign id''), c, w)
      else let dat = [(''id'', campaign_id)]
           in sendRequest P c w ''sms/campaigns/cancel'' (JStr ''POST'') (JObj dat) True)"

definition smsGetCampaignCost ::
    "'w platform \<Rightarrow> client \<Rightarrow> 'w world \<Rightarrow> jsval \<Rightarrow> jsval \<Rightarrow> jsval \<Rightarrow> jsval \<Rightarrow> (js_error + jsval) \<times> client \<times> 'w world" where
  "smsGetCampaignCost P c w sender_name body addressbook_id phones =
     (if sender_name = JUndefined then (Inl (Error ''Empty sender name''), c, w)
      else if body = JUndefined then (Inl (Error ''Empty sms text''), c, w)
      else if addressbook_id = JUndefined \<or> phones = JUndefined
      then (Inl (Error ''Empty book id or phones''), c, w)
      else case has_length phones of
             Inl e \<Rightarrow> (Inl e, c, w)
           | Inr b \<Rightarrow>
               if \<not> b then (Inl (Error ''Empty book id or phones''), c, w)
               else let dat = [(''sender'', sender_name), (''body'', body),
                               (''addressBookId'', addressbook_id)]
                    in case has_length phones of
                         Inl e \<Rightarrow> (Inl e, c, w)
                       | Inr b' \<Rightarrow>
                           sendRequest P c w ''sms/campaigns/cost'' (JStr ''GET'')
                             (JObj (if b' then set_prop dat ''phones'' (JSON_stringify phones)
                                    else dat))
                             True)"

definition smsDeleteCampaign ::
    "'w platform \<Rightarrow> client \<Rightarrow> 'w world \<Rightarrow> jsval
      \<Rightarrow> (js_error + jsval) \<times> client \<times> 'w world" where
  "smsDeleteCampaign P c w campaign_id =
     (if campaign_id = JUndefined
      then (Inl (Error ''Empty sms campaign id''), c, w)
      else let dat = [(''id'', campaign_id)]
           in sendRequest P c w ''sms/campaigns'' (JStr ''DELETE'') (JObj dat) True)"

text \<open>The raw-dispatch escape hatch; \<open>data\<close> defaults to an empty object.\<close>

definition sendRequestRaw ::
    "'w platform \<Rightarrow> client \<Rightarrow> 'w world \<Rightarrow> string \<Rightarrow> jsval \<Rightarrow> jsval
      \<Rightarrow> (js_error + jsval) \<times> client \<times> 'w world" where
  "sendRequestRaw P c w path meth dat0 =
     (let dat = (if dat0 = JUndefined then JObj [] else dat0)
      in if meth \<notin> set [JStr ''POST'', JStr ''GET'', JStr ''DELETE'', JStr ''PUT'', JStr ''PATCH'']
         then (Inl (Error (''Unknown method: '' @ ToString meth)), c, w)
         else sendRequest P c w path meth dat True)"

section \<open>The legacy client: module sendpulse.js\<close>

text \<open>The module-level variables.  \<open>TOKEN_STORAGE\<close> is keyed by a hash of the credentials.\<close>

record legacy =
  API_USER_ID :: jsval
  API_SECRET :: jsval
  TOKEN :: jsval
  TOKEN_STORAGE :: "(string \<times> jsval) list"

definition API_URL :: string where
  "API_URL = ''https://api.sendpulse.com''"

text \<open>The state of the module when it has just been loaded.\<close>

definition legacy_module :: legacy where
  "legacy_module =
     \<lparr>API_USER_ID = JStr [], API_SECRET = JStr [], TOKEN = JStr [], TOKEN_STORAGE = []\<rparr>"

definition legacy_sendRequest ::
    "'w platform \<Rightarrow> legacy \<Rightarrow> 'w world \<Rightarrow> string \<Rightarrow> jsval \<Rightarrow> jsval \<Rightarrow> bool
      \<Rightarrow> (js_error + jsval) \<times> legacy \<times> 'w world" where
  "legacy_sendRequest P s w path method0 dat useToken =
     (case Buffer_byteLength (JSON_stringify dat) of
        Inl e \<Rightarrow> (Inl e, s, w)
      | Inr len \<Rightarrow>
          let headers0 =
                set_prop (set_prop [] ''Content-Type'' (JStr ''application/json''))
                  ''Content-Length'' (JNum (Num (int len)))
          in case (if useToken then has_length (TOKEN s) else Inr False) of
               Inl e \<Rightarrow> (Inl e, s, w)
             | Inr b \<Rightarrow>
                 let hdrs = (if b then set_prop headers0 ''Authorization''
                                         (JStr (''Bearer '' @ ToString (TOKEN s)))
                             else headers0);
                     meth = (if method0 = JUndefined then JStr ''POST'' else method0);
                     req = \<lparr>http_method = meth, url = API_URL @ ''/'' @ path, data = dat,
                            headers = hdrs\<rparr>;
                     (res, env') = axios_request P req (env w);
                     w2 = w\<lparr>env := env',
                            trace := trace w @ [HttpRequest req, HttpResponse res]\<rparr>
                 in (case res of
                       Inl e \<Rightarrow> (Inl e, s, w2)
                     | Inr resp \<Rightarrow> (Inr (response_data resp), s, w2)))"

definition legacy_getToken ::
    "'w platform \<Rightarrow> legacy \<Rightarrow> 'w world \<Rightarrow> (js_error + unit) \<times> legacy \<times> 'w world" where
  "legacy_getToken P s w =
     (let w0 = w\<lparr>trace := trace w @ [GetTokenCall]\<rparr>;
          (res, s1, w1) =
            legacy_sendRequest P s w0 ''oauth/access_token'' (JStr ''POST'')
              (JObj [(''grant_type'', JStr ''client_credentials''),
                     (''client_id'', API_USER_ID s),
                     (''client_secret'', API_SECRET s)])
              False
      in case res of
           Inl e \<Rightarrow> (Inl e, s1, w1)
         | Inr dat \<Rightarrow>
             (case get_prop dat ''access_token'' of
                Inl e \<Rightarrow> (Inl e, s1, w1)
              | Inr tok \<Rightarrow>
                  let s2 = s1\<lparr>TOKEN := tok\<rparr>;
                      hashName =
                        md5 P (ToString (API_USER_ID s2) @ ''::'' @ ToString (API_SECRET s2))
                  in (Inr (),
                      s2\<lparr>TOKEN_STORAGE := set_prop (TOKEN_STORAGE s2) hashName (TOKEN s2)\<rparr>,
                      w1)))"

definition legacy_init ::
    "'w platform \<Rightarrow> legacy \<Rightarrow> 'w world \<Rightarrow> jsval \<Rightarrow> jsval
      \<Rightarrow> (js_error + unit) \<times> legacy \<times> 'w world" where
  "legacy_init P s w client_id secret =
     (let s1 = s\<lparr>API_USER_ID := client_id, API_SECRET := secret\<rparr>;
          hashName = md5 P (ToString (API_USER_ID s1) @ ''::'' @ ToString (API_SECRET s1));
          stored = (case map_of (TOKEN_STORAGE s1) hashName of
                      None \<Rightarrow> JUndefined | Some v \<Rightarrow> v);
          s2 = (if truthy stored then s1\<lparr>TOKEN := stored\<rparr> else s1)
      in case has_length (TOKEN s2) of
           Inl e \<Rightarrow> (Inl e, s2, w)
         | Inr b \<Rightarrow> if \<not> b then legacy_getToken P s2 w else (Inr (), s2, w))"

subsection \<open>Legacy wrappers\<close>

text \<open>The guard \<open>(x === undefined) || (!x.length)\<close>; reading \<open>null.length\<close> throws.\<close>

definition undefined_or_empty :: "jsval \<Rightarrow> js_error + bool" where
  "undefined_or_empty x =
     (if x = JUndefined then Inr True
      else case has_length x of Inl e \<Rightarrow> Inl e | Inr b \<Rightarrow> Inr (\<not> b))"

text \<open>\<open>Object.keys(x)\<close>: the indices of an array or string, the own keys of an object.\<close>

fun Object_keys :: "jsval \<Rightarrow> js_error + string list" where
  "Object_keys JUndefined = Inl (TypeError ''Cannot convert undefined or null to object'')"
| "Object_keys JNull = Inl (TypeError ''Cannot convert undefined or null to object'')"
| "Object_keys (JStr s) = Inr (map digits [0..<length s])"
| "Object_keys (JArr xs) = Inr (map digits [0..<length xs])"
| "Object_keys (JObj kvs) = Inr (remdups (map fst kvs))"
| "Object_keys _ = Inr []"

text \<open>The guard \<open>(x === undefined) || (!Object.keys(x).length)\<close>.\<close>

definition undefined_or_no_keys :: "jsval \<Rightarrow> js_error + bool" where
  "undefined_or_no_keys x =
     (if x = JUndefined then Inr True
      else case Object_keys x of Inl e \<Rightarrow> Inl e | Inr ks \<Rightarrow> Inr (ks = []))"

text \<open>\<open>x.toUpperCase()\<close>: only a string has the method.\<close>

definition to_upper :: "char \<Rightarrow> char" where
  "to_upper ch =
     (if (97::nat) \<le> of_char ch \<and> (of_char ch :: nat) \<le> 122
      then char_of (of_char ch - (32::nat)) else ch)"

fun toUpperCase :: "jsval \<Rightarrow> js_error + jsval" where
  "toUpperCase JUndefined =
     Inl (TypeError ''Cannot read properties of undefined (reading toUpperCase)'')"
| "toUpperCase JNull =
     Inl (TypeError ''Cannot read properties of null (reading toUpperCase)'')"
| "toUpperCase (JStr s) = Inr (JStr (map to_upper s))"
| "toUpperCase _ = Inl (TypeError ''toUpperCase is not a function'')"

text \<open>
  A guard \<open>t1 || t2 || ...\<close>: the tests are evaluated from the left, up to the first
  that holds or throws.
\<close>

fun first_true :: "(js_error + bool) list \<Rightarrow> js_error + bool" where
  "first_true [] = Inr False"
| "first_true (Inl e # tests) = Inl e"
| "first_true (Inr b # tests) = (if b then Inr True else first_true tests)"

text \<open>\<open>base64(data)\<close> of the module: \<open>new Buffer(data).toString('base64')\<close>.\<close>

definition legacy_base64 :: "'w platform \<Rightarrow> jsval \<Rightarrow> js_error + string" where
  "legacy_base64 P data' = new_Buffer_base64 P data'"

text \<open>
  \<open>serialize(mixed_value)\<close> writes a value in the format of PHP's
  \<open>serialize\<close>.  Its local function \<open>_utf8Size\<close> counts the bytes of the UTF-8
  encoding (the characters of this model are below U+0100), \<open>_getType\<close> tells arrays
  from other objects by the name of their constructor.  A key made of digits only is
  written as a number.  No value of the model is a function.
\<close>

definition utf8Size :: "string \<Rightarrow> nat" where
  "utf8Size str =
     fold (\<lambda>ch size. if (of_char ch :: nat) < 0x80 then size + 1 else size + 2) str 0"

fun getType :: "jsval \<Rightarrow> string" where
  "getType JUndefined = ''undefined''"
| "getType JNull = ''null''"
| "getType (JBool b) = ''boolean''"
| "getType (JNum n) = ''number''"
| "getType (JStr s) = ''string''"
| "getType (JArr xs) = ''array''"
| "getType (JObj kvs) = ''object''"

text \<open>\<open>key.match(/^[0-9]+$/)\<close> and \<open>parseInt(key, 10)\<close> on such a key.\<close>

definition all_digits :: "string \<Rightarrow> bool" where
  "all_digits key \<longleftrightarrow>
     key \<noteq> [] \<and> list_all (\<lambda>ch. (48::nat) \<le> of_char ch \<and> (of_char ch :: nat) \<le> 57) key"

definition parseInt :: "string \<Rightarrow> int" where
  "parseInt key = int (fold (\<lambda>ch n. 10 * n + (of_char ch - 48)) key 0)"

text \<open>\<open>Math.round(x) === x\<close>: true of every integer, false of \<open>NaN\<close>.\<close>

fun is_rounded :: "jsval \<Rightarrow> bool" where
  "is_rounded (JNum (Num i)) = True"
| "is_rounded _ = False"

function serialize :: "jsval \<Rightarrow> string" where
  "serialize mixed_value =
     (let type = getType mixed_value;
          val =
            (if type = ''boolean'' then ''b:'' @ (if truthy mixed_value then ''1'' else ''0'')
             else if type = ''number''
               then (if is_rounded mixed_value then ''i'' else ''d'') @ '':'' @
                    ToString mixed_value
             else if type = ''string''
               then ''s:'' @ digits (utf8Size (ToString mixed_value)) @ '':\"'' @
                    ToString mixed_value @ ''\"''
             else if type = ''array'' \<or> type = ''object''
               then ''a'' @ '':'' @ digits (length (own_entries mixed_value)) @ '':{'' @
                    concat (map (\<lambda>kv.
                               let key = fst kv;
                                   okey = (if all_digits key then JNum (Num (parseInt key))
                                           else JStr key)
                               in serialize okey @ serialize (snd kv))
                             (own_entries mixed_value)) @ ''}''
             else ''N'')
      in if type \<noteq> ''object'' \<and> type \<noteq> ''array'' then val @ '';'' else val)"
  by pat_completeness auto
termination
proof (relation "measure (\<lambda>v. case v of JArr xs \<Rightarrow> size v | JObj kvs \<Rightarrow> size v | _ \<Rightarrow> 0)")
  show "wf (measure (\<lambda>v. case v of JArr xs \<Rightarrow> size v | JObj kvs \<Rightarrow> size v | _ \<Rightarrow> 0))"
    by simp
next
  fix mixed_value okey :: jsval and type key :: string
  assume ty: "type = getType mixed_value" "type = ''array'' \<or> type = ''object''"
    and ok: "okey = (if all_digits key then JNum (Num (parseInt key)) else JStr key)"
  from ty have "(\<exists>xs. mixed_value = JArr xs) \<or> (\<exists>kvs. mixed_value = JObj kvs)"
    by (cases mixed_value) auto
  with ok show "(okey, mixed_value) \<in>
      measure (\<lambda>v. case v of JArr xs \<Rightarrow> size v | JObj kvs \<Rightarrow> size v | _ \<Rightarrow> 0)"
    by auto
next
  fix mixed_value :: jsval and type :: string and kv :: "string \<times> jsval"
  assume ty: "type = getType mixed_value" "type = ''array'' \<or> type = ''object''"
    and mem: "kv \<in> set (own_entries mixed_value)"
  let ?m = "\<lambda>v. case v of JArr xs \<Rightarrow> size v | JObj kvs \<Rightarrow> size v | _ \<Rightarrow> 0"
  have le: "?m v \<le> size v" for v by (cases v) simp_all
  from ty have "(\<exists>xs. mixed_value = JArr xs) \<or> (\<exists>kvs. mixed_value = JObj kvs)"
    by (cases mixed_value) auto
  then have "size (snd kv) < ?m mixed_value"
  proof (elim disjE exE)
    fix xs assume v: "mixed_value = JArr xs"
    with mem have "(fst kv, snd kv) \<in> set (zip (map digits [0..<length xs]) xs)" by simp
    then have "snd kv \<in> set xs" by (rule set_zip_rightD)
    then have "size (snd kv) < Suc (size_list size xs)"
      by (simp add: less_Suc_eq_le size_list_estimation')
    with v show ?thesis by simp
  next
    fix kvs assume v: "mixed_value = JObj kvs"
    with mem have "kv \<in> set kvs" by simp
    then have "size (snd kv) < Suc (size_list (size_prod (\<lambda>_. 0) size) kvs)"
      by (induction kvs) (auto simp: less_Suc_eq_le)
    with v show ?thesis by simp
  qed
  with le[of "snd kv"] show "(snd kv, mixed_value) \<in> measure ?m" by simp
qed

declare serialize.simps [simp del]

text \<open>All the exported functions of the module, in the order of the source.\<close>

definition legacy_listAddressBooks ::
    "'w platform \<Rightarrow> legacy \<Rightarrow> 'w world \<Rightarrow> jsval \<Rightarrow> jsval
      \<Rightarrow> (js_error + jsval) \<times> legacy \<times> 'w world" where
  "legacy_listAddressBooks P s w limit offset =
     (let dat = [];
          dat1 = (if limit = JUndefined then dat else set_prop dat ''limit'' limit);
          dat2 = (if offset = JUndefined then dat1 else set_prop dat1 ''offset'' offset)
      in legacy_sendRequest P s w ''addressbooks'' (JStr ''GET'') (JObj dat2) True)"

definition legacy_createAddressBook ::
    "'w platform \<Rightarrow> legacy \<Rightarrow> 'w world \<Rightarrow> jsval \<Rightarrow> (js_error + jsval) \<times> legacy \<times> 'w world" where
  "legacy_createAddressBook P s w bookName =
     (case undefined_or_empty bookName of
        Inl e \<Rightarrow> (Inl e, s, w)
      | Inr bad \<Rightarrow>
          if bad then (Inl (Error ''Empty book name''), s, w)
          else let dat = [(''bookName'', bookName)]
               in legacy_sendRequest P s w ''addressbooks'' (JStr ''POST'') (JObj dat) True)"

definition legacy_editAddressBook ::
    "'w platform \<Rightarrow> legacy \<Rightarrow> 'w world \<Rightarrow> jsval \<Rightarrow> jsval
      \<Rightarrow> (js_error + jsval) \<times> legacy \<times> 'w world" where
  "legacy_editAddressBook P s w id' bookName =
     (case first_true [Inr (id' = JUndefined), undefined_or_empty bookName] of
        Inl e \<Rightarrow> (Inl e, s, w)
      | Inr bad \<Rightarrow>
          if bad then (Inl (Error ''Empty book name or book id''), s, w)
          else let dat = [(''name'', bookName)]
               in legacy_sendRequest P s w (''addressbooks/'' @ ToString id')
                 (JStr ''PUT'') (JObj dat) True)"

definition legacy_removeAddressBook ::
    "'w platform \<Rightarrow> legacy \<Rightarrow> 'w world \<Rightarrow> jsval
      \<Rightarrow> (js_error + jsval) \<times> legacy \<times> 'w world" where
  "legacy_removeAddressBook P s w id' =
     (if id' = JUndefined
      then (Inl (Error ''Empty book id''), s, w)
      else legacy_sendRequest P s w (''addressbooks/'' @ ToString id')
        (JStr ''DELETE'') (JObj []) True)"

definition legacy_listEmailTemplates ::
    "'w platform \<Rightarrow> legacy \<Rightarrow> 'w world \<Rightarrow> (js_error + jsval) \<times> legacy \<times> 'w world" where
  "legacy_listEmailTemplates P s w =
     legacy_sendRequest P s w ''templates'' (JStr ''GET'') (JObj []) True"

definition legacy_getEmailTemplate ::
    "'w platform \<Rightarrow> legacy \<Rightarrow> 'w world \<Rightarrow> jsval
      \<Rightarrow> (js_error + jsval) \<times> legacy \<times> 'w world" where
  "legacy_getEmailTemplate P s w id' =
     (if id' = JUndefined
      then (Inl (Error ''Empty email template id''), s, w)
      else legacy_sendRequest P s w (''template/'' @ ToString id') (JStr ''GET'') (JObj []) True)"

definition legacy_getBookInfo ::
    "'w platform \<Rightarrow> legacy \<Rightarrow> 'w world \<Rightarrow> jsval
      \<Rightarrow> (js_error + jsval) \<times> legacy \<times> 'w world" where
  "legacy_getBookInfo P s w id' =
     (if id' = JUndefined
      then (Inl (Error ''Empty book id''), s, w)
      else legacy_sendRequest P s w (''addressbooks/'' @ ToString id')
        (JStr ''GET'') (JObj []) True)"

definition legacy_getEmailsFromBook ::
    "'w platform \<Rightarrow> legacy \<Rightarrow> 'w world \<Rightarrow> jsval
      \<Rightarrow> (js_error + jsval) \<times> legacy \<times> 'w world" where
  "legacy_getEmailsFromBook P s w id' =
     (if id' = JUndefined
      then (Inl (Error ''Empty book id''), s, w)
      else legacy_sendRequest P s w (''addressbooks/'' @ ToString id' @ ''/emails'')
        (JStr ''GET'') (JObj []) True)"

definition legacy_addEmails ::
    "'w platform \<Rightarrow> legacy \<Rightarrow> 'w world \<Rightarrow> jsval \<Rightarrow> jsval
      \<Rightarrow> (js_error + jsval) \<times> legacy \<times> 'w world" where
  "legacy_addEmails P s w id' emails =
     (case first_true [Inr (id' = JUndefined), undefined_or_empty emails] of
        Inl e \<Rightarrow> (Inl e, s, w)
      | Inr bad \<Rightarrow>
          if bad then (Inl (Error ''Empty email or book id''), s, w)
          else let dat = [(''emails'', JStr (serialize emails))]
               in legacy_sendRequest P s w (''addressbooks/'' @ ToString id' @ ''/emails'')
                 (JStr ''POST'') (JObj dat) True)"

definition legacy_removeEmails ::
    "'w platform \<Rightarrow> legacy \<Rightarrow> 'w world \<Rightarrow> jsval \<Rightarrow> jsval
      \<Rightarrow> (js_error + jsval) \<times> legacy \<times> 'w world" where
  "legacy_removeEmails P s w id' emails =
     (case first_true [Inr (id' = JUndefined), undefined_or_empty emails] of
        Inl e \<Rightarrow> (Inl e, s, w)
      | Inr bad \<Rightarrow>
          if bad then (Inl (Error ''Empty email or book id''), s, w)
          else let dat = [(''emails'', JStr (serialize emails))]
               in legacy_sendRequest P s w (''addressbooks/'' @ ToString id' @ ''/emails'')
                 (JStr ''DELETE'') (JObj dat) True)"

definition legacy_getEmailInfo ::
    "'w platform \<Rightarrow> legacy \<Rightarrow> 'w world \<Rightarrow> jsval \<Rightarrow> jsval
      \<Rightarrow> (js_error + jsval) \<times> legacy \<times> 'w world" where
  "legacy_getEmailInfo P s w id' email =
     (case first_true [Inr (id' = JUndefined), undefined_or_empty email] of
        Inl e \<Rightarrow> (Inl e, s, w)
      | Inr bad \<Rightarrow>
          if bad then (Inl (Error ''Empty email or book id''), s, w)
          else legacy_sendRequest P s w (''addressbooks/'' @ ToString id' @ ''/emails/'' @ ToString email)
            (JStr ''GET'') (JObj []) True)"

definition legacy_updateEmailVariables ::
    "'w platform \<Rightarrow> legacy \<Rightarrow> 'w world \<Rightarrow> jsval \<Rightarrow> jsval \<Rightarrow> jsval
      \<Rightarrow> (js_error + jsval) \<times> legacy \<times> 'w world" where
  "legacy_updateEmailVariables P s w id' email variables =
     (case first_true [Inr (id' = JUndefined), Inr (email = JUndefined), undefined_or_empty variables] of
        Inl e \<Rightarrow> (Inl e, s, w)
      | Inr bad \<Rightarrow>
          if bad then (Inl (Error ''Empty email, variables or book id''), s, w)
          else let dat = [(''email'', email), (''variables'', variables)]
               in legacy_sendRequest P s w (''addressbooks/'' @ ToString id' @ ''/emails/variable'')
                 (JStr ''POST'') (JObj dat) True)"

definition legacy_campaignCost ::
    "'w platform \<Rightarrow> legacy \<Rightarrow> 'w world \<Rightarrow> jsval
      \<Rightarrow> (js_error + jsval) \<times> legacy \<times> 'w world" where
  "legacy_campaignCost P s w id' =
     (if id' = JUndefined
      then (Inl (Error ''Empty book id''), s, w)
      else legacy_sendRequest P s w (''addressbooks/'' @ ToString id' @ ''/cost'')
        (JStr ''GET'') (JObj []) True)"

definition legacy_listCampaigns ::
    "'w platform \<Rightarrow> legacy \<Rightarrow> 'w world \<Rightarrow> jsval \<Rightarrow> jsval
      \<Rightarrow> (js_error + jsval) \<times> legacy \<times> 'w world" where
  "legacy_listCampaigns P s w limit offset =
     (let dat = [];
          dat1 = (if limit = JUndefined then dat else set_prop dat ''limit'' limit);
          dat2 = (if offset = JUndefined then dat1 else set_prop dat1 ''offset'' offset)
      in legacy_sendRequest P s w ''campaigns'' (JStr ''GET'') (JObj dat2) True)"

definition legacy_getCampaignInfo ::
    "'w platform \<Rightarrow> legacy \<Rightarrow> 'w world \<Rightarrow> jsval
      \<Rightarrow> (js_error + jsval) \<times> legacy \<times> 'w world" where
  "legacy_getCampaignInfo P s w id' =
     (if id' = JUndefined
      then (Inl (Error ''Empty book id''), s, w)
      else legacy_sendRequest P s w (''campaigns/'' @ ToString id')
        (JStr ''GET'') (JObj []) True)"

definition legacy_campaignStatByCountries ::
    "'w platform \<Rightarrow> legacy \<Rightarrow> 'w world \<Rightarrow> jsval
      \<Rightarrow> (js_error + jsval) \<times> legacy \<times> 'w world" where
  "legacy_campaignStatByCountries P s w id' =
     (if id' = JUndefined
      then (Inl (Error ''Empty book id''), s, w)
      else legacy_sendRequest P s w (''campaigns/'' @ ToString id' @ ''/countries'')
        (JStr ''GET'') (JObj []) True)"

definition legacy_campaignStatByReferrals ::
    "'w platform \<Rightarrow> legacy \<Rightarrow> 'w world \<Rightarrow> jsval
      \<Rightarrow> (js_error + jsval) \<times> legacy \<times> 'w world" where
  "legacy_campaignStatByReferrals P s w id' =
     (if id' = JUndefined
      then (Inl (Error ''Empty book id''), s, w)
      else legacy_sendRequest P s w (''campaigns/'' @ ToString id' @ ''/referrals'')
        (JStr ''GET'') (JObj []) True)"

text \<open>
  \<open>createCampaign\<close>: one guard over five arguments; \<open>name\<close> and
  \<open>attachments\<close> default to the empty string, attachments with a length are
  serialized and the body is sent in base64.
\<close>

definition legacy_createCampaign ::
    "'w platform \<Rightarrow> legacy \<Rightarrow> 'w world \<Rightarrow> jsval \<Rightarrow> jsval \<Rightarrow> jsval \<Rightarrow> jsval \<Rightarrow> jsval \<Rightarrow> jsval \<Rightarrow> jsval
      \<Rightarrow> (js_error + jsval) \<times> legacy \<times> 'w world" where
  "legacy_createCampaign P s w senderName senderEmail subject body bookId name attachments =
     (case first_true [undefined_or_empty senderName, undefined_or_empty senderEmail,
                       undefined_or_empty subject, undefined_or_empty body,
                       Inr (bookId = JUndefined)] of
        Inl e \<Rightarrow> (Inl e, s, w)
      | Inr bad \<Rightarrow>
          if bad then (Inl (Error ''Not all data.''), s, w)
          else let name1 = (if name = JUndefined then JStr [] else name);
                   attachments1 = (if attachments = JUndefined then JStr [] else attachments)
               in case has_length attachments1 of
                    Inl e \<Rightarrow> (Inl e, s, w)
                  | Inr b \<Rightarrow>
                      let attachments2 = (if b then JStr (serialize attachments1)
                                          else attachments1)
                      in case legacy_base64 P body of
                           Inl e \<Rightarrow> (Inl e, s, w)
                         | Inr b64 \<Rightarrow>
                             let dat = [(''sender_name'', senderName),
                                        (''sender_email'', senderEmail),
                                        (''subject'', subject),
                                        (''body'', JStr b64),
                                        (''list_id'', bookId),
                                        (''name'', name1),
                                        (''attachments'', attachments2)]
                             in legacy_sendRequest P s w ''campaigns''
                               (JStr ''POST'') (JObj dat) True)"

definition legacy_cancelCampaign ::
    "'w platform \<Rightarrow> legacy \<Rightarrow> 'w world \<Rightarrow> jsval
      \<Rightarrow> (js_error + jsval) \<times> legacy \<times> 'w world" where
  "legacy_cancelCampaign P s w id' =
     (if id' = JUndefined
      then (Inl (Error ''Empty campaign id''), s, w)
      else legacy_sendRequest P s w (''campaigns/'' @ ToString id')
        (JStr ''DELETE'') (JObj []) True)"

definition legacy_listSenders ::
    "'w platform \<Rightarrow> legacy \<Rightarrow> 'w world \<Rightarrow> (js_error + jsval) \<times> legacy \<times> 'w world" where
  "legacy_listSenders P s w =
     legacy_sendRequest P s w ''senders'' (JStr ''GET'') (JObj []) True"

definition legacy_addSender ::
    "'w platform \<Rightarrow> legacy \<Rightarrow> 'w world \<Rightarrow> jsval \<Rightarrow> jsval
      \<Rightarrow> (js_error + jsval) \<times> legacy \<times> 'w world" where
  "legacy_addSender P s w senderName senderEmail =
     (case first_true [undefined_or_empty senderEmail, undefined_or_empty senderName] of
        Inl e \<Rightarrow> (Inl e, s, w)
      | Inr bad \<Rightarrow>
          if bad then (Inl (Error ''Empty sender name or email''), s, w)
          else let dat = [(''email'', senderEmail), (''name'', senderName)]
               in legacy_sendRequest P s w ''senders'' (JStr ''POST'') (JObj dat) True)"

definition legacy_removeSender ::
    "'w platform \<Rightarrow> legacy \<Rightarrow> 'w world \<Rightarrow> jsval
      \<Rightarrow> (js_error + jsval) \<times> legacy \<times> 'w world" where
  "legacy_removeSender P s w senderEmail =
     (case undefined_or_empty senderEmail of
        Inl e \<Rightarrow> (Inl e, s, w)
      | Inr bad \<Rightarrow>
          if bad then (Inl (Error ''Empty email''), s, w)
          else let dat = [(''email'', senderEmail)]
               in legacy_sendRequest P s w ''senders'' (JStr ''DELETE'') (JObj dat) True)"

definition legacy_activateSender ::
    "'w platform \<Rightarrow> legacy \<Rightarrow> 'w world \<Rightarrow> jsval \<Rightarrow> jsval
      \<Rightarrow> (js_error + jsval) \<times> legacy \<times> 'w world" where
  "legacy_activateSender P s w senderEmail code =
     (case first_true [undefined_or_empty senderEmail, undefined_or_empty code] of
        Inl e \<Rightarrow> (Inl e, s, w)
      | Inr bad \<Rightarrow>
          if bad then (Inl (Error ''Empty email or activation code''), s, w)
          else let dat = [(''code'', code)]
               in legacy_sendRequest P s w (''senders/'' @ ToString senderEmail @ ''/code'')
                 (JStr ''POST'') (JObj dat) True)"

definition legacy_getSenderActivationMail ::
    "'w platform \<Rightarrow> legacy \<Rightarrow> 'w world \<Rightarrow> jsval
      \<Rightarrow> (js_error + jsval) \<times> legacy \<times> 'w world" where
  "legacy_getSenderActivationMail P s w senderEmail =
     (case undefined_or_empty senderEmail of
        Inl e \<Rightarrow> (Inl e, s, w)
      | Inr bad \<Rightarrow>
          if bad then (Inl (Error ''Empty email''), s, w)
          else legacy_sendRequest P s w (''senders/'' @ ToString senderEmail @ ''/code'')
            (JStr ''GET'') (JObj []) True)"

definition legacy_getEmailGlobalInfo ::
    "'w platform \<Rightarrow> legacy \<Rightarrow> 'w world \<Rightarrow> jsval
      \<Rightarrow> (js_error + jsval) \<times> legacy \<times> 'w world" where
  "legacy_getEmailGlobalInfo P s w email =
     (case undefined_or_empty email of
        Inl e \<Rightarrow> (Inl e, s, w)
      | Inr bad \<Rightarrow>
          if bad then (Inl (Error ''Empty email''), s, w)
          else legacy_sendRequest P s w (''emails/'' @ ToString email)
            (JStr ''GET'') (JObj []) True)"

definition legacy_removeEmailFromAllBooks ::
    "'w platform \<Rightarrow> legacy \<Rightarrow> 'w world \<Rightarrow> jsval
      \<Rightarrow> (js_error + jsval) \<times> legacy \<times> 'w world" where
  "legacy_removeEmailFromAllBooks P s w email =
     (case undefined_or_empty email of
        Inl e \<Rightarrow> (Inl e, s, w)
      | Inr bad \<Rightarrow>
          if bad then (Inl (Error ''Empty email''), s, w)
          else legacy_sendRequest P s w (''emails/'' @ ToString email)
            (JStr ''DELETE'') (JObj []) True)"

definition legacy_emailStatByCampaigns ::
    "'w platform \<Rightarrow> legacy \<Rightarrow> 'w world \<Rightarrow> jsval
      \<Rightarrow> (js_error + jsval) \<times> legacy \<times> 'w world" where
  "legacy_emailStatByCampaigns P s w email =
     (case undefined_or_empty email of
        Inl e \<Rightarrow> (Inl e, s, w)
      | Inr bad \<Rightarrow>
          if bad then (Inl (Error ''Empty email''), s, w)
          else legacy_sendRequest P s w (''emails/'' @ ToString email @ ''/campaigns'')
            (JStr ''GET'') (JObj []) True)"

definition legacy_getBlackList ::
    "'w platform \<Rightarrow> legacy \<Rightarrow> 'w world \<Rightarrow> (js_error + jsval) \<times> legacy \<times> 'w world" where
  "legacy_getBlackList P s w =
     legacy_sendRequest P s w ''blacklist'' (JStr ''GET'') (JObj []) True"

definition legacy_addToBlackList ::
    "'w platform \<Rightarrow> legacy \<Rightarrow> 'w world \<Rightarrow> jsval \<Rightarrow> jsval
      \<Rightarrow> (js_error + jsval) \<times> legacy \<times> 'w world" where
  "legacy_addToBlackList P s w emails comment =
     (case undefined_or_empty emails of
        Inl e \<Rightarrow> (Inl e, s, w)
      | Inr bad \<Rightarrow>
          if bad then (Inl (Error ''Empty email''), s, w)
          else let comment1 = (if comment = JUndefined then JStr [] else comment)
               in case legacy_base64 P emails of
                    Inl e \<Rightarrow> (Inl e, s, w)
                  | Inr b64 \<Rightarrow>
                      let dat = [(''emails'', JStr b64), (''comment'', comment1)]
                      in legacy_sendRequest P s w ''blacklist'' (JStr ''POST'') (JObj dat) True)"

definition legacy_removeFromBlackList ::
    "'w platform \<Rightarrow> legacy \<Rightarrow> 'w world \<Rightarrow> jsval
      \<Rightarrow> (js_error + jsval) \<times> legacy \<times> 'w world" where
  "legacy_removeFromBlackList P s w emails =
     (case undefined_or_empty emails of
        Inl e \<Rightarrow> (Inl e, s, w)
      | Inr bad \<Rightarrow>
          if bad then (Inl (Error ''Empty emails''), s, w)
          else case legacy_base64 P emails of
                 Inl e \<Rightarrow> (Inl e, s, w)
               | Inr b64 \<Rightarrow>
                   let dat = [(''emails'', JStr b64)]
                   in legacy_sendRequest P s w ''blacklist'' (JStr ''DELETE'') (JObj dat) True)"

definition legacy_getBalance ::
    "'w platform \<Rightarrow> legacy \<Rightarrow> 'w world \<Rightarrow> jsval \<Rightarrow> (js_error + jsval) \<times> legacy \<times> 'w world" where
  "legacy_getBalance P s w currency =
     (case (if truthy currency then Inr ''balance''
            else case toUpperCase currency of
                   Inl e \<Rightarrow> Inl e
                 | Inr u \<Rightarrow> Inr (''balance/'' @ ToString u)) of
        Inl e \<Rightarrow> (Inl e, s, w)
      | Inr path \<Rightarrow> legacy_sendRequest P s w path (JStr ''GET'') (JObj []) True)"

definition legacy_smtpListEmails ::
    "'w platform \<Rightarrow> legacy \<Rightarrow> 'w world \<Rightarrow> jsval \<Rightarrow> jsval \<Rightarrow> jsval \<Rightarrow> jsval \<Rightarrow> jsval \<Rightarrow> jsval
      \<Rightarrow> (js_error + jsval) \<times> legacy \<times> 'w world" where
  "legacy_smtpListEmails P s w limit offset fromDate toDate sender recipient =
     (let limit1 = (if limit = JUndefined then JNum (Num 0) else limit);
          offset1 = (if offset = JUndefined then JNum (Num 0) else offset);
          fromDate1 = (if fromDate = JUndefined then JStr [] else fromDate);
          toDate1 = (if toDate = JUndefined then JStr [] else toDate);
          sender1 = (if sender = JUndefined then JStr [] else sender);
          recipient1 = (if recipient = JUndefined then JStr [] else recipient);
          dat = [(''limit'', limit1), (''offset'', offset1), (''from'', fromDate1),
                 (''to'', toDate1), (''sender'', sender1), (''recipient'', recipient1)]
      in legacy_sendRequest P s w ''smtp/emails'' (JStr ''GET'') (JObj dat) True)"

definition legacy_smtpGetEmailInfoById ::
    "'w platform \<Rightarrow> legacy \<Rightarrow> 'w world \<Rightarrow> jsval
      \<Rightarrow> (js_error + jsval) \<times> legacy \<times> 'w world" where
  "legacy_smtpGetEmailInfoById P s w id' =
     (case undefined_or_empty id' of
        Inl e \<Rightarrow> (Inl e, s, w)
      | Inr bad \<Rightarrow>
          if bad then (Inl (Error ''Empty id''), s, w)
          else legacy_sendRequest P s w (''smtp/emails/'' @ ToString id')
            (JStr ''GET'') (JObj []) True)"

definition legacy_smtpUnsubscribeEmails ::
    "'w platform \<Rightarrow> legacy \<Rightarrow> 'w world \<Rightarrow> jsval
      \<Rightarrow> (js_error + jsval) \<times> legacy \<times> 'w world" where
  "legacy_smtpUnsubscribeEmails P s w emails =
     (if emails = JUndefined
      then (Inl (Error ''Empty emails''), s, w)
      else let dat = [(''emails'', JStr (serialize emails))]
           in legacy_sendRequest P s w ''smtp/unsubscribe'' (JStr ''POST'') (JObj dat) True)"

definition legacy_smtpRemoveFromUnsubscribe ::
    "'w platform \<Rightarrow> legacy \<Rightarrow> 'w world \<Rightarrow> jsval
      \<Rightarrow> (js_error + jsval) \<times> legacy \<times> 'w world" where
  "legacy_smtpRemoveFromUnsubscribe P s w emails =
     (if emails = JUndefined
      then (Inl (Error ''Empty emails''), s, w)
      else let dat = [(''emails'', JStr (serialize emails))]
           in legacy_sendRequest P s w ''smtp/unsubscribe'' (JStr ''DELETE'') (JObj dat) True)"

definition legacy_smtpListIP ::
    "'w platform \<Rightarrow> legacy \<Rightarrow> 'w world \<Rightarrow> (js_error + jsval) \<times> legacy \<times> 'w world" where
  "legacy_smtpListIP P s w =
     legacy_sendRequest P s w ''smtp/ips'' (JStr ''GET'') (JObj []) True"

definition legacy_smtpListAllowedDomains ::
    "'w platform \<Rightarrow> legacy \<Rightarrow> 'w world \<Rightarrow> (js_error + jsval) \<times> legacy \<times> 'w world" where
  "legacy_smtpListAllowedDomains P s w =
     legacy_sendRequest P s w ''smtp/domains'' (JStr ''GET'') (JObj []) True"

definition legacy_smtpAddDomain ::
    "'w platform \<Rightarrow> legacy \<Rightarrow> 'w world \<Rightarrow> jsval
      \<Rightarrow> (js_error + jsval) \<times> legacy \<times> 'w world" where
  "legacy_smtpAddDomain P s w email =
     (case undefined_or_empty email of
        Inl e \<Rightarrow> (Inl e, s, w)
      | Inr bad \<Rightarrow>
          if bad then (Inl (Error ''Empty email''), s, w)
          else let dat = [(''email'', email)]
               in legacy_sendRequest P s w ''smtp/domains'' (JStr ''POST'') (JObj dat) True)"

definition legacy_smtpVerifyDomain ::
    "'w platform \<Rightarrow> legacy \<Rightarrow> 'w world \<Rightarrow> jsval
      \<Rightarrow> (js_error + jsval) \<times> legacy \<times> 'w world" where
  "legacy_smtpVerifyDomain P s w email =
     (case undefined_or_empty email of
        Inl e \<Rightarrow> (Inl e, s, w)
      | Inr bad \<Rightarrow>
          if bad then (Inl (Error ''Empty email''), s, w)
          else legacy_sendRequest P s w (''smtp/domains/'' @ ToString email)
            (JStr ''GET'') (JObj []) True)"

text \<open>
  \<open>smtpSendMail\<close> replaces a truthy \<open>html\<close> of the mail by its base64 text
  (in the caller's object) and sends the serialized mail.
\<close>

definition legacy_smtpSendMail ::
    "'w platform \<Rightarrow> legacy \<Rightarrow> 'w world \<Rightarrow> jsval
      \<Rightarrow> (js_error + jsval) \<times> legacy \<times> 'w world" where
  "legacy_smtpSendMail P s w email =
     (if email = JUndefined then (Inl (Error ''Empty email data''), s, w)
      else case get_prop email ''html'' of
             Inl e \<Rightarrow> (Inl e, s, w)
           | Inr html \<Rightarrow>
               (case (if truthy html
                      then (case legacy_base64 P html of
                              Inl e \<Rightarrow> Inl e
                            | Inr b64 \<Rightarrow>
                                Inr (case email of
                                       JObj kvs \<Rightarrow> JObj (set_prop kvs ''html'' (JStr b64))
                                     | _ \<Rightarrow> email))
                      else Inr email) of
                  Inl e \<Rightarrow> (Inl e, s, w)
                | Inr email1 \<Rightarrow>
                    let dat = [(''email'', JStr (serialize email1))]
                    in legacy_sendRequest P s w ''smtp/emails'' (JStr ''POST'') (JObj dat) True))"

definition legacy_smsAddPhones ::
    "'w platform \<Rightarrow> legacy \<Rightarrow> 'w world \<Rightarrow> jsval \<Rightarrow> jsval \<Rightarrow> (js_error + jsval) \<times> legacy \<times> 'w world" where
  "legacy_smsAddPhones P s w addressbook_id phones =
     (if addressbook_id = JUndefined then (Inl (Error ''Empty phones or book id''), s, w)
      else case undefined_or_empty phones of
             Inl e \<Rightarrow> (Inl e, s, w)
           | Inr bad \<Rightarrow>
               if bad then (Inl (Error ''Empty phones or book id''), s, w)
               else let dat = [(''addressBookId'', addressbook_id),
                               (''phones'', JSON_stringify phones)]
                    in legacy_sendRequest P s w ''sms/numbers'' (JStr ''POST'') (JObj dat) True)"

definition legacy_smsAddPhonesWithVariables ::
    "'w platform \<Rightarrow> legacy \<Rightarrow> 'w world \<Rightarrow> jsval \<Rightarrow> jsval \<Rightarrow> (js_error + jsval) \<times> legacy \<times> 'w world" where
  "legacy_smsAddPhonesWithVariables P s w addressbook_id phones =
     (if addressbook_id = JUndefined then (Inl (Error ''Empty phones or book id''), s, w)
      else case undefined_or_no_keys phones of
             Inl e \<Rightarrow> (Inl e, s, w)
           | Inr bad \<Rightarrow>
               if bad then (Inl (Error ''Empty phones or book id''), s, w)
               else let dat = [(''addressBookId'', addressbook_id),
                               (''phones'', JSON_stringify phones)]
                    in legacy_sendRequest P s w ''sms/numbers/variables'' (JStr ''POST'') (JObj dat) True)"

definition legacy_smsRemovePhones ::
    "'w platform \<Rightarrow> legacy \<Rightarrow> 'w world \<Rightarrow> jsval \<Rightarrow> jsval \<Rightarrow> (js_error + jsval) \<times> legacy \<times> 'w world" where
  "legacy_smsRemovePhones P s w addressbook_id phones =
     (if addressbook_id = JUndefined then (Inl (Error ''Empty phones or book id''), s, w)
      else case undefined_or_empty phones of
             Inl e \<Rightarrow> (Inl e, s, w)
           | Inr bad \<Rightarrow>
               if bad then (Inl (Error ''Empty phones or book id''), s, w)
               else let dat = [(''addressBookId'', addressbook_id),
                               (''phones'', JSON_stringify phones)]
                    in legacy_sendRequest P s w ''sms/numbers'' (JStr ''DELETE'') (JObj dat) True)"

definition legacy_smsGetBlackList ::
    "'w platform \<Rightarrow> legacy \<Rightarrow> 'w world \<Rightarrow> (js_error + jsval) \<times> legacy \<times> 'w world" where
  "legacy_smsGetBlackList P s w =
     legacy_sendRequest P s w ''sms/black_list'' (JStr ''GET'') (JObj []) True"

definition legacy_smsGetPhoneInfo ::
    "'w platform \<Rightarrow> legacy \<Rightarrow> 'w world \<Rightarrow> jsval \<Rightarrow> jsval
      \<Rightarrow> (js_error + jsval) \<times> legacy \<times> 'w world" where
  "legacy_smsGetPhoneInfo P s w addressbook_id phone =
     (if addressbook_id = JUndefined \<or> phone = JUndefined
      then (Inl (Error ''Empty phone or book id''), s, w)
      else legacy_sendRequest P s w (''sms/numbers/info/'' @ ToString addressbook_id @ ''/'' @ ToString phone)
        (JStr ''GET'') (JObj []) True)"

definition legacy_smsUpdatePhonesVariables ::
    "'w platform \<Rightarrow> legacy \<Rightarrow> 'w world \<Rightarrow> jsval \<Rightarrow> jsval \<Rightarrow> jsval
      \<Rightarrow> (js_error + jsval) \<times> legacy \<times> 'w world" where
  "legacy_smsUpdatePhonesVariables P s w addressbook_id phones variables =
     (if addressbook_id = JUndefined then (Inl (Error ''Empty book id''), s, w)
      else case undefined_or_empty phones of
             Inl e \<Rightarrow> (Inl e, s, w)
           | Inr bad \<Rightarrow>
               if bad then (Inl (Error ''Empty phones''), s, w)
               else case undefined_or_no_keys variables of
                      Inl e \<Rightarrow> (Inl e, s, w)
                    | Inr bad' \<Rightarrow>
                        if bad' then (Inl (Error ''Empty variables''), s, w)
                        else let dat = [(''addressBookId'', addressbook_id),
                                        (''phones'', JSON_stringify phones),
                                        (''variables'', JSON_stringify variables)]
                             in legacy_sendRequest P s w ''sms/numbers'' (JStr ''PUT'')
                                  (JObj dat) True)"

definition legacy_smsGetPhonesInfoFromBlacklist ::
    "'w platform \<Rightarrow> legacy \<Rightarrow> 'w world \<Rightarrow> jsval \<Rightarrow> (js_error + jsval) \<times> legacy \<times> 'w world" where
  "legacy_smsGetPhonesInfoFromBlacklist P s w phones =
     (case undefined_or_empty phones of
        Inl e \<Rightarrow> (Inl e, s, w)
      | Inr bad \<Rightarrow>
          if bad then (Inl (Error ''Empty phones''), s, w)
          else let dat = [(''phones'', JSON_stringify phones)]
               in legacy_sendRequest P s w ''sms/black_list/by_numbers'' (JStr ''GET'') (JObj dat) True)"

definition legacy_smsAddPhonesToBlacklist ::
    "'w platform \<Rightarrow> legacy \<Rightarrow> 'w world \<Rightarrow> jsval \<Rightarrow> jsval \<Rightarrow> (js_error + jsval) \<times> legacy \<times> 'w world" where
  "legacy_smsAddPhonesToBlacklist P s w phones comment =
     (case undefined_or_empty phones of
        Inl e \<Rightarrow> (Inl e, s, w)
      | Inr bad \<Rightarrow>
          if bad then (Inl (Error ''Empty phones''), s, w)
          else let dat = [(''phones'', JSON_stringify phones), (''description'', comment)]
               in legacy_sendRequest P s w ''sms/black_list'' (JStr ''POST'') (JObj dat) True)"

definition legacy_smsDeletePhonesFromBlacklist ::
    "'w platform \<Rightarrow> legacy \<Rightarrow> 'w world \<Rightarrow> jsval \<Rightarrow> (js_error + jsval) \<times> legacy \<times> 'w world" where
  "legacy_smsDeletePhonesFromBlacklist P s w phones =
     (case undefined_or_empty phones of
        Inl e \<Rightarrow> (Inl e, s, w)
      | Inr bad \<Rightarrow>
          if bad then (Inl (Error ''Empty phones''), s, w)
          else let dat = [(''phones'', JSON_stringify phones)]
               in legacy_sendRequest P s w ''sms/black_list'' (JStr ''DELETE'') (JObj dat) True)"

definition legacy_smsAddCampaign ::
    "'w platform \<Rightarrow> legacy \<Rightarrow> 'w world \<Rightarrow> jsval \<Rightarrow> jsval \<Rightarrow> jsval \<Rightarrow> jsval \<Rightarrow> jsval
      \<Rightarrow> (js_error + jsval) \<times> legacy \<times> 'w world" where
  "legacy_smsAddCampaign P s w sender_name addressbook_id body date transliterate =
     (if sender_name = JUndefined then (Inl (Error ''Empty sender name''), s, w)
      else if addressbook_id = JUndefined then (Inl (Error ''Empty book id''), s, w)
      else if body = JUndefined then (Inl (Error ''Empty sms text''), s, w)
      else let dat = [(''sender'', sender_name),
                      (''addressBookId'', addressbook_id),
                      (''body'', body),
                      (''date'', date),
                      (''transliterate'', transliterate)]
           in legacy_sendRequest P s w ''sms/campaigns'' (JStr ''POST'') (JObj dat) True)"

definition legacy_smsSend ::
    "'w platform \<Rightarrow> legacy \<Rightarrow> 'w world \<Rightarrow> jsval \<Rightarrow> jsval \<Rightarrow> jsval \<Rightarrow> jsval \<Rightarrow> jsval
      \<Rightarrow> jsval \<Rightarrow> (js_error + jsval) \<times> legacy \<times> 'w world" where
  "legacy_smsSend P s w sender_name phones body date transliterate route =
     (if sender_name = JUndefined then (Inl (Error ''Empty sender name''), s, w)
      else case undefined_or_empty phones of
             Inl e \<Rightarrow> (Inl e, s, w)
           | Inr bad \<Rightarrow>
               if bad then (Inl (Error ''Empty phones''), s, w)
               else if body = JUndefined then (Inl (Error ''Empty sms text''), s, w)
               else let dat = [(''sender'', sender_name),
                               (''phones'', JSON_stringify phones),
                               (''body'', body),
                               (''date'', date),
                               (''transliterate'', transliterate),
                               (''route'', route)]
                    in legacy_sendRequest P s w ''sms/send'' (JStr ''POST'') (JObj dat) True)"

definition legacy_smsGetListCampaigns ::
    "'w platform \<Rightarrow> legacy \<Rightarrow> 'w world \<Rightarrow> jsval \<Rightarrow> jsval
      \<Rightarrow> (js_error + jsval) \<times> legacy \<times> 'w world" where
  "legacy_smsGetListCampaigns P s w date_from date_to =
     (let dat = [(''dateFrom'', date_from), (''dateTo'', date_to)]
      in legacy_sendRequest P s w ''sms/campaigns/list'' (JStr ''GET'') (JObj dat) True)"

definition legacy_smsGetCampaignInfo ::
    "'w platform \<Rightarrow> legacy \<Rightarrow> 'w world \<Rightarrow> jsval
      \<Rightarrow> (js_error + jsval) \<times> legacy \<times> 'w world" where
  "legacy_smsGetCampaignInfo P s w campaign_id =
     (if campaign_id = JUndefined
      then (Inl (Error ''Empty sms campaign id''), s, w)
      else legacy_sendRequest P s w (''sms/campaigns/info/'' @ ToString campaign_id)
        (JStr ''GET'') (JObj []) True)"

definition legacy_smsCancelCampaign ::
    "'w platform \<Rightarrow> legacy \<Rightarrow> 'w world \<Rightarrow> jsval
      \<Rightarrow> (js_error + jsval) \<times> legacy \<times> 'w world" where
  "legacy_smsCancelCampaign P s w campaign_id =
     (if campaign_id = JUndefined
      then (Inl (Error ''Empty sms campaign id''), s, w)
      else legacy_sendRequest P s w (''sms/campaigns/cancel/'' @ ToString campaign_id)
        (JStr ''PUT'') (JObj []) True)"

definition legacy_smsGetCampaignCost ::
    "'w platform \<Rightarrow> legacy \<Rightarrow> 'w world \<Rightarrow> jsval \<Rightarrow> jsval \<Rightarrow> jsval \<Rightarrow> jsval
      \<Rightarrow> (js_error + jsval) \<times> legacy \<times> 'w world" where
  "legacy_smsGetCampaignCost P s w sender_name body addressbook_id phones =
     (if sender_name = JUndefined then (Inl (Error ''Empty sender name''), s, w)
      else if body = JUndefined then (Inl (Error ''Empty sms text''), s, w)
      else if addressbook_id = JUndefined then (Inl (Error ''Empty book id or phones''), s, w)
      else case undefined_or_empty phones of
             Inl e \<Rightarrow> (Inl e, s, w)
           | Inr bad \<Rightarrow>
               if bad then (Inl (Error ''Empty book id or phones''), s, w)
               else let dat = [(''sender'', sender_name), (''body'', body),
                               (''addressBookId'', addressbook_id)]
                    in case has_length phones of
                         Inl e \<Rightarrow> (Inl e, s, w)
                       | Inr b \<Rightarrow>
                           legacy_sendRequest P s w ''sms/campaigns/cost'' (JStr ''GET'')
                             (JObj (if b then set_prop dat ''phones'' (JSON_stringify phones)
                                    else dat))
                             True)"

definition legacy_smsDeleteCampaign ::
    "'w platform \<Rightarrow> legacy \<Rightarrow> 'w world \<Rightarrow> jsval
      \<Rightarrow> (js_error + jsval) \<times> legacy \<times> 'w world" where
  "legacy_smsDeleteCampaign P s w campaign_id =
     (if campaign_id = JUndefined
      then (Inl (Error ''Empty sms campaign id''), s, w)
      else let dat = [(''id'', campaign_id)]
           in legacy_sendRequest P s w ''sms/campaigns'' (JStr ''DELETE'') (JObj dat) True)"

definition legacy_sendRawRequest ::
    "'w platform \<Rightarrow> legacy \<Rightarrow> 'w world \<Rightarrow> string \<Rightarrow> jsval \<Rightarrow> jsval
      \<Rightarrow> (js_error + jsval) \<times> legacy \<times> 'w world" where
  "legacy_sendRawRequest P s w path meth dat0 =
     (let dat = (if dat0 = JUndefined then JObj [] else dat0)
      in if meth \<notin> set [JStr ''POST'', JStr ''GET'', JStr ''DELETE'', JStr ''PUT'', JStr ''PATCH'']
         then (Inl (Error (''Unknown method: '' @ ToString meth)), s, w)
         else legacy_sendRequest P s w path meth dat True)"

section \<open>Observing a run\<close>

text \<open>
  The three states of the token, as the check at the head of an authorized
  \<open>sendRequest\<close> tells them apart:
  \<^verbatim>\<open>!this.token || Date.now() >= this.token.expires_at\<close>
\<close>

datatype token_state = Absent | Valid | Expired

definition token_state_at :: "client \<Rightarrow> int \<Rightarrow> token_state" where
  "token_state_at c now =
     (case token c of
        None \<Rightarrow> Absent
      | Some t \<Rightarrow> if num_ge (Num now) (expires_at t) then Expired else Valid)"

text \<open>The number of token fetches in a trace, and the clock readings in it.\<close>

definition fetches :: "event list \<Rightarrow> nat" where
  "fetches evs = count_list evs GetTokenCall"

fun clock_reads :: "event list \<Rightarrow> int list" where
  "clock_reads [] = []"
| "clock_reads (ClockRead n # evs) = n # clock_reads evs"
| "clock_reads (_ # evs) = clock_reads evs"

text \<open>The requests that reached the transport, in order.\<close>

fun requests :: "event list \<Rightarrow> request list" where
  "requests [] = []"
| "requests (HttpRequest req # evs) = req # requests evs"
| "requests (_ # evs) = requests evs"

text \<open>
  A sequence of authorized calls on one client, one after the other: before each call the
  world moves on by itself (time passes), then the call runs to its end.
\<close>

fun run_authorized ::
    "'w platform \<Rightarrow> client \<Rightarrow> 'w world \<Rightarrow> (('w \<Rightarrow> 'w) \<times> string \<times> jsval \<times> jsval) list
      \<Rightarrow> (js_error + jsval) list \<times> client \<times> 'w world" where
  "run_authorized P c w [] = ([], c, w)"
| "run_authorized P c w ((wait, path, meth, dat) # calls) =
     (let (r, c1, w1) = sendRequest P c (w\<lparr>env := wait (env w)\<rparr>) path meth dat True;
          (rs, c2, w2) = run_authorized P c1 w1 calls
      in (r # rs, c2, w2))"

text \<open>
  The request that a dispatch is expected to hand to the transport: the verb (\<open>POST\<close>
  when none is given), the resolved URL, the payload as it was passed in, and the headers:
  content type JSON, the length in bytes of the encoded payload and, for an authorized
  call, the bearer header made from the token.
\<close>

definition expected_request :: "jsval \<Rightarrow> string \<Rightarrow> jsval \<Rightarrow> jsval option \<Rightarrow> request" where
  "expected_request meth href dat bearer =
     \<lparr>http_method = (if meth = JUndefined then JStr ''POST'' else meth),
      url = href,
      data = dat,
      headers =
        [(''Content-Type'', JStr ''application/json''),
         (''Content-Length'', JNum (Num (int (utf8_length (json_text dat)))))] @
        (case bearer of
           None \<Rightarrow> []
         | Some tok \<Rightarrow> [(''Authorization'', JStr (''Bearer '' @ ToString tok))])\<rparr>"

text \<open>The payload of the token request, and what a dispatch returns for an answer.\<close>

definition credentials :: "client \<Rightarrow> jsval" where
  "credentials c =
     JObj [(''grant_type'', JStr ''client_credentials''),
           (''client_id'', JStr (clientId c)),
           (''client_secret'', JStr (clientSecret c))]"

definition body_of :: "js_error + response \<Rightarrow> js_error + jsval" where
  "body_of ans = (case ans of Inl e \<Rightarrow> Inl e | Inr resp \<Rightarrow> Inr (response_data resp))"

text \<open>The expiry that \<open>getToken\<close> computes from the clock and the reported lifetime.\<close>

definition expiry_from :: "'w platform \<Rightarrow> int \<Rightarrow> jsval \<Rightarrow> jsnum" where
  "expiry_from P now lifetime =
     num_add (Num now) (num_mul (num_sub (ToNumber P lifetime) (Num 60)) (Num 1000))"

text \<open>
  The world right after the check at the head of an authorized dispatch: the clock has
  been read if, and only if, a token is held.
\<close>

definition checked :: "'w platform \<Rightarrow> client \<Rightarrow> 'w world \<Rightarrow> 'w world" where
  "checked P c w =
     (case token c of
        None \<Rightarrow> w
      | Some t \<Rightarrow> w\<lparr>trace := trace w @ [ClockRead (Date_now P (env w))]\<rparr>)"

text \<open>
  A wrapper's call has dispatched a payload whose field \<open>key\<close> holds \<open>v\<close>: the
  call is an authorized \<open>sendRequest\<close> of an object with that field.
\<close>

definition dispatched_field ::
    "'w platform \<Rightarrow> client \<Rightarrow> 'w world \<Rightarrow> string \<Rightarrow> jsval
      \<Rightarrow> (js_error + jsval) \<times> client \<times> 'w world \<Rightarrow> bool" where
  "dispatched_field P c w key v result \<longleftrightarrow>
     (\<exists>path verb dat. result = sendRequest P c w path verb (JObj dat) True \<and>
        map_of dat key = Some v)"

definition legacy_dispatched_field ::
    "'w platform \<Rightarrow> legacy \<Rightarrow> 'w world \<Rightarrow> string \<Rightarrow> jsval
      \<Rightarrow> (js_error + jsval) \<times> legacy \<times> 'w world \<Rightarrow> bool" where
  "legacy_dispatched_field P s w key v result \<longleftrightarrow>
     (\<exists>path verb dat. result = legacy_sendRequest P s w path verb (JObj dat) True \<and>
        map_of dat key = Some v)"

text \<open>
  A call was rejected by a guard: it threw \<open>Error(msg)\<close> and left the state (of the
  client, or of the legacy module) and the world as they were, so nothing reached the
  transport.
\<close>

definition rejected ::
    "string \<Rightarrow> 'st \<Rightarrow> 'w world \<Rightarrow> (js_error + jsval) \<times> 'st \<times> 'w world \<Rightarrow> bool" where
  "rejected msg st w result \<longleftrightarrow> result = (Inl (Error msg), st, w)"

text \<open>What the check at the head of an authorized dispatch appends to the trace.\<close>

definition check_events :: "'w platform \<Rightarrow> client \<Rightarrow> 'w world \<Rightarrow> event list" where
  "check_events P c w =
     (case token c of None \<Rightarrow> [] | Some t \<Rightarrow> [ClockRead (Date_now P (env w))])"

section \<open>A test double for the environment\<close>

text \<open>
  A simulated service for concrete runs: the world is the clock in milliseconds, every
  request takes five of them, the token endpoint gives the answer that is passed in and
  every other endpoint answers with an empty list.  The hash and the base64 text are not
  computed: the double hands the text back as it is.
\<close>

definition mock :: "(js_error + response) \<Rightarrow> int platform" where
  "mock token_answer =
     \<lparr>Date_now = (\<lambda>t. t),
      axios_request = (\<lambda>req t.
         (if url req = ''https://api.sendpulse.com/oauth/access_token'' then token_answer
          else Inr \<lparr>response_data = JArr [], response_status = 200\<rparr>,
          t + 5)),
      URL_href = (\<lambda>path base. Inr (base @ ''/'' @ path)),
      StringToNumber = (\<lambda>s. NaN),
      md5 = (\<lambda>s. s),
      Buffer_from_base64 = (\<lambda>v. Inr (ToString v)),
      new_Buffer_base64 = (\<lambda>v. Inr (ToString v))\<rparr>"

definition token_T1 :: "js_error + response" where
  "token_T1 =
     Inr \<lparr>response_data = JObj [(''access_token'', JStr ''T1''), (''expires_in'', JNum (Num 3600))],
          response_status = 200\<rparr>"

definition token_short_lived :: "js_error + response" where
  "token_short_lived =
     Inr \<lparr>response_data = JObj [(''access_token'', JStr ''T1''), (''expires_in'', JNum (Num 60))],
          response_status = 200\<rparr>"

definition token_without_expiry :: "js_error + response" where
  "token_without_expiry =
     Inr \<lparr>response_data = JObj [(''access_token'', JStr ''T1'')], response_status = 200\<rparr>"

definition token_refused :: "js_error + response" where
  "token_refused = Inl (AxiosError (JStr ''Request failed with status code 401''))"

definition abc :: client where
  "abc = SendPulseClient ''abc'' (Some ''xyz'') None"

definition at_time :: "int \<Rightarrow> int world" where
  "at_time t = \<lparr>env = t, trace = []\<rparr>"

text \<open>
  What the simulated service sees from the client \<open>abc\<close>: its token request and its
  authorized request for the address books; the client holding the token \<open>T1\<close> with a
  given expiry; and the answers of the service.
\<close>

definition abc_token_request :: request where
  "abc_token_request =
     \<lparr>http_method = JStr ''POST'',
      url = ''https://api.sendpulse.com/oauth/access_token'',
      data = JObj [(''grant_type'', JStr ''client_credentials''),
                   (''client_id'', JStr ''abc''), (''client_secret'', JStr ''xyz'')],
      headers = [(''Content-Type'', JStr ''application/json''),
                 (''Content-Length'', JNum (Num 75))]\<rparr>"

definition abc_addressbooks_request :: request where
  "abc_addressbooks_request =
     \<lparr>http_method = JStr ''GET'',
      url = ''https://api.sendpulse.com/addressbooks'',
      data = JObj [],
      headers = [(''Content-Type'', JStr ''application/json''),
                 (''Content-Length'', JNum (Num 2)),
                 (''Authorization'', JStr ''Bearer T1'')]\<rparr>"

definition abc_holding :: "jsnum \<Rightarrow> client" where
  "abc_holding expiry = abc\<lparr>token := Some \<lparr>access_token = JStr ''T1'', expires_at = expiry\<rparr>\<rparr>"

definition refusal :: js_error where
  "refusal = AxiosError (JStr ''Request failed with status code 401'')"

definition empty_list_answer :: "js_error + response" where
  "empty_list_answer = Inr \<lparr>response_data = JArr [], response_status = 200\<rparr>"

section \<open>Running the dispatch step by step\<close>

text \<open>
  The lemmas of this section run \<open>sendRequest\<close> and \<open>getToken\<close> one decision at a
  time; the properties of the client are proved from them.
\<close>

lemma fetches_append [simp]: "fetches (xs @ ys) = fetches xs + fetches ys"
  by (induction xs) (simp_all add: fetches_def)

lemma fetches_simps [simp]:
  "fetches [] = 0"
  "fetches (GetTokenCall # evs) = Suc (fetches evs)"
  "fetches (ClockRead n # evs) = fetches evs"
  "fetches (HttpRequest req # evs) = fetches evs"
  "fetches (HttpResponse ans # evs) = fetches evs"
  by (simp_all add: fetches_def)

lemma clock_reads_append [simp]: "clock_reads (xs @ ys) = clock_reads xs @ clock_reads ys"
  by (induction xs rule: clock_reads.induct) simp_all

lemma requests_append [simp]: "requests (xs @ ys) = requests xs @ requests ys"
  by (induction xs rule: requests.induct) simp_all

lemma byteLength_defined:
  "dat \<noteq> JUndefined \<Longrightarrow> Buffer_byteLength (JSON_stringify dat) = Inr (utf8_length (json_text dat))"
  by (simp add: JSON_stringify_def)

lemma byteLength_undefined:
  "\<exists>msg. Buffer_byteLength (JSON_stringify JUndefined) = Inl (TypeError msg)"
  by (simp add: JSON_stringify_def)

lemma sendRequest_undefined:
  "\<exists>msg. sendRequest P c w path meth JUndefined useToken = (Inl (TypeError msg), c, w)"
  by (simp add: sendRequest.simps[of P c w path meth JUndefined useToken] JSON_stringify_def)

lemma sendRequest_noauth_bad_url:
  assumes "dat \<noteq> JUndefined" and "URL_href P path (apiUrl c) = Inl e"
  shows "sendRequest P c w path meth dat False = (Inl e, c, w)"
  using assms
  by (simp add: sendRequest.simps[of P c w path meth dat False] byteLength_defined)

lemma sendRequest_noauth_sent:
  assumes "dat \<noteq> JUndefined" and "URL_href P path (apiUrl c) = Inr href"
      and "axios_request P (expected_request meth href dat None) (env w) = (ans, env')"
  shows "sendRequest P c w path meth dat False =
           (body_of ans, c,
            w\<lparr>env := env',
              trace := trace w @ [HttpRequest (expected_request meth href dat None), HttpResponse ans]\<rparr>)"
  using assms
  by (simp add: sendRequest.simps[of P c w path meth dat False] byteLength_defined
        expected_request_def body_of_def split: sum.splits)

lemma get_prop_total:
  assumes "get_prop v k = Inr a"
  shows "\<exists>b. get_prop v k' = Inr b"
  using assms by (cases v) simp_all

lemma getToken_bad_url:
  assumes "URL_href P ''oauth/access_token'' (apiUrl c) = Inl e"
  shows "getToken P c w = (Inl e, c, w\<lparr>trace := trace w @ [GetTokenCall]\<rparr>)"
proof -
  have "sendRequest P c (w\<lparr>trace := trace w @ [GetTokenCall]\<rparr>) ''oauth/access_token''
          (JStr ''POST'') (credentials c) False = (Inl e, c, w\<lparr>trace := trace w @ [GetTokenCall]\<rparr>)"
    by (rule sendRequest_noauth_bad_url) (simp_all add: credentials_def assms)
  then show ?thesis
    by (simp add: getToken.simps[of P c w] credentials_def)
qed

lemma getToken_sent:
  assumes url: "URL_href P ''oauth/access_token'' (apiUrl c) = Inr href"
      and ans: "axios_request P (expected_request (JStr ''POST'') href (credentials c) None) (env w)
                  = (ans, env')"
      and w1: "w1 = w\<lparr>env := env',
                       trace := trace w @ [GetTokenCall,
                         HttpRequest (expected_request (JStr ''POST'') href (credentials c) None),
                         HttpResponse ans]\<rparr>"
  shows "getToken P c w =
           (case ans of
              Inl e \<Rightarrow> (Inl e, c, w1)
            | Inr resp \<Rightarrow>
                (case get_prop (response_data resp) ''access_token'' of
                   Inl e \<Rightarrow> (Inl e, c, w1)
                 | Inr tok \<Rightarrow>
                     (case get_prop (response_data resp) ''expires_in'' of
                        Inl e \<Rightarrow> (Inl e, c, w1\<lparr>trace := trace w1 @ [ClockRead (Date_now P env')]\<rparr>)
                      | Inr ei \<Rightarrow>
                          (Inr (),
                           c\<lparr>token := Some \<lparr>access_token = tok,
                                            expires_at = expiry_from P (Date_now P env') ei\<rparr>\<rparr>,
                           w1\<lparr>trace := trace w1 @ [ClockRead (Date_now P env')]\<rparr>))))"
proof -
  let ?w0 = "w\<lparr>trace := trace w @ [GetTokenCall]\<rparr>"
  have "sendRequest P c ?w0 ''oauth/access_token'' (JStr ''POST'') (credentials c) False =
          (body_of ans, c, w1)"
    using sendRequest_noauth_sent[of "credentials c" P "''oauth/access_token''" c href "JStr ''POST''" ?w0 ans env']
      url ans w1 by (simp add: credentials_def)
  moreover have "env w1 = env'"
    using w1 by simp
  ultimately show ?thesis
    by (simp add: getToken.simps[of P c w] credentials_def[symmetric] body_of_def expiry_from_def Let_def
          split: sum.splits)
qed

lemma checked_simps:
  "token c = None \<Longrightarrow> checked P c w = w"
  "token c = Some t \<Longrightarrow> checked P c w = w\<lparr>trace := trace w @ [ClockRead (Date_now P (env w))]\<rparr>"
  by (simp_all add: checked_def)

lemma env_checked [simp]: "env (checked P c w) = env w"
  by (simp add: checked_def split: option.splits)

lemma body_of_case:
  "(case ans of Inl e \<Rightarrow> (Inl e, c, w) | Inr resp \<Rightarrow> (Inr (response_data resp), c, w)) =
     (body_of ans, c, w)"
  by (cases ans) (simp_all add: body_of_def)

lemma sendRequest_valid:
  assumes "dat \<noteq> JUndefined" and "token_state_at c (Date_now P (env w)) = Valid"
  shows "\<exists>t. token c = Some t \<and>
           sendRequest P c w path meth dat True =
           (case URL_href P path (apiUrl c) of
              Inl e \<Rightarrow> (Inl e, c, checked P c w)
            | Inr href \<Rightarrow>
                (let req = expected_request meth href dat (Some (access_token t));
                     ans = axios_request P req (env w)
                 in (body_of (fst ans), c,
                     w\<lparr>env := snd ans,
                       trace := trace (checked P c w) @ [HttpRequest req, HttpResponse (fst ans)]\<rparr>)))"
proof -
  from assms(2) obtain t where t: "token c = Some t"
    and fresh: "\<not> num_ge (Num (Date_now P (env w))) (expires_at t)"
    by (auto simp: token_state_at_def split: option.splits if_splits)
  have "sendRequest P c w path meth dat True =
           (case URL_href P path (apiUrl c) of
              Inl e \<Rightarrow> (Inl e, c, checked P c w)
            | Inr href \<Rightarrow>
                (let req = expected_request meth href dat (Some (access_token t));
                     ans = axios_request P req (env w)
                 in (body_of (fst ans), c,
                     w\<lparr>env := snd ans,
                       trace := trace (checked P c w) @ [HttpRequest req, HttpResponse (fst ans)]\<rparr>)))"
  proof (cases "URL_href P path (apiUrl c)")
    case (Inl e)
    then show ?thesis
      using t fresh assms(1)
      by (simp add: sendRequest.simps[of P c w path meth dat True] byteLength_defined
            checked_def Let_def)
  next
    case (Inr href)
    then show ?thesis
      using t fresh assms(1)
      by (simp add: sendRequest.simps[of P c w path meth dat True] byteLength_defined
            checked_def expected_request_def body_of_case Let_def split_def)
  qed
  with t show ?thesis by blast
qed

lemma sendRequest_fetch:
  assumes dat: "dat \<noteq> JUndefined" and stale: "token_state_at c (Date_now P (env w)) \<noteq> Valid"
      and fetch: "getToken P c (checked P c w) = (fetched, c1, w1)"
  shows "sendRequest P c w path meth dat True =
           (case fetched of
              Inl e \<Rightarrow> (Inl e, c1, w1)
            | Inr u \<Rightarrow>
                (case token c1 of
                   None \<Rightarrow>
                     (Inl (TypeError ''Cannot read properties of undefined (reading access_token)''),
                      c1, w1)
                 | Some t' \<Rightarrow>
                     (case URL_href P path (apiUrl c1) of
                        Inl e \<Rightarrow> (Inl e, c1, w1)
                      | Inr href \<Rightarrow>
                          (let req = expected_request meth href dat (Some (access_token t'));
                               ans = axios_request P req (env w1)
                           in (body_of (fst ans), c1,
                               w1\<lparr>env := snd ans,
                                  trace := trace w1 @ [HttpRequest req, HttpResponse (fst ans)]\<rparr>)))))"
proof -
  note unfold = sendRequest.simps[of P c w path meth dat True] byteLength_defined[OF dat]
    body_of_case expected_request_def Let_def split_def
  have pre: "(token c = None \<and> getToken P c w = (fetched, c1, w1)) \<or>
             (\<exists>t. token c = Some t \<and> num_ge (Num (Date_now P (env w))) (expires_at t) \<and>
                  getToken P c (w\<lparr>trace := trace w @ [ClockRead (Date_now P (env w))]\<rparr>) =
                    (fetched, c1, w1))"
    using stale fetch by (auto simp: token_state_at_def checked_def split: option.splits if_splits)
  show ?thesis
  proof (cases fetched)
    case (Inl e)
    with pre show ?thesis by (auto simp: unfold)
  next
    case (Inr u)
    show ?thesis
    proof (cases "token c1")
      case None
      with Inr pre show ?thesis by (auto simp: unfold)
    next
      case (Some t')
      show ?thesis
      proof (cases "URL_href P path (apiUrl c1)")
        case (Inl e)
        with Inr Some pre show ?thesis by (auto simp: unfold)
      next
        case (Inr href)
        with \<open>fetched = Inr u\<close> Some pre show ?thesis by (auto simp: unfold)
      qed
    qed
  qed
qed

subsection \<open>The outcomes of a token fetch and of an authorized dispatch\<close>

lemma getToken_outcome:
  assumes run: "getToken P c w = (r, c', w')"
  obtains
    (bad_url) e where "r = Inl e" "c' = c" "w' = w\<lparr>trace := trace w @ [GetTokenCall]\<rparr>"
  | (refused) req e where "r = Inl e" "c' = c" "env w' = snd (axios_request P req (env w))"
      "trace w' = trace w @ [GetTokenCall, HttpRequest req, HttpResponse (Inl e)]"
  | (bad_body) req resp e where "r = Inl e" "c' = c" "env w' = snd (axios_request P req (env w))"
      "trace w' = trace w @ [GetTokenCall, HttpRequest req, HttpResponse (Inr resp)]"
      "get_prop (response_data resp) ''access_token'' = Inl e"
  | (stored) req resp tok ei where "r = Inr ()" "env w' = snd (axios_request P req (env w))"
      "trace w' = trace w @ [GetTokenCall, HttpRequest req, HttpResponse (Inr resp),
                            ClockRead (Date_now P (env w'))]"
      "get_prop (response_data resp) ''access_token'' = Inr tok"
      "get_prop (response_data resp) ''expires_in'' = Inr ei"
      "c' = c\<lparr>token := Some \<lparr>access_token = tok,
                                expires_at = expiry_from P (Date_now P (env w')) ei\<rparr>\<rparr>"
proof (cases "URL_href P ''oauth/access_token'' (apiUrl c)")
  case (Inl e)
  from getToken_bad_url[OF Inl, of w] run bad_url show ?thesis by simp
next
  case (Inr href)
  let ?req = "expected_request (JStr ''POST'') href (credentials c) None"
  obtain ans env' where ans: "axios_request P ?req (env w) = (ans, env')"
    by (cases "axios_request P ?req (env w)") blast
  define w1 where "w1 = w\<lparr>env := env',
       trace := trace w @ [GetTokenCall, HttpRequest ?req, HttpResponse ans]\<rparr>"
  note sent = getToken_sent[OF Inr ans w1_def]
  have env1: "env w1 = snd (axios_request P ?req (env w))"
    and tr1: "trace w1 = trace w @ [GetTokenCall, HttpRequest ?req, HttpResponse ans]"
    using ans by (simp_all add: w1_def)
  show ?thesis
  proof (cases ans)
    case (Inl e)
    with sent run have "r = Inl e" "c' = c" "w' = w1" by simp_all
    with env1 tr1 Inl refused show ?thesis by simp
  next
    case resp: (Inr resp)
    show ?thesis
    proof (cases "get_prop (response_data resp) ''access_token''")
      case (Inl e)
      with sent run resp have "r = Inl e" "c' = c" "w' = w1" by simp_all
      with env1 tr1 resp Inl bad_body show ?thesis by simp
    next
      case tok: (Inr tok)
      from get_prop_total[OF tok] obtain ei where
        ei: "get_prop (response_data resp) ''expires_in'' = Inr ei" by blast
      from sent run resp tok ei
      have "r = Inr ()"
        and c': "c' = c\<lparr>token := Some \<lparr>access_token = tok,
                                expires_at = expiry_from P (Date_now P env') ei\<rparr>\<rparr>"
        and w': "w' = w1\<lparr>trace := trace w1 @ [ClockRead (Date_now P env')]\<rparr>"
        by simp_all
      moreover from w' have "env w' = env'" by (simp add: w1_def)
      moreover from this env1 w' have "env w' = snd (axios_request P ?req (env w))" by simp
      moreover from w' tr1 \<open>env w' = env'\<close> resp
      have "trace w' = trace w @ [GetTokenCall, HttpRequest ?req, HttpResponse (Inr resp),
                            ClockRead (Date_now P (env w'))]" by simp
      ultimately show ?thesis using stored tok ei by simp
    qed
  qed
qed

lemma getToken_fetches:
  assumes "getToken P c w = (r, c', w')"
  shows "fetches (trace w') = Suc (fetches (trace w))"
  using assms by (cases rule: getToken_outcome) simp_all

lemma getToken_success_has_token:
  assumes "getToken P c w = (Inr u, c', w')"
  shows "\<exists>t. token c' = Some t"
  using assms by (cases rule: getToken_outcome) simp_all

lemma getToken_failure_keeps_client:
  assumes "getToken P c w = (Inl e, c', w')"
  shows "c' = c"
  using assms by (cases rule: getToken_outcome) simp_all

lemma getToken_apiUrl:
  assumes "getToken P c w = (r, c', w')"
  shows "apiUrl c' = apiUrl c"
  using assms by (cases rule: getToken_outcome) simp_all

lemma trace_checked:
  "trace (checked P c w) =
     trace w @ (case token c of None \<Rightarrow> [] | Some t \<Rightarrow> [ClockRead (Date_now P (env w))])"
  by (simp add: checked_def split: option.splits)

lemma sendRequest_auth_outcome:
  assumes run: "sendRequest P c w path meth dat True = (r, c', w')"
  obtains
    (no_payload) msg where "dat = JUndefined" "r = Inl (TypeError msg)" "c' = c" "w' = w"
  | (valid_bad_url) e where "dat \<noteq> JUndefined"
      "token_state_at c (Date_now P (env w)) = Valid"
      "URL_href P path (apiUrl c) = Inl e" "r = Inl e" "c' = c" "w' = checked P c w"
  | (valid_sent) t href ans where "dat \<noteq> JUndefined"
      "token_state_at c (Date_now P (env w)) = Valid" "token c = Some t"
      "URL_href P path (apiUrl c) = Inr href" "r = body_of ans" "c' = c"
      "trace w' = trace w @ [ClockRead (Date_now P (env w)),
         HttpRequest (expected_request meth href dat (Some (access_token t))), HttpResponse ans]"
  | (fetch_failed) e where "dat \<noteq> JUndefined"
      "token_state_at c (Date_now P (env w)) \<noteq> Valid"
      "getToken P c (checked P c w) = (Inl e, c, w')" "r = Inl e" "c' = c"
  | (fetched_bad_url) e where "dat \<noteq> JUndefined"
      "token_state_at c (Date_now P (env w)) \<noteq> Valid"
      "getToken P c (checked P c w) = (Inr (), c', w')"
      "URL_href P path (apiUrl c) = Inl e" "r = Inl e"
  | (fetched_sent) t' href ans w1 where "dat \<noteq> JUndefined"
      "token_state_at c (Date_now P (env w)) \<noteq> Valid"
      "getToken P c (checked P c w) = (Inr (), c', w1)" "token c' = Some t'"
      "URL_href P path (apiUrl c) = Inr href" "r = body_of ans"
      "trace w' = trace w1 @
         [HttpRequest (expected_request meth href dat (Some (access_token t'))), HttpResponse ans]"
proof (cases "dat = JUndefined")
  case True
  with run sendRequest_undefined[of P c w path meth True] no_payload show ?thesis by auto
next
  case dat: False
  show ?thesis
  proof (cases "token_state_at c (Date_now P (env w)) = Valid")
    case True
    from sendRequest_valid[OF dat True, of path meth] obtain t where t: "token c = Some t"
      and eq: "sendRequest P c w path meth dat True =
           (case URL_href P path (apiUrl c) of
              Inl e \<Rightarrow> (Inl e, c, checked P c w)
            | Inr href \<Rightarrow>
                (let req = expected_request meth href dat (Some (access_token t));
                     ans = axios_request P req (env w)
                 in (body_of (fst ans), c,
                     w\<lparr>env := snd ans,
                       trace := trace (checked P c w) @ [HttpRequest req, HttpResponse (fst ans)]\<rparr>)))"
      by blast
    show ?thesis
    proof (cases "URL_href P path (apiUrl c)")
      case (Inl e)
      with eq run have "r = Inl e" "c' = c" "w' = checked P c w" by simp_all
      with dat True Inl valid_bad_url show ?thesis by blast
    next
      case (Inr href)
      let ?req = "expected_request meth href dat (Some (access_token t))"
      from eq run Inr have "r = body_of (fst (axios_request P ?req (env w)))" "c' = c"
        "trace w' = trace (checked P c w) @
           [HttpRequest ?req, HttpResponse (fst (axios_request P ?req (env w)))]"
        by (simp_all add: Let_def)
      with t have "r = body_of (fst (axios_request P ?req (env w)))" "c' = c"
        "trace w' = trace w @ [ClockRead (Date_now P (env w)),
           HttpRequest ?req, HttpResponse (fst (axios_request P ?req (env w)))]"
        by (simp_all add: trace_checked)
      with dat True t Inr valid_sent show ?thesis by blast
    qed
  next
    case stale: False
    obtain fetched c1 w1 where fetch: "getToken P c (checked P c w) = (fetched, c1, w1)"
      by (cases "getToken P c (checked P c w)") blast
    note eq = sendRequest_fetch[OF dat stale fetch, of path meth]
    show ?thesis
    proof (cases fetched)
      case (Inl e)
      with eq run have *: "r = Inl e" "c' = c1" "w' = w1" by simp_all
      from fetch Inl have "c1 = c" by (simp add: getToken_failure_keeps_client)
      with * fetch Inl dat stale fetch_failed show ?thesis by simp
    next
      case (Inr u)
      with fetch getToken_success_has_token[of P c "checked P c w" u c1 w1]
      obtain t' where t': "token c1 = Some t'" by auto
      from fetch have url: "apiUrl c1 = apiUrl c" by (rule getToken_apiUrl)
      show ?thesis
      proof (cases "URL_href P path (apiUrl c)")
        case (Inl e)
        with eq run Inr t' url have "r = Inl e" "c' = c1" "w' = w1" by simp_all
        with fetch Inr Inl dat stale fetched_bad_url show ?thesis by simp
      next
        case href: (Inr href)
        let ?req = "expected_request meth href dat (Some (access_token t'))"
        from eq run Inr t' url href
        have "r = body_of (fst (axios_request P ?req (env w1)))" "c' = c1"
          "trace w' = trace w1 @
             [HttpRequest ?req, HttpResponse (fst (axios_request P ?req (env w1)))]"
          by (simp_all add: Let_def)
        with fetch Inr t' href dat stale fetched_sent show ?thesis by simp
      qed
    qed
  qed
qed

lemma first_fetch_unique:
  assumes "fetches pre = 0" and "fetches pre' = 0"
      and "pre @ GetTokenCall # rest = pre' @ GetTokenCall # rest'"
  shows "pre = pre' \<and> rest = rest'"
  using assms
proof (induction pre arbitrary: pre')
  case Nil
  then show ?case by (cases pre') (auto simp: fetches_def)
next
  case (Cons x pre)
  then show ?case by (cases pre') (auto simp: fetches_def split: if_splits)
qed

lemma fetches_checked [simp]: "fetches (trace (checked P c w)) = fetches (trace w)"
  by (simp add: trace_checked split: option.splits)

lemma check_events_quiet [simp]:
  "fetches (check_events P c w) = 0" "requests (check_events P c w) = []"
  by (simp_all add: check_events_def split: option.splits)

lemma trace_checked': "trace (checked P c w) = trace w @ check_events P c w"
  by (simp add: trace_checked check_events_def)

text \<open>
  What an authorized dispatch appends to the trace.
\<close>

lemma sendRequest_auth_trace:
  assumes run: "sendRequest P c w path meth dat True = (r, c', w')"
  obtains
    (quiet) evs where "trace w' = trace w @ evs" "fetches evs = 0" "c' = c"
      "token_state_at c (Date_now P (env w)) = Valid \<or> dat = JUndefined"
      "(dat = JUndefined \<and> evs = []) \<or>
       (dat \<noteq> JUndefined \<and> token_state_at c (Date_now P (env w)) = Valid \<and>
        (evs = [ClockRead (Date_now P (env w))] \<or>
         (\<exists>t href ans. token c = Some t \<and> URL_href P path (apiUrl c) = Inr href \<and>
            r = body_of ans \<and>
            evs = [ClockRead (Date_now P (env w)),
                   HttpRequest (expected_request meth href dat (Some (access_token t))),
                   HttpResponse ans])))"
  | (fetch_bad_url) e where
      "trace w' = trace w @ check_events P c w @ [GetTokenCall]"
      "token_state_at c (Date_now P (env w)) \<noteq> Valid" "dat \<noteq> JUndefined" "r = Inl e" "c' = c"
  | (fetch_refused) req e where
      "trace w' = trace w @ check_events P c w @
                    [GetTokenCall, HttpRequest req, HttpResponse (Inl e)]"
      "token_state_at c (Date_now P (env w)) \<noteq> Valid" "dat \<noteq> JUndefined" "r = Inl e" "c' = c"
  | (fetch_bad_body) req resp e where
      "trace w' = trace w @ check_events P c w @
                    [GetTokenCall, HttpRequest req, HttpResponse (Inr resp)]"
      "token_state_at c (Date_now P (env w)) \<noteq> Valid" "dat \<noteq> JUndefined" "r = Inl e" "c' = c"
  | (fetched_bad_url) req resp tok ei now e where
      "trace w' = trace w @ check_events P c w @
                    [GetTokenCall, HttpRequest req, HttpResponse (Inr resp), ClockRead now]"
      "token_state_at c (Date_now P (env w)) \<noteq> Valid" "dat \<noteq> JUndefined"
      "get_prop (response_data resp) ''access_token'' = Inr tok"
      "get_prop (response_data resp) ''expires_in'' = Inr ei"
      "c' = c\<lparr>token := Some \<lparr>access_token = tok, expires_at = expiry_from P now ei\<rparr>\<rparr>"
      "URL_href P path (apiUrl c) = Inl e" "r = Inl e"
  | (fetched_sent) req resp tok ei now href ans where
      "trace w' = trace w @ check_events P c w @
                    [GetTokenCall, HttpRequest req, HttpResponse (Inr resp), ClockRead now,
                     HttpRequest (expected_request meth href dat (Some tok)), HttpResponse ans]"
      "token_state_at c (Date_now P (env w)) \<noteq> Valid" "dat \<noteq> JUndefined"
      "get_prop (response_data resp) ''access_token'' = Inr tok"
      "get_prop (response_data resp) ''expires_in'' = Inr ei"
      "c' = c\<lparr>token := Some \<lparr>access_token = tok, expires_at = expiry_from P now ei\<rparr>\<rparr>"
      "URL_href P path (apiUrl c) = Inr href" "r = body_of ans"
  using run
proof (cases rule: sendRequest_auth_outcome)
  case (no_payload msg)
  show ?thesis by (rule quiet[of "[]"]) (use no_payload in simp_all)
next
  case (valid_bad_url e)
  from valid_bad_url(2) obtain t where "token c = Some t"
    by (auto simp: token_state_at_def split: option.splits)
  then have "check_events P c w = [ClockRead (Date_now P (env w))]"
    by (simp add: check_events_def)
  then show ?thesis
    using valid_bad_url(1,2,5,6)
    by (intro quiet[of "[ClockRead (Date_now P (env w))]"]) (simp_all add: trace_checked')
next
  case (valid_sent t href ans)
  show ?thesis
    by (rule quiet[of "[ClockRead (Date_now P (env w)),
         HttpRequest (expected_request meth href dat (Some (access_token t))), HttpResponse ans]"])
       (use valid_sent(1,2,3,4,5,6,7) in simp_all)
next
  case (fetch_failed e)
  note ctx = fetch_failed(1,2,4,5)
  from fetch_failed(3) show ?thesis
  proof (cases rule: getToken_outcome)
    case (bad_url e')
    show ?thesis
      by (rule fetch_bad_url[of e]) (use bad_url(3) ctx in \<open>simp_all add: trace_checked'\<close>)
  next
    case (refused req e')
    show ?thesis
      by (rule fetch_refused[of req e])
         (use refused(1,4) ctx in \<open>simp_all add: trace_checked'\<close>)
  next
    case (bad_body req resp e')
    show ?thesis
      by (rule fetch_bad_body[of req resp e])
         (use bad_body(4) ctx in \<open>simp_all add: trace_checked'\<close>)
  next
    case (stored req resp tok ei)
    then show ?thesis by simp
  qed
next
  case (fetched_bad_url e)
  note ctx = fetched_bad_url(1,2,4,5)
  from fetched_bad_url(3) show ?thesis
  proof (cases rule: getToken_outcome)
    case (stored req resp tok ei)
    show ?thesis
      by (rule that(5)[of req resp "Date_now P (env w')" tok ei e])
         (use stored(3,4,5,6) ctx in \<open>simp_all add: trace_checked'\<close>)
  qed simp_all
next
  case (fetched_sent t' href ans w1)
  note ctx = fetched_sent(1,2,5,6)
  from fetched_sent(3) show ?thesis
  proof (cases rule: getToken_outcome)
    case (stored req resp tok ei)
    from stored(6) fetched_sent(4) have tok: "access_token t' = tok" by auto
    show ?thesis
      by (rule that(6)[of req resp "Date_now P (env w1)" href tok ans ei])
         (use stored(3,4,5,6) ctx fetched_sent(7) tok in \<open>simp_all add: trace_checked'\<close>)
  qed simp_all
qed

lemma sendRequest_auth_coarse:
  assumes run: "sendRequest P c w path meth dat True = (r, c', w')"
  obtains
    (quiet) evs where "trace w' = trace w @ evs" "fetches evs = 0" "c' = c"
  | (fetch) tail where "trace w' = trace w @ check_events P c w @ GetTokenCall # tail"
      "token_state_at c (Date_now P (env w)) \<noteq> Valid"
  using run
proof (cases rule: sendRequest_auth_trace)
  case (quiet evs)
  then show ?thesis using that(1) by blast
next
  case (fetch_bad_url e)
  then show ?thesis using that(2)[of "[]"] by simp
next
  case (fetch_refused req e)
  then show ?thesis using that(2)[of "[HttpRequest req, HttpResponse (Inl e)]"] by simp
next
  case (fetch_bad_body req resp e)
  then show ?thesis using that(2)[of "[HttpRequest req, HttpResponse (Inr resp)]"] by simp
next
  case (fetched_bad_url req resp tok ei now e)
  then show ?thesis
    using that(2)[of "[HttpRequest req, HttpResponse (Inr resp), ClockRead now]"] by simp
next
  case (fetched_sent req resp tok ei now href ans)
  then show ?thesis
    using that(2)[of "[HttpRequest req, HttpResponse (Inr resp), ClockRead now,
                     HttpRequest (expected_request meth href dat (Some tok)), HttpResponse ans]"]
    by simp
qed

lemma sendRequest_auth_extends:
  assumes "sendRequest P c w path meth dat True = (r, c', w')"
  shows "\<exists>evs. trace w' = trace w @ evs"
  using assms by (cases rule: sendRequest_auth_coarse) auto

lemma sendRequest_auth_fetches:
  assumes "dat \<noteq> JUndefined" and "sendRequest P c w path meth dat True = (r, c', w')"
  shows "fetches (trace w') =
           fetches (trace w) + (if token_state_at c (Date_now P (env w)) = Valid then 0 else 1)"
    and "token_state_at c (Date_now P (env w)) = Valid \<Longrightarrow> c' = c"
  using assms(2)
  by (cases rule: sendRequest_auth_trace; use assms(1) in simp)+

lemma sendRequest_valid_requests:
  assumes "dat \<noteq> JUndefined" and "token_state_at c (Date_now P (env w)) = Valid"
      and "token c = Some t"
      and "sendRequest P c w path meth dat True = (r, c', w')"
  shows "\<exists>rs. requests (trace w') = requests (trace w) @ rs \<and>
           (\<forall>rq \<in> set rs. map_of (headers rq) ''Authorization'' =
                             Some (JStr (''Bearer '' @ ToString (access_token t))))"
  using assms(4)
proof (cases rule: sendRequest_auth_trace)
  case (quiet evs)
  from quiet(5) assms(1,3)
  have "\<forall>rq \<in> set (requests evs). map_of (headers rq) ''Authorization'' =
                             Some (JStr (''Bearer '' @ ToString (access_token t)))"
    by (auto simp: expected_request_def)
  with quiet(1) show ?thesis by simp
qed (use assms(2) in simp_all)

lemma expiry_from_number [simp]:
  "expiry_from P now (JNum (Num n)) = Num (now + (n - 60) * 1000)"
  by (simp add: expiry_from_def)

lemma expiry_from_undefined [simp]: "expiry_from P now JUndefined = NaN"
  by (simp add: expiry_from_def)

lemma bearer_header [simp]:
  "map_of (headers (expected_request meth href dat (Some tok))) ''Authorization'' =
     Some (JStr (''Bearer '' @ ToString tok))"
  "map_of (headers (expected_request meth href dat None)) ''Authorization'' = None"
  by (simp_all add: expected_request_def)



lemma run_authorized_extends:
  assumes "run_authorized P c w calls = (rs, c', w')"
  shows "\<exists>evs. trace w' = trace w @ evs"
  using assms
proof (induction calls arbitrary: c w rs c' w')
  case Nil
  then show ?case by simp
next
  case (Cons call calls)
  obtain wait path meth dat where call: "call = (wait, path, meth, dat)"
    by (cases call) auto
  obtain r c1 w1 where
    first: "sendRequest P c (w\<lparr>env := wait (env w)\<rparr>) path meth dat True = (r, c1, w1)"
    by (cases "sendRequest P c (w\<lparr>env := wait (env w)\<rparr>) path meth dat True") blast
  obtain rs' c2 w2 where rest: "run_authorized P c1 w1 calls = (rs', c2, w2)"
    by (cases "run_authorized P c1 w1 calls") blast
  from Cons.prems call first rest have "w' = w2" by simp
  moreover from sendRequest_auth_extends[OF first] obtain evs1 where
    "trace w1 = trace w @ evs1" by auto
  moreover from Cons.IH[OF rest] obtain evs2 where "trace w2 = trace w1 @ evs2" by auto
  ultimately show ?case by simp
qed

lemma run_authorized_valid:
  assumes "token c = Some t"
      and "run_authorized P c w calls = (rs, c', w')"
      and "trace w' = trace w @ evs"
      and "\<forall>n \<in> set (clock_reads evs). \<not> num_ge (Num n) (expires_at t)"
  shows "c' = c \<and> fetches evs = 0"
  using assms
proof (induction calls arbitrary: w rs w' evs)
  case Nil
  then show ?case by simp
next
  case (Cons call calls)
  obtain wait path meth dat where call: "call = (wait, path, meth, dat)"
    by (cases call) auto
  let ?w0 = "w\<lparr>env := wait (env w)\<rparr>"
  obtain r c1 w1 where first: "sendRequest P c ?w0 path meth dat True = (r, c1, w1)"
    by (cases "sendRequest P c ?w0 path meth dat True") blast
  obtain rs' c2 w2 where rest: "run_authorized P c1 w1 calls = (rs', c2, w2)"
    by (cases "run_authorized P c1 w1 calls") blast
  from Cons.prems(2) call first rest have fin: "c' = c2" "w' = w2" by simp_all
  from run_authorized_extends[OF rest] obtain evs2 where evs2: "trace w2 = trace w1 @ evs2"
    by auto
  from first show ?case
  proof (cases rule: sendRequest_auth_coarse)
    case (quiet evs1)
    from quiet(1) evs2 fin Cons.prems(3) have evs: "evs = evs1 @ evs2" by simp
    with Cons.prems(4) have "\<forall>n \<in> set (clock_reads evs2). \<not> num_ge (Num n) (expires_at t)"
      by simp
    moreover from rest quiet(3) fin have "run_authorized P c w1 calls = (rs', c', w2)"
      by simp
    ultimately have "c' = c \<and> fetches evs2 = 0"
      using Cons.IH[OF Cons.prems(1) _ evs2] by blast
    with evs quiet(2) show ?thesis by simp
  next
    case (fetch tail)
    from fetch(2) Cons.prems(1)
    have stale: "num_ge (Num (Date_now P (env ?w0))) (expires_at t)"
      by (simp add: token_state_at_def split: if_splits)
    from Cons.prems(1) have "check_events P c ?w0 = [ClockRead (Date_now P (env ?w0))]"
      by (simp add: check_events_def)
    with fetch(1) evs2 fin Cons.prems(3)
    have "evs = ClockRead (Date_now P (env ?w0)) # GetTokenCall # tail @ evs2" by simp
    with Cons.prems(4) stale show ?thesis by simp
  qed
qed

lemma legacy_sendRequest_trace:
  assumes "legacy_sendRequest P s w path meth dat u = (r, s', w')"
  shows "s' = s \<and>
         (w' = w \<or>
          (\<exists>req ans. trace w' = trace w @ [HttpRequest req, HttpResponse ans] \<and>
             url req = API_URL @ ''/'' @ path \<and> data req = dat))"
proof (cases "Buffer_byteLength (JSON_stringify dat)")
  case (Inl e)
  with assms show ?thesis by (simp add: legacy_sendRequest_def)
next
  case (Inr len)
  show ?thesis
  proof (cases "if u then has_length (TOKEN s) else Inr False")
    case (Inl e)
    with Inr assms show ?thesis by (simp add: legacy_sendRequest_def)
  next
    case b: (Inr b)
    with Inr assms show ?thesis
      by (auto simp: legacy_sendRequest_def Let_def split_def body_of_case)
  qed
qed

lemma legacy_getToken_failure:
  assumes "legacy_getToken P s w = (Inl e, s', w')"
  shows "s' = s"
proof -
  let ?w0 = "w\<lparr>trace := trace w @ [GetTokenCall]\<rparr>"
  let ?dat = "JObj [(''grant_type'', JStr ''client_credentials''),
                    (''client_id'', API_USER_ID s), (''client_secret'', API_SECRET s)]"
  obtain res s1 w1 where
    sent: "legacy_sendRequest P s ?w0 ''oauth/access_token'' (JStr ''POST'') ?dat False = (res, s1, w1)"
    by (cases "legacy_sendRequest P s ?w0 ''oauth/access_token'' (JStr ''POST'') ?dat False") blast
  from legacy_sendRequest_trace[OF sent] have s1: "s1 = s" by simp
  show ?thesis
  proof (cases res)
    case (Inl e')
    with assms sent s1 show ?thesis by (simp add: legacy_getToken_def)
  next
    case (Inr body)
    show ?thesis
    proof (cases "get_prop body ''access_token''")
      case (Inl e')
      with assms sent s1 Inr show ?thesis by (simp add: legacy_getToken_def)
    next
      case tok: (Inr tok)
      with assms sent s1 Inr show ?thesis by (simp add: legacy_getToken_def Let_def)
    qed
  qed
qed

section \<open>Concrete runs on the simulated service\<close>

text \<open>
  The definitions of the test double, and the runs that the examples below use: a fresh
  client fetching a token, being refused one, and a client that holds a token listing its
  address books.
\<close>

lemmas mock_defs = mock_def token_T1_def token_short_lived_def token_without_expiry_def
  token_refused_def abc_def
  at_time_def SendPulseClient_def

lemmas eval_defs = getToken.simps sendRequest.simps mock_defs JSON_stringify_def json_quote_def
  json_escape_def Let_def abc_token_request_def abc_holding_def refusal_def
  utf8_length_def utf8_bytes_def

lemmas eval_defs2 = eval_defs abc_addressbooks_request_def empty_list_answer_def

lemma run_getToken_refused:
  "getToken (mock token_refused) abc (at_time 1000) =
     (Inl refusal, abc,
      \<lparr>env = 1005,
       trace = [GetTokenCall, HttpRequest abc_token_request, HttpResponse (Inl refusal)]\<rparr>)"
  by (simp add: eval_defs)

lemma run_dispatch_refused:
  "sendRequest (mock token_refused) abc (at_time 1000) ''addressbooks'' (JStr ''GET'') (JObj []) True =
     (Inl refusal, abc,
      \<lparr>env = 1005,
       trace = [GetTokenCall, HttpRequest abc_token_request, HttpResponse (Inl refusal)]\<rparr>)"
  by (simp add: eval_defs)

lemma run_legacy_getToken_refused:
  "fst (legacy_getToken (mock token_refused) legacy_module (at_time 1000)) = Inl refusal"
  by (simp add: legacy_getToken_def legacy_sendRequest_def legacy_module_def API_URL_def
        has_length_def eval_defs)

lemma run_getToken_T1:
  "getToken (mock token_T1) abc (at_time 1000) =
     (Inr (), abc_holding (Num 3541005),
      \<lparr>env = 1005,
       trace = [GetTokenCall, HttpRequest abc_token_request, HttpResponse token_T1,
                ClockRead 1005]\<rparr>)"
  by (simp add: eval_defs2)

lemma run_getToken_without_expiry:
  "getToken (mock token_without_expiry) abc (at_time 1000) =
     (Inr (), abc_holding NaN,
      \<lparr>env = 1005,
       trace = [GetTokenCall, HttpRequest abc_token_request, HttpResponse token_without_expiry,
                ClockRead 1005]\<rparr>)"
  by (simp add: eval_defs2 expiry_from_def)

lemma run_listAddressBooks_fresh:
  "listAddressBooks (mock token_T1) abc (at_time 1000) =
     (Inr (JArr []), abc_holding (Num 3541005),
      \<lparr>env = 1010,
       trace = [GetTokenCall, HttpRequest abc_token_request, HttpResponse token_T1,
                ClockRead 1005,
                HttpRequest abc_addressbooks_request, HttpResponse empty_list_answer]\<rparr>)"
  by (simp add: listAddressBooks_def eval_defs2)

lemma run_listAddressBooks_holding:
  "\<not> num_ge (Num t) e \<Longrightarrow>
   listAddressBooks (mock answer) (abc_holding e) \<lparr>env = t, trace = evs\<rparr> =
     (Inr (JArr []), abc_holding e,
      \<lparr>env = t + 5,
       trace = evs @ [ClockRead t,
                HttpRequest abc_addressbooks_request, HttpResponse empty_list_answer]\<rparr>)"
  by (simp add: listAddressBooks_def eval_defs2)

lemma run_dispatch_holding:
  "\<not> num_ge (Num t) e \<Longrightarrow>
   sendRequest (mock answer) (abc_holding e) \<lparr>env = t, trace = evs\<rparr> ''addressbooks''
       (JStr ''GET'') (JObj []) True =
     (Inr (JArr []), abc_holding e,
      \<lparr>env = t + 5,
       trace = evs @ [ClockRead t,
                HttpRequest abc_addressbooks_request, HttpResponse empty_list_answer]\<rparr>)"
  using run_listAddressBooks_holding[of t e answer evs] by (simp add: listAddressBooks_def)

section \<open>Properties of the dispatch core\<close>






text \<open>
  C2.  A successful fetch whose answer reports \<open>expires_in = N\<close> seconds, read at
  clock \<open>t\<close> (milliseconds), stores the expiry \<open>t + (N - 60) * 1000\<close>.  The token is
  valid exactly while the clock is below that instant: a check \<open>(N - 61)\<close> seconds
  after the fetch finds it valid and an authorized dispatch then fetches nothing, a check
  \<open>(N - 59)\<close> seconds after the fetch finds it expired and the dispatch fetches once.
\<close>

theorem token_expiry_math:
  assumes fetch: "getToken P c w = (Inr (), c', w')"
      and tr: "trace w' = trace w @ [GetTokenCall, HttpRequest req, HttpResponse (Inr resp),
                                    ClockRead t]"
      and life: "get_prop (response_data resp) ''expires_in'' = Inr (JNum (Num N))"
  shows "(\<exists>tok. token c' = Some \<lparr>access_token = tok, expires_at = Num (t + (N - 60) * 1000)\<rparr>) \<and>
         token_state_at c' now = (if t + (N - 60) * 1000 \<le> now then Expired else Valid) \<and>
         token_state_at c' (t + (N - 61) * 1000) = Valid \<and>
         token_state_at c' (t + (N - 59) * 1000) = Expired \<and>
         (dat \<noteq> JUndefined \<and> sendRequest P c' w2 path meth dat True = (r, c2, w3) \<longrightarrow>
            (Date_now P (env w2) = t + (N - 61) * 1000 \<longrightarrow>
               fetches (trace w3) = fetches (trace w2) \<and> c2 = c') \<and>
            (Date_now P (env w2) = t + (N - 59) * 1000 \<longrightarrow>
               fetches (trace w3) = Suc (fetches (trace w2))))"
proof -
  from fetch have tok: "\<exists>tok. token c' = Some \<lparr>access_token = tok, expires_at = Num (t + (N - 60) * 1000)\<rparr>"
  proof (cases rule: getToken_outcome)
    case (stored req' resp' tok ei)
    from stored(3) tr have "resp' = resp" "Date_now P (env w') = t" by simp_all
    with stored(5,6) life show ?thesis by auto
  qed simp_all
  then have state: "token_state_at c' n = (if t + (N - 60) * 1000 \<le> n then Expired else Valid)" for n
    by (auto simp: token_state_at_def)
  have later: "(Date_now P (env w2) = t + (N - 61) * 1000 \<longrightarrow>
               fetches (trace w3) = fetches (trace w2) \<and> c2 = c') \<and>
            (Date_now P (env w2) = t + (N - 59) * 1000 \<longrightarrow>
               fetches (trace w3) = Suc (fetches (trace w2)))"
    if "dat \<noteq> JUndefined" "sendRequest P c' w2 path meth dat True = (r, c2, w3)"
    using sendRequest_auth_fetches[OF that] by (simp add: state)
  from tok state later show ?thesis by simp
qed

theorem token_expiry_math_witness:
  "getToken (mock token_T1) abc (at_time 1000) =
     (Inr (), abc_holding (Num 3541005),
      \<lparr>env = 1005,
       trace = [GetTokenCall, HttpRequest abc_token_request, HttpResponse token_T1,
                ClockRead 1005]\<rparr>) \<and>
   get_prop (JObj [(''access_token'', JStr ''T1''), (''expires_in'', JNum (Num 3600))])
     ''expires_in'' = Inr (JNum (Num 3600)) \<and>
   token (abc_holding (Num 3541005)) =
     Some \<lparr>access_token = JStr ''T1'', expires_at = Num (1005 + (3600 - 60) * 1000)\<rparr> \<and>
   token_state_at (abc_holding (Num 3541005)) (1005 + (3600 - 61) * 1000) = Valid \<and>
   token_state_at (abc_holding (Num 3541005)) (1005 + (3600 - 59) * 1000) = Expired \<and>
   fetches (trace (snd (snd
     (listAddressBooks (mock token_T1) (abc_holding (Num 3541005))
        (at_time (1005 + (3600 - 61) * 1000)))))) = 0 \<and>
   fetches (trace (snd (snd
     (listAddressBooks (mock token_T1) (abc_holding (Num 3541005))
        (at_time (1005 + (3600 - 59) * 1000)))))) = 1"
proof -
  let ?resp = "\<lparr>response_data = JObj [(''access_token'', JStr ''T1''),
                                      (''expires_in'', JNum (Num 3600))],
                response_status = 200\<rparr>"
  let ?W = "\<lparr>env = 1005,
       trace = [GetTokenCall, HttpRequest abc_token_request, HttpResponse token_T1,
                ClockRead 1005]\<rparr>"
  let ?before = "listAddressBooks (mock token_T1) (abc_holding (Num 3541005))
        (at_time (1005 + (3600 - 61) * 1000))"
  let ?after = "listAddressBooks (mock token_T1) (abc_holding (Num 3541005))
        (at_time (1005 + (3600 - 59) * 1000))"
  have tr: "trace ?W = trace (at_time 1000) @
              [GetTokenCall, HttpRequest abc_token_request, HttpResponse (Inr ?resp),
               ClockRead 1005]"
    by (simp add: at_time_def token_T1_def)
  have life: "get_prop (response_data ?resp) ''expires_in'' = Inr (JNum (Num 3600))"
    by simp
  have before: "JObj [] \<noteq> JUndefined \<and>
      sendRequest (mock token_T1) (abc_holding (Num 3541005))
        (at_time (1005 + (3600 - 61) * 1000)) ''addressbooks'' (JStr ''GET'') (JObj []) True =
        (fst ?before, fst (snd ?before), snd (snd ?before))"
    by (simp add: listAddressBooks_def)
  have after: "JObj [] \<noteq> JUndefined \<and>
      sendRequest (mock token_T1) (abc_holding (Num 3541005))
        (at_time (1005 + (3600 - 59) * 1000)) ''addressbooks'' (JStr ''GET'') (JObj []) True =
        (fst ?after, fst (snd ?after), snd (snd ?after))"
    by (simp add: listAddressBooks_def)
  have clock: "Date_now (mock token_T1) (env (at_time n)) = n" for n
    by (simp add: mock_def at_time_def)
  from token_expiry_math[OF run_getToken_T1 tr life,
         where dat = "JObj []" and ?w2.0 = "at_time (1005 + (3600 - 61) * 1000)"
           and path = "''addressbooks''" and meth = "JStr ''GET''"
           and r = "fst ?before" and ?c2.0 = "fst (snd ?before)" and ?w3.0 = "snd (snd ?before)"]
       token_expiry_math[OF run_getToken_T1 tr life,
         where dat = "JObj []" and ?w2.0 = "at_time (1005 + (3600 - 59) * 1000)"
           and path = "''addressbooks''" and meth = "JStr ''GET''"
           and r = "fst ?after" and ?c2.0 = "fst (snd ?after)" and ?w3.0 = "snd (snd ?after)"]
       before after run_getToken_T1
  show ?thesis
    by (simp add: clock) (auto simp: at_time_def abc_holding_def)
qed

text \<open>
  C3.  A fresh client (no token) performs exactly one fetch during its first authorized
  call.  If that call left a token, then however many authorized calls follow one after
  the other, none of them fetches and the client stays as it is, as long as every clock
  reading made during those calls is below the stored expiry.  In general an authorized
  call fetches at most once, and not at all when its check finds the token valid.
\<close>

theorem one_fetch_per_expiry_window:
  assumes fresh: "token c = None" and dat: "dat \<noteq> JUndefined"
      and first: "sendRequest P c w path meth dat True = (r, c1, w1)"
  shows "fetches (trace w1) = Suc (fetches (trace w)) \<and>
         (token c1 = Some t \<and> run_authorized P c1 w1 calls = (rs, c2, w2) \<and>
          trace w2 = trace w1 @ evs \<and>
          (\<forall>n \<in> set (clock_reads evs). \<not> num_ge (Num n) (expires_at t)) \<longrightarrow>
            fetches (trace w2) = fetches (trace w1) \<and> c2 = c1) \<and>
         (sendRequest P c3 w3 path' meth' dat' True = (r', c4, w4) \<longrightarrow>
            fetches (trace w4) \<le> Suc (fetches (trace w3)) \<and>
            (token_state_at c3 (Date_now P (env w3)) = Valid \<longrightarrow>
               fetches (trace w4) = fetches (trace w3) \<and> c4 = c3))"
proof -
  from fresh have "token_state_at c (Date_now P (env w)) = Absent"
    by (simp add: token_state_at_def)
  with sendRequest_auth_fetches(1)[OF dat first]
  have one: "fetches (trace w1) = Suc (fetches (trace w))" by simp
  have later: "fetches (trace w2) = fetches (trace w1) \<and> c2 = c1"
    if "token c1 = Some t" "run_authorized P c1 w1 calls = (rs, c2, w2)"
       "trace w2 = trace w1 @ evs"
       "\<forall>n \<in> set (clock_reads evs). \<not> num_ge (Num n) (expires_at t)"
    using run_authorized_valid[OF that] that(3) by simp
  have each: "fetches (trace w4) \<le> Suc (fetches (trace w3)) \<and>
            (token_state_at c3 (Date_now P (env w3)) = Valid \<longrightarrow>
               fetches (trace w4) = fetches (trace w3) \<and> c4 = c3)"
    if "sendRequest P c3 w3 path' meth' dat' True = (r', c4, w4)"
    using that by (cases rule: sendRequest_auth_trace) simp_all
  from one later each show ?thesis by blast
qed

theorem one_fetch_per_expiry_window_witness:
  "token abc = None \<and> JObj [] \<noteq> JUndefined \<and>
   sendRequest (mock token_T1) abc (at_time 1000) ''addressbooks'' (JStr ''GET'') (JObj []) True =
     (Inr (JArr []), abc_holding (Num 3541005),
      \<lparr>env = 1010,
       trace = [GetTokenCall, HttpRequest abc_token_request, HttpResponse token_T1,
                ClockRead 1005,
                HttpRequest abc_addressbooks_request, HttpResponse empty_list_answer]\<rparr>) \<and>
   run_authorized (mock token_T1) (abc_holding (Num 3541005))
     \<lparr>env = 1010,
      trace = [GetTokenCall, HttpRequest abc_token_request, HttpResponse token_T1,
               ClockRead 1005,
               HttpRequest abc_addressbooks_request, HttpResponse empty_list_answer]\<rparr>
     [((\<lambda>t. t + 60000), ''addressbooks'', JStr ''GET'', JObj []),
      ((\<lambda>t. t + 3000000), ''addressbooks'', JStr ''GET'', JObj [])] =
     ([Inr (JArr []), Inr (JArr [])], abc_holding (Num 3541005),
      \<lparr>env = 3061020,
       trace = [GetTokenCall, HttpRequest abc_token_request, HttpResponse token_T1,
                ClockRead 1005,
                HttpRequest abc_addressbooks_request, HttpResponse empty_list_answer] @
               [ClockRead 61010,
                HttpRequest abc_addressbooks_request, HttpResponse empty_list_answer,
                ClockRead 3061015,
                HttpRequest abc_addressbooks_request, HttpResponse empty_list_answer]\<rparr>) \<and>
   clock_reads [ClockRead 61010,
                HttpRequest abc_addressbooks_request, HttpResponse empty_list_answer,
                ClockRead 3061015,
                HttpRequest abc_addressbooks_request, HttpResponse empty_list_answer] =
     [61010, 3061015] \<and>
   fetches [GetTokenCall, HttpRequest abc_token_request, HttpResponse token_T1,
            ClockRead 1005,
            HttpRequest abc_addressbooks_request, HttpResponse empty_list_answer] =
     Suc (fetches (trace (at_time 1000))) \<and>
   fetches ([GetTokenCall, HttpRequest abc_token_request, HttpResponse token_T1,
             ClockRead 1005,
             HttpRequest abc_addressbooks_request, HttpResponse empty_list_answer] @
            [ClockRead 61010,
             HttpRequest abc_addressbooks_request, HttpResponse empty_list_answer,
             ClockRead 3061015,
             HttpRequest abc_addressbooks_request, HttpResponse empty_list_answer]) = 1"
proof -
  let ?first = "[GetTokenCall, HttpRequest abc_token_request, HttpResponse token_T1,
                ClockRead 1005,
                HttpRequest abc_addressbooks_request, HttpResponse empty_list_answer]"
  let ?evs = "[ClockRead 61010,
                HttpRequest abc_addressbooks_request, HttpResponse empty_list_answer,
                ClockRead 3061015,
                HttpRequest abc_addressbooks_request, HttpResponse empty_list_answer]"
  let ?w1 = "\<lparr>env = 1010, trace = ?first\<rparr>"
  let ?w2 = "\<lparr>env = 3061020, trace = ?first @ ?evs\<rparr>"
  have fresh: "token abc = None"
    by (simp add: abc_def SendPulseClient_def)
  have first: "sendRequest (mock token_T1) abc (at_time 1000) ''addressbooks'' (JStr ''GET'')
                 (JObj []) True = (Inr (JArr []), abc_holding (Num 3541005), ?w1)"
    using run_listAddressBooks_fresh by (simp add: listAddressBooks_def)
  have held: "token (abc_holding (Num 3541005)) =
                Some \<lparr>access_token = JStr ''T1'', expires_at = Num 3541005\<rparr>"
    by (simp add: abc_holding_def)
  have rest: "run_authorized (mock token_T1) (abc_holding (Num 3541005)) ?w1
     [((\<lambda>t. t + 60000), ''addressbooks'', JStr ''GET'', JObj []),
      ((\<lambda>t. t + 3000000), ''addressbooks'', JStr ''GET'', JObj [])] =
     ([Inr (JArr []), Inr (JArr [])], abc_holding (Num 3541005), ?w2)"
    by (simp add: run_dispatch_holding)
  have evs: "trace ?w2 = trace ?w1 @ ?evs"
    by simp
  have window: "\<forall>n \<in> set (clock_reads ?evs).
      \<not> num_ge (Num n) (expires_at \<lparr>access_token = JStr ''T1'', expires_at = Num 3541005\<rparr>)"
    by simp
  from one_fetch_per_expiry_window[OF fresh _ first,
         where t = "\<lparr>access_token = JStr ''T1'', expires_at = Num 3541005\<rparr>"
           and calls = "[((\<lambda>t. t + 60000), ''addressbooks'', JStr ''GET'', JObj []),
                         ((\<lambda>t. t + 3000000), ''addressbooks'', JStr ''GET'', JObj [])]"
           and rs = "[Inr (JArr []), Inr (JArr [])]" and ?c2.0 = "abc_holding (Num 3541005)"
           and ?w2.0 = ?w2 and evs = ?evs]
       held rest evs window fresh first
  show ?thesis by simp
qed

text \<open>
  C4.  A failed fetch leaves the client, and so the held token and its expiry, exactly as
  it was, whatever the state of the token, and it is one fetch, not more.  When the token
  request of an authorized call throws, the call returns that very error, the client is
  unchanged, and nothing follows the failure in the trace of the call: no retry and no
  request of the call's own; before it there is at most the clock reading of the check.
  The legacy \<open>getToken\<close> likewise leaves the module's variables unchanged when it
  fails.
\<close>

theorem failed_fetch_keeps_token:
  "(getToken P c w = (Inl e, c', w') \<longrightarrow>
      c' = c \<and> fetches (trace w') = Suc (fetches (trace w))) \<and>
   (sendRequest P c w path meth dat True = (r, c', w') \<and>
    trace w' = trace w @ pre @ [GetTokenCall, HttpRequest req, HttpResponse (Inl e)] @ post \<longrightarrow>
      r = Inl e \<and> c' = c \<and> post = [] \<and> fetches pre = 0 \<and> requests pre = []) \<and>
   (legacy_getToken P s w = (Inl e, s', w'') \<longrightarrow> s' = s)"
proof (intro conjI impI)
  assume "getToken P c w = (Inl e, c', w')"
  then show "c' = c" by (rule getToken_failure_keeps_client)
next
  assume "getToken P c w = (Inl e, c', w')"
  then show "fetches (trace w') = Suc (fetches (trace w))" by (rule getToken_fetches)
next
  assume "legacy_getToken P s w = (Inl e, s', w'')"
  then show "s' = s" by (rule legacy_getToken_failure)
next
  assume asm: "sendRequest P c w path meth dat True = (r, c', w') \<and>
    trace w' = trace w @ pre @ [GetTokenCall, HttpRequest req, HttpResponse (Inl e)] @ post"
  then have run: "sendRequest P c w path meth dat True = (r, c', w')"
    and tr: "trace w' = trace w @ pre @ GetTokenCall # [HttpRequest req, HttpResponse (Inl e)] @ post"
    by simp_all
  have main: "r = Inl e \<and> c' = c \<and> post = [] \<and> fetches pre = 0 \<and> requests pre = []"
    using run
  proof (cases rule: sendRequest_auth_trace)
    case (quiet evs)
    with tr have "evs = pre @ GetTokenCall # [HttpRequest req, HttpResponse (Inl e)] @ post"
      by simp
    with quiet(2) show ?thesis by simp
  next
    case (fetch_bad_url e')
    with tr have eq: "check_events P c w @ GetTokenCall # [] =
       pre @ GetTokenCall # [HttpRequest req, HttpResponse (Inl e)] @ post" by simp
    then have "fetches (check_events P c w @ GetTokenCall # []) =
       fetches (pre @ GetTokenCall # [HttpRequest req, HttpResponse (Inl e)] @ post)" by simp
    then have "fetches pre = 0" by simp
    from first_fetch_unique[OF _ this eq] show ?thesis by simp
  next
    case (fetch_refused req' e')
    with tr have eq: "check_events P c w @ GetTokenCall # [HttpRequest req', HttpResponse (Inl e')] =
       pre @ GetTokenCall # [HttpRequest req, HttpResponse (Inl e)] @ post" by simp
    then have "fetches (check_events P c w @ GetTokenCall # [HttpRequest req', HttpResponse (Inl e')]) =
       fetches (pre @ GetTokenCall # [HttpRequest req, HttpResponse (Inl e)] @ post)" by simp
    then have "fetches pre = 0" by simp
    from first_fetch_unique[OF _ this eq] fetch_refused(4,5) show ?thesis by auto
  next
    case (fetch_bad_body req' resp e')
    with tr have eq: "check_events P c w @ GetTokenCall # [HttpRequest req', HttpResponse (Inr resp)] =
       pre @ GetTokenCall # [HttpRequest req, HttpResponse (Inl e)] @ post" by simp
    then have "fetches (check_events P c w @ GetTokenCall # [HttpRequest req', HttpResponse (Inr resp)]) =
       fetches (pre @ GetTokenCall # [HttpRequest req, HttpResponse (Inl e)] @ post)" by simp
    then have "fetches pre = 0" by simp
    from first_fetch_unique[OF _ this eq] show ?thesis by simp
  next
    case (fetched_bad_url req' resp tok ei now e')
    with tr have eq: "check_events P c w @ GetTokenCall #
         [HttpRequest req', HttpResponse (Inr resp), ClockRead now] =
       pre @ GetTokenCall # [HttpRequest req, HttpResponse (Inl e)] @ post" by simp
    then have "fetches (check_events P c w @ GetTokenCall #
         [HttpRequest req', HttpResponse (Inr resp), ClockRead now]) =
       fetches (pre @ GetTokenCall # [HttpRequest req, HttpResponse (Inl e)] @ post)" by simp
    then have "fetches pre = 0" by simp
    from first_fetch_unique[OF _ this eq] show ?thesis by simp
  next
    case (fetched_sent req' resp tok ei now href ans)
    with tr have eq: "check_events P c w @ GetTokenCall #
         [HttpRequest req', HttpResponse (Inr resp), ClockRead now,
          HttpRequest (expected_request meth href dat (Some tok)), HttpResponse ans] =
       pre @ GetTokenCall # [HttpRequest req, HttpResponse (Inl e)] @ post" by simp
    then have "fetches (check_events P c w @ GetTokenCall #
         [HttpRequest req', HttpResponse (Inr resp), ClockRead now,
          HttpRequest (expected_request meth href dat (Some tok)), HttpResponse ans]) =
       fetches (pre @ GetTokenCall # [HttpRequest req, HttpResponse (Inl e)] @ post)" by simp
    then have "fetches pre = 0" by simp
    from first_fetch_unique[OF _ this eq] show ?thesis by simp
  qed
  from main show "r = Inl e" "c' = c" "post = []" "fetches pre = 0" "requests pre = []"
    by simp_all
qed

theorem failed_fetch_keeps_token_witness:
  "getToken (mock token_refused) abc (at_time 1000) =
     (Inl refusal, abc,
      \<lparr>env = 1005,
       trace = [GetTokenCall, HttpRequest abc_token_request, HttpResponse (Inl refusal)]\<rparr>) \<and>
   sendRequest (mock token_refused) abc (at_time 1000) ''addressbooks'' (JStr ''GET'') (JObj []) True =
     (Inl refusal, abc,
      \<lparr>env = 1005,
       trace = [GetTokenCall, HttpRequest abc_token_request, HttpResponse (Inl refusal)]\<rparr>) \<and>
   fetches [GetTokenCall, HttpRequest abc_token_request, HttpResponse (Inl refusal)] =
     Suc (fetches (trace (at_time 1000))) \<and>
   fst (legacy_getToken (mock token_refused) legacy_module (at_time 1000)) = Inl refusal \<and>
   fst (snd (legacy_getToken (mock token_refused) legacy_module (at_time 1000))) = legacy_module"
proof -
  let ?W = "\<lparr>env = 1005,
       trace = [GetTokenCall, HttpRequest abc_token_request, HttpResponse (Inl refusal)]\<rparr>"
  let ?L = "legacy_getToken (mock token_refused) legacy_module (at_time 1000)"
  have legacy: "?L = (Inl refusal, fst (snd ?L), snd (snd ?L))"
    using run_legacy_getToken_refused by (metis prod.collapse)
  have tr: "trace ?W = trace (at_time 1000) @ [] @
              [GetTokenCall, HttpRequest abc_token_request, HttpResponse (Inl refusal)] @ []"
    by (simp add: at_time_def)
  from failed_fetch_keeps_token[where P = "mock token_refused" and c = abc and w = "at_time 1000"
         and e = refusal and c' = abc and w' = ?W and path = "''addressbooks''"
         and meth = "JStr ''GET''" and dat = "JObj []" and r = "Inl refusal" and pre = "[]"
         and req = abc_token_request and post = "[]" and s = legacy_module
         and s' = "fst (snd ?L)" and w'' = "snd (snd ?L)"]
       run_getToken_refused run_dispatch_refused legacy tr run_legacy_getToken_refused
  show ?thesis by simp
qed

text \<open>
  C6.  A dispatch with \<open>useToken = false\<close> never fetches a token, whatever the state
  of the token (absent, valid or expired): the client, and with it the token and its
  expiry, is returned unchanged, \<open>getToken\<close> is not called and the clock is not read.
\<close>

theorem sendRequest_without_auth_never_fetches:
  assumes run: "sendRequest P c w path meth dat False = (r, c', w')"
  shows "c' = c \<and> fetches (trace w') = fetches (trace w) \<and>
         clock_reads (trace w') = clock_reads (trace w)"
proof (cases "dat = JUndefined")
  case True
  with run sendRequest_undefined[of P c w path meth False] show ?thesis by auto
next
  case False
  show ?thesis
  proof (cases "URL_href P path (apiUrl c)")
    case (Inl e)
    with run sendRequest_noauth_bad_url[OF False Inl, of w meth] show ?thesis by simp
  next
    case (Inr href)
    obtain ans env' where
      "axios_request P (expected_request meth href dat None) (env w) = (ans, env')"
      by (cases "axios_request P (expected_request meth href dat None) (env w)") blast
    from sendRequest_noauth_sent[OF False Inr this] run show ?thesis by auto
  qed
qed

theorem sendRequest_without_auth_never_fetches_witness:
  "\<exists>r w'. sendRequest (mock token_T1) abc (at_time 1000) ''addressbooks'' (JStr ''GET'')
             (JObj []) False = (r, abc, w') \<and>
          fetches (trace w') = 0 \<and> clock_reads (trace w') = []"
proof -
  obtain r c' w' where run:
    "sendRequest (mock token_T1) abc (at_time 1000) ''addressbooks'' (JStr ''GET'')
       (JObj []) False = (r, c', w')"
    by (cases "sendRequest (mock token_T1) abc (at_time 1000) ''addressbooks'' (JStr ''GET'')
                 (JObj []) False") blast
  from sendRequest_without_auth_never_fetches[OF run] run show ?thesis
    by (simp add: at_time_def)
qed

text \<open>
  C9 says that a token answer without \<open>expires_in\<close> makes the fetch fail and that
  no token with an ill-defined expiry is held or presented.  The code has no such check:
  on the simulated service whose token answer is \<open>{access_token: 'T1'}\<close> the fetch
  succeeds, the client holds \<open>T1\<close> with expiry \<open>NaN\<close>, and in the year 2100 it still
  presents \<open>Bearer T1\<close> without fetching again.
\<close>

theorem missing_expires_in_is_accepted:
  "getToken (mock token_without_expiry) abc (at_time 1000) =
     (Inr (), abc_holding NaN,
      \<lparr>env = 1005,
       trace = [GetTokenCall, HttpRequest abc_token_request, HttpResponse token_without_expiry,
                ClockRead 1005]\<rparr>) \<and>
   token (abc_holding NaN) = Some \<lparr>access_token = JStr ''T1'', expires_at = NaN\<rparr> \<and>
   listAddressBooks (mock token_without_expiry) (abc_holding NaN) (at_time 4102444800000) =
     (Inr (JArr []), abc_holding NaN,
      \<lparr>env = 4102444800005,
       trace = [ClockRead 4102444800000,
                HttpRequest abc_addressbooks_request, HttpResponse empty_list_answer]\<rparr>) \<and>
   map_of (headers abc_addressbooks_request) ''Authorization'' = Some (JStr ''Bearer T1'')"
  using run_getToken_without_expiry
    run_listAddressBooks_holding[of 4102444800000 NaN token_without_expiry "[]"]
  by (simp add: abc_holding_def abc_addressbooks_request_def at_time_def)

text \<open>
  C9, as the code has it.  When the answer to the token request has no
  \<open>expires_in\<close>, the fetch succeeds and stores the returned token with the expiry
  \<open>NaN\<close> (\<open>Date.now() + (undefined - 60) * 1000\<close>).  Since
  \<open>Date.now() >= NaN\<close> is false, that token is valid at every time: every later
  authorized dispatch keeps the client as it is, fetches nothing and sends its request
  with that token as bearer.
\<close>

theorem missing_expires_in_never_expires:
  assumes fetch: "getToken P c w = (r, c', w')"
      and tr: "trace w' = trace w @ [GetTokenCall, HttpRequest req, HttpResponse (Inr resp)] @ rest"
      and omitted: "get_prop (response_data resp) ''expires_in'' = Inr JUndefined"
  shows "\<exists>tok. r = Inr () \<and>
           get_prop (response_data resp) ''access_token'' = Inr tok \<and>
           token c' = Some \<lparr>access_token = tok, expires_at = NaN\<rparr> \<and>
           (\<forall>now. token_state_at c' now = Valid) \<and>
           (\<forall>w2 path meth dat r2 c2 w3.
              dat \<noteq> JUndefined \<and> sendRequest P c' w2 path meth dat True = (r2, c2, w3) \<longrightarrow>
                c2 = c' \<and> fetches (trace w3) = fetches (trace w2) \<and>
                (\<exists>rs. requests (trace w3) = requests (trace w2) @ rs \<and>
                   (\<forall>rq \<in> set rs. map_of (headers rq) ''Authorization'' =
                                     Some (JStr (''Bearer '' @ ToString tok)))))"
proof -
  from fetch obtain tok where r: "r = Inr ()"
    and tok: "get_prop (response_data resp) ''access_token'' = Inr tok"
    and held: "token c' = Some \<lparr>access_token = tok, expires_at = NaN\<rparr>"
  proof (cases rule: getToken_outcome)
    case (bad_url e)
    with tr show ?thesis by simp
  next
    case (refused req' e)
    with tr show ?thesis by simp
  next
    case (bad_body req' resp' e)
    with tr have "resp' = resp" by simp
    with bad_body(5) get_prop_total[OF omitted, of "''access_token''"] show ?thesis by simp
  next
    case (stored req' resp' tok ei)
    with tr have "resp' = resp" by simp
    with stored omitted that show ?thesis by simp
  qed
  from held have state: "token_state_at c' n = Valid" for n
    by (simp add: token_state_at_def)
  have later: "c2 = c' \<and> fetches (trace w3) = fetches (trace w2) \<and>
                (\<exists>rs. requests (trace w3) = requests (trace w2) @ rs \<and>
                   (\<forall>rq \<in> set rs. map_of (headers rq) ''Authorization'' =
                                     Some (JStr (''Bearer '' @ ToString tok))))"
    if "dat \<noteq> JUndefined" "sendRequest P c' w2 path meth dat True = (r2, c2, w3)"
    for w2 path meth dat r2 c2 w3
    using sendRequest_auth_fetches[OF that] sendRequest_valid_requests[OF that(1) state held that(2)]
    by (simp add: state)
  from r tok held state later show ?thesis by blast
qed

theorem missing_expires_in_never_expires_witness:
  "getToken (mock token_without_expiry) abc (at_time 1000) =
     (Inr (), abc_holding NaN,
      \<lparr>env = 1005,
       trace = [GetTokenCall, HttpRequest abc_token_request, HttpResponse token_without_expiry,
                ClockRead 1005]\<rparr>) \<and>
   get_prop (JObj [(''access_token'', JStr ''T1'')]) ''expires_in'' = Inr JUndefined \<and>
   token_state_at (abc_holding NaN) 4102444800000 = Valid \<and>
   fetches (trace (snd (snd
     (listAddressBooks (mock token_without_expiry) (abc_holding NaN) (at_time 4102444800000))))) = 0"
proof -
  let ?resp = "\<lparr>response_data = JObj [(''access_token'', JStr ''T1'')], response_status = 200\<rparr>"
  let ?W = "\<lparr>env = 1005,
       trace = [GetTokenCall, HttpRequest abc_token_request, HttpResponse token_without_expiry,
                ClockRead 1005]\<rparr>"
  let ?L = "listAddressBooks (mock token_without_expiry) (abc_holding NaN) (at_time 4102444800000)"
  have tr: "trace ?W = trace (at_time 1000) @
              [GetTokenCall, HttpRequest abc_token_request, HttpResponse (Inr ?resp)] @
              [ClockRead 1005]"
    by (simp add: at_time_def token_without_expiry_def)
  have omitted: "get_prop (response_data ?resp) ''expires_in'' = Inr JUndefined"
    by simp
  have later: "sendRequest (mock token_without_expiry) (abc_holding NaN) (at_time 4102444800000)
      ''addressbooks'' (JStr ''GET'') (JObj []) True = (fst ?L, fst (snd ?L), snd (snd ?L))"
    by (simp add: listAddressBooks_def)
  from missing_expires_in_never_expires[OF run_getToken_without_expiry tr omitted]
  obtain tok where
    state: "\<forall>now. token_state_at (abc_holding NaN) now = Valid"
    and calls: "\<forall>w2 path meth dat r2 c2 w3.
              dat \<noteq> JUndefined \<and>
              sendRequest (mock token_without_expiry) (abc_holding NaN) w2 path meth dat True =
                (r2, c2, w3) \<longrightarrow>
                c2 = abc_holding NaN \<and> fetches (trace w3) = fetches (trace w2) \<and>
                (\<exists>rs. requests (trace w3) = requests (trace w2) @ rs \<and>
                   (\<forall>rq \<in> set rs. map_of (headers rq) ''Authorization'' =
                                     Some (JStr (''Bearer '' @ ToString tok))))"
    by blast
  from calls later have "fetches (trace (snd (snd ?L))) = fetches (trace (at_time 4102444800000))"
    by blast
  with state run_getToken_without_expiry show ?thesis
    by (simp add: at_time_def)
qed

section \<open>Properties of the wrappers\<close>

lemma map_of_set_prop [simp]:
  "map_of (set_prop dat k v) k' = (if k' = k then Some v else map_of dat k')"
  by (induction dat k v rule: set_prop.induct) auto

lemma has_length_array [simp]: "has_length (JArr xs) = Inr (xs \<noteq> [])"
  by (simp add: has_length_def)

lemma stringify_array [simp]: "JSON_stringify (JArr xs) = JStr (json_text (JArr xs))"
  by (simp add: JSON_stringify_def)

lemma set_list_or_string_array [simp]:
  "xs \<noteq> [] \<Longrightarrow>
     set_list_or_string dat key (JArr xs) = Inr (set_prop dat key (JStr (json_text (JArr xs))))"
  by (simp add: set_list_or_string_def)

lemma undefined_or_empty_array [simp]: "undefined_or_empty (JArr xs) = Inr (xs = [])"
  by (simp add: undefined_or_empty_def)

lemma undefined_or_no_keys_array [simp]: "undefined_or_no_keys (JArr xs) = Inr (xs = [])"
  by (simp add: undefined_or_no_keys_def)

lemma dispatched_field_sent:
  "map_of dat key = Some v \<Longrightarrow>
     dispatched_field P c w key v (sendRequest P c w path verb (JObj dat) True)"
  unfolding dispatched_field_def by blast

lemma legacy_dispatched_field_sent:
  "map_of dat key = Some v \<Longrightarrow>
     legacy_dispatched_field P s w key v (legacy_sendRequest P s w path verb (JObj dat) True)"
  unfolding legacy_dispatched_field_def by blast

lemma addAddressBookEmails_encodes:
  assumes "xs \<noteq> []" and "a \<noteq> JUndefined"
  shows "dispatched_field P c w ''emails'' (JStr (json_text (JArr xs)))
          (addAddressBookEmails P c w a (JArr xs))"
  using assms by (simp add: addAddressBookEmails_def dispatched_field_sent Let_def)

lemma removeAddressBookEmails_encodes:
  assumes "xs \<noteq> []" and "a \<noteq> JUndefined"
  shows "dispatched_field P c w ''emails'' (JStr (json_text (JArr xs)))
          (removeAddressBookEmails P c w a (JArr xs))"
  using assms by (simp add: removeAddressBookEmails_def dispatched_field_sent Let_def)

lemma campaignCost_encodes:
  assumes "xs \<noteq> []" and "a \<noteq> JUndefined" and "b \<noteq> JUndefined" and "d \<noteq> JUndefined" and "e \<noteq> JUndefined"
  shows "dispatched_field P c w ''emails'' (JStr (json_text (JArr xs)))
          (campaignCost P c w a b d e body book_id (JArr xs))"
  using assms by (simp add: campaignCost_def dispatched_field_sent Let_def)

lemma createCampaign_encodes:
  assumes "xs \<noteq> []" and "a \<noteq> JUndefined" and "b \<noteq> JUndefined" and "d \<noteq> JUndefined" and "e \<noteq> JUndefined"
  shows "dispatched_field P c w ''emails'' (JStr (json_text (JArr xs)))
          (createCampaign P c w a b d e body book_id (JArr xs))"
  using assms by (simp add: createCampaign_def dispatched_field_sent Let_def)

lemma addToBlackList_encodes:
  assumes "xs \<noteq> []"
  shows "dispatched_field P c w ''emails'' (JStr (json_text (JArr xs)))
          (addToBlackList P c w (JArr xs) comment)"
  using assms by (simp add: addToBlackList_def dispatched_field_sent Let_def)

lemma removeFromBlackList_encodes:
  assumes "xs \<noteq> []"
  shows "dispatched_field P c w ''emails'' (JStr (json_text (JArr xs)))
          (removeFromBlackList P c w (JArr xs))"
  using assms by (simp add: removeFromBlackList_def dispatched_field_sent Let_def)

lemma smtpUnsubscribeEmails_encodes:
  assumes "xs \<noteq> []"
  shows "dispatched_field P c w ''emails'' (JStr (json_text (JArr xs)))
          (smtpUnsubscribeEmails P c w (JArr xs))"
  using assms by (simp add: smtpUnsubscribeEmails_def dispatched_field_sent Let_def)

lemma smtpRemoveFromUnsubscribe_encodes:
  assumes "xs \<noteq> []"
  shows "dispatched_field P c w ''emails'' (JStr (json_text (JArr xs)))
          (smtpRemoveFromUnsubscribe P c w (JArr xs))"
  using assms by (simp add: smtpRemoveFromUnsubscribe_def dispatched_field_sent Let_def)

lemma smsAddPhones_encodes:
  assumes "xs \<noteq> []"
  shows "dispatched_field P c w ''phones'' (JStr (json_text (JArr xs)))
          (smsAddPhones P c w (JArr xs) comment)"
  using assms by (simp add: smsAddPhones_def dispatched_field_sent Let_def)

lemma smsAddPhonesWithVariables_encodes:
  assumes "xs \<noteq> []"
  shows "dispatched_field P c w ''phones'' (JStr (json_text (JArr xs)))
          (smsAddPhonesWithVariables P c w (JArr xs))"
  using assms by (simp add: smsAddPhonesWithVariables_def dispatched_field_sent Let_def)

lemma smsRemovePhones_encodes:
  assumes "xs \<noteq> []"
  shows "dispatched_field P c w ''phones'' (JStr (json_text (JArr xs)))
          (smsRemovePhones P c w (JArr xs))"
  using assms by (simp add: smsRemovePhones_def dispatched_field_sent Let_def)

lemma smsUpdatePhonesVariables_encodes:
  assumes "xs \<noteq> []"
  shows "dispatched_field P c w ''phones'' (JStr (json_text (JArr xs)))
          (smsUpdatePhonesVariables P c w (JArr xs))"
  using assms by (simp add: smsUpdatePhonesVariables_def dispatched_field_sent Let_def)

lemma smsGetPhonesInfoFromBlacklist_encodes:
  assumes "xs \<noteq> []"
  shows "dispatched_field P c w ''phones'' (JStr (json_text (JArr xs)))
          (smsGetPhonesInfoFromBlacklist P c w (JArr xs))"
  using assms by (simp add: smsGetPhonesInfoFromBlacklist_def dispatched_field_sent Let_def)

lemma smsAddPhonesToBlacklist_encodes:
  assumes "xs \<noteq> []"
  shows "dispatched_field P c w ''phones'' (JStr (json_text (JArr xs)))
          (smsAddPhonesToBlacklist P c w (JArr xs))"
  using assms by (simp add: smsAddPhonesToBlacklist_def dispatched_field_sent Let_def)

lemma smsDeletePhonesFromBlacklist_encodes:
  assumes "xs \<noteq> []"
  shows "dispatched_field P c w ''phones'' (JStr (json_text (JArr xs)))
          (smsDeletePhonesFromBlacklist P c w (JArr xs))"
  using assms by (simp add: smsDeletePhonesFromBlacklist_def dispatched_field_sent Let_def)

lemma smsAddCampaign_encodes:
  assumes "xs \<noteq> []" and "a \<noteq> JUndefined" and "b \<noteq> JUndefined" and "d \<noteq> JUndefined"
  shows "dispatched_field P c w ''phones'' (JStr (json_text (JArr xs)))
          (smsAddCampaign P c w a b d (JArr xs))"
  using assms by (simp add: smsAddCampaign_def dispatched_field_sent Let_def)

lemma smsSend_encodes:
  assumes "xs \<noteq> []" and "a \<noteq> JUndefined" and "b \<noteq> JUndefined"
  shows "dispatched_field P c w ''phones'' (JStr (json_text (JArr xs)))
          (smsSend P c w a b book_id (JArr xs))"
  using assms by (simp add: smsSend_def dispatched_field_sent Let_def)

lemma smsGetCampaignCost_encodes:
  assumes "xs \<noteq> []" and "a \<noteq> JUndefined" and "b \<noteq> JUndefined" and "d \<noteq> JUndefined"
  shows "dispatched_field P c w ''phones'' (JStr (json_text (JArr xs)))
          (smsGetCampaignCost P c w a b d (JArr xs))"
  using assms by (simp add: smsGetCampaignCost_def dispatched_field_sent Let_def)

lemma legacy_smsAddPhones_encodes:
  assumes "xs \<noteq> []" and "a \<noteq> JUndefined"
  shows "legacy_dispatched_field P s w ''phones'' (JStr (json_text (JArr xs)))
          (legacy_smsAddPhones P s w a (JArr xs))"
  using assms by (simp add: legacy_smsAddPhones_def legacy_dispatched_field_sent Let_def)

lemma legacy_smsAddPhonesWithVariables_encodes:
  assumes "xs \<noteq> []" and "a \<noteq> JUndefined"
  shows "legacy_dispatched_field P s w ''phones'' (JStr (json_text (JArr xs)))
          (legacy_smsAddPhonesWithVariables P s w a (JArr xs))"
  using assms by (simp add: legacy_smsAddPhonesWithVariables_def legacy_dispatched_field_sent Let_def)

lemma legacy_smsRemovePhones_encodes:
  assumes "xs \<noteq> []" and "a \<noteq> JUndefined"
  shows "legacy_dispatched_field P s w ''phones'' (JStr (json_text (JArr xs)))
          (legacy_smsRemovePhones P s w a (JArr xs))"
  using assms by (simp add: legacy_smsRemovePhones_def legacy_dispatched_field_sent Let_def)

lemma legacy_smsUpdatePhonesVariables_encodes:
  assumes "xs \<noteq> []" and "a \<noteq> JUndefined" and "undefined_or_no_keys vars = Inr False"
  shows "legacy_dispatched_field P s w ''phones'' (JStr (json_text (JArr xs)))
          (legacy_smsUpdatePhonesVariables P s w a (JArr xs) vars)"
  using assms by (simp add: legacy_smsUpdatePhonesVariables_def legacy_dispatched_field_sent Let_def)

lemma legacy_smsGetPhonesInfoFromBlacklist_encodes:
  assumes "xs \<noteq> []"
  shows "legacy_dispatched_field P s w ''phones'' (JStr (json_text (JArr xs)))
          (legacy_smsGetPhonesInfoFromBlacklist P s w (JArr xs))"
  using assms by (simp add: legacy_smsGetPhonesInfoFromBlacklist_def legacy_dispatched_field_sent Let_def)

lemma legacy_smsAddPhonesToBlacklist_encodes:
  assumes "xs \<noteq> []"
  shows "legacy_dispatched_field P s w ''phones'' (JStr (json_text (JArr xs)))
          (legacy_smsAddPhonesToBlacklist P s w (JArr xs) comment)"
  using assms by (simp add: legacy_smsAddPhonesToBlacklist_def legacy_dispatched_field_sent Let_def)

lemma legacy_smsDeletePhonesFromBlacklist_encodes:
  assumes "xs \<noteq> []"
  shows "legacy_dispatched_field P s w ''phones'' (JStr (json_text (JArr xs)))
          (legacy_smsDeletePhonesFromBlacklist P s w (JArr xs))"
  using assms by (simp add: legacy_smsDeletePhonesFromBlacklist_def legacy_dispatched_field_sent Let_def)

lemma legacy_smsSend_encodes:
  assumes "xs \<noteq> []" and "a \<noteq> JUndefined" and "b \<noteq> JUndefined"
  shows "legacy_dispatched_field P s w ''phones'' (JStr (json_text (JArr xs)))
          (legacy_smsSend P s w a (JArr xs) b date transliterate route)"
  using assms by (simp add: legacy_smsSend_def legacy_dispatched_field_sent Let_def)

lemma legacy_smsGetCampaignCost_encodes:
  assumes "xs \<noteq> []" and "a \<noteq> JUndefined" and "b \<noteq> JUndefined" and "d \<noteq> JUndefined"
  shows "legacy_dispatched_field P s w ''phones'' (JStr (json_text (JArr xs)))
          (legacy_smsGetCampaignCost P s w a b d (JArr xs))"
  using assms by (simp add: legacy_smsGetCampaignCost_def legacy_dispatched_field_sent Let_def)

text \<open>
  C8.  The raw-dispatch escape hatch (\<open>sendRequestRaw\<close>, and \<open>sendRawRequest\<close> of
  the legacy module) rejects the verb \<open>HEAD\<close> with the error
  \<open>Unknown method: HEAD\<close> before any network call (client and world are unchanged)
  and forwards \<open>PATCH\<close> to the dispatch.  It forwards exactly the verbs \<open>POST\<close>,
  \<open>GET\<close>, \<open>DELETE\<close>, \<open>PUT\<close> and \<open>PATCH\<close>, and rejects everything else.
\<close>

theorem raw_dispatch_verbs:
  "sendRequestRaw P c w path (JStr ''HEAD'') dat = (Inl (Error ''Unknown method: HEAD''), c, w) \<and>
   sendRequestRaw P c w path (JStr ''PATCH'') dat =
     sendRequest P c w path (JStr ''PATCH'') (if dat = JUndefined then JObj [] else dat) True \<and>
   (meth \<in> {JStr ''POST'', JStr ''GET'', JStr ''DELETE'', JStr ''PUT'', JStr ''PATCH''} \<longrightarrow>
      sendRequestRaw P c w path meth dat =
        sendRequest P c w path meth (if dat = JUndefined then JObj [] else dat) True) \<and>
   (meth \<notin> {JStr ''POST'', JStr ''GET'', JStr ''DELETE'', JStr ''PUT'', JStr ''PATCH''} \<longrightarrow>
      sendRequestRaw P c w path meth dat =
        (Inl (Error (''Unknown method: '' @ ToString meth)), c, w)) \<and>
   legacy_sendRawRequest P s w path (JStr ''HEAD'') dat =
     (Inl (Error ''Unknown method: HEAD''), s, w) \<and>
   legacy_sendRawRequest P s w path (JStr ''PATCH'') dat =
     legacy_sendRequest P s w path (JStr ''PATCH'') (if dat = JUndefined then JObj [] else dat) True \<and>
   (meth \<in> {JStr ''POST'', JStr ''GET'', JStr ''DELETE'', JStr ''PUT'', JStr ''PATCH''} \<longrightarrow>
      legacy_sendRawRequest P s w path meth dat =
        legacy_sendRequest P s w path meth (if dat = JUndefined then JObj [] else dat) True) \<and>
   (meth \<notin> {JStr ''POST'', JStr ''GET'', JStr ''DELETE'', JStr ''PUT'', JStr ''PATCH''} \<longrightarrow>
      legacy_sendRawRequest P s w path meth dat =
        (Inl (Error (''Unknown method: '' @ ToString meth)), s, w))"
  by (simp add: sendRequestRaw_def legacy_sendRawRequest_def Let_def)

theorem raw_dispatch_verbs_witness:
  "JStr ''PUT'' \<in> {JStr ''POST'', JStr ''GET'', JStr ''DELETE'', JStr ''PUT'', JStr ''PATCH''} \<and>
   sendRequestRaw (mock token_T1) abc (at_time 1000) ''balance'' (JStr ''PUT'') JUndefined =
     sendRequest (mock token_T1) abc (at_time 1000) ''balance'' (JStr ''PUT'') (JObj []) True \<and>
   JStr ''get'' \<notin> {JStr ''POST'', JStr ''GET'', JStr ''DELETE'', JStr ''PUT'', JStr ''PATCH''} \<and>
   sendRequestRaw (mock token_T1) abc (at_time 1000) ''balance'' (JStr ''get'') JUndefined =
     (Inl (Error ''Unknown method: get''), abc, at_time 1000) \<and>
   legacy_sendRawRequest (mock token_T1) legacy_module (at_time 1000) ''balance'' (JStr ''PUT'')
       JUndefined =
     legacy_sendRequest (mock token_T1) legacy_module (at_time 1000) ''balance'' (JStr ''PUT'')
       (JObj []) True \<and>
   legacy_sendRawRequest (mock token_T1) legacy_module (at_time 1000) ''balance'' (JStr ''get'')
       JUndefined =
     (Inl (Error ''Unknown method: get''), legacy_module, at_time 1000)"
  using raw_dispatch_verbs[of "mock token_T1" abc "at_time 1000" "''balance''" JUndefined
          "JStr ''PUT''" legacy_module]
        raw_dispatch_verbs[of "mock token_T1" abc "at_time 1000" "''balance''" JUndefined
          "JStr ''get''" legacy_module]
  by simp

text \<open>
  C10.  In the legacy module, \<open>getBalance()\<close> with no currency throws a
  \<open>TypeError\<close> (\<open>toUpperCase\<close> is read from \<open>undefined\<close>) before any network
  call, and \<open>getBalance(currency)\<close> with a non-empty currency string is the dispatch
  of \<open>GET balance\<close>: the only request it can issue goes to the plain
  \<open>balance\<close> path, whatever the currency.
\<close>

theorem legacy_getBalance_ignores_currency:
  "(\<exists>msg. legacy_getBalance P s w JUndefined = (Inl (TypeError msg), s, w)) \<and>
   (cur \<noteq> [] \<longrightarrow>
      legacy_getBalance P s w (JStr cur) =
        legacy_sendRequest P s w ''balance'' (JStr ''GET'') (JObj []) True \<and>
      (\<exists>rs. requests (trace (snd (snd (legacy_getBalance P s w (JStr cur))))) =
               requests (trace w) @ rs \<and>
            (\<forall>req \<in> set rs. url req = ''https://api.sendpulse.com/balance'')))"
proof -
  have undef: "\<exists>msg. legacy_getBalance P s w JUndefined = (Inl (TypeError msg), s, w)"
    by (simp add: legacy_getBalance_def)
  have truthy: "legacy_getBalance P s w (JStr cur) =
        legacy_sendRequest P s w ''balance'' (JStr ''GET'') (JObj []) True" if "cur \<noteq> []"
    using that by (simp add: legacy_getBalance_def)
  obtain r s' w' where run:
    "legacy_sendRequest P s w ''balance'' (JStr ''GET'') (JObj []) True = (r, s', w')"
    by (cases "legacy_sendRequest P s w ''balance'' (JStr ''GET'') (JObj []) True") blast
  from legacy_sendRequest_trace[OF run]
  have "\<exists>rs. requests (trace w') = requests (trace w) @ rs \<and>
            (\<forall>req \<in> set rs. url req = ''https://api.sendpulse.com/balance'')"
    by (auto simp: API_URL_def)
  with undef truthy run show ?thesis by simp
qed

theorem legacy_getBalance_ignores_currency_witness:
  "''usd'' \<noteq> [] \<and>
   legacy_getBalance (mock token_T1) legacy_module (at_time 1000) (JStr ''usd'') =
     legacy_sendRequest (mock token_T1) legacy_module (at_time 1000) ''balance'' (JStr ''GET'')
       (JObj []) True \<and>
   map url (requests (trace (snd (snd
      (legacy_getBalance (mock token_T1) legacy_module (at_time 1000) (JStr ''usd'')))))) =
     [''https://api.sendpulse.com/balance'']"
  using legacy_getBalance_ignores_currency[of "mock token_T1" legacy_module "at_time 1000" "''usd''"]
  by (simp add: legacy_sendRequest_def mock_defs legacy_module_def API_URL_def has_length_def
        JSON_stringify_def Let_def)

text \<open>
  C5 says that every wrapper rejects an undefined or empty required argument before any
  network call.  For the empty argument that is not so where the guard tests
  \<open>=== undefined\<close> only.  In the TypeScript client, \<open>createAddressBook('')\<close>
  on a fresh client fetches a token and posts \<open>{name: ''}\<close> to
  \<open>addressbooks\<close>; in the legacy module, \<open>removeAddressBook('')\<close> sends
  \<open>DELETE addressbooks/\<close>.
\<close>

theorem empty_argument_is_dispatched:
  "fst (createAddressBook (mock token_T1) abc (at_time 1000) (JStr [])) = Inr (JArr []) \<and>
   map url (requests (trace (snd (snd
     (createAddressBook (mock token_T1) abc (at_time 1000) (JStr [])))))) =
     [''https://api.sendpulse.com/oauth/access_token'', ''https://api.sendpulse.com/addressbooks''] \<and>
   map data (requests (trace (snd (snd
     (createAddressBook (mock token_T1) abc (at_time 1000) (JStr [])))))) ! 1 =
     JObj [(''name'', JStr [])] \<and>
   fst (legacy_removeAddressBook (mock token_T1) legacy_module (at_time 1000) (JStr [])) =
     Inr (JArr []) \<and>
   map http_method (requests (trace (snd (snd
     (legacy_removeAddressBook (mock token_T1) legacy_module (at_time 1000) (JStr [])))))) =
     [JStr ''DELETE''] \<and>
   map url (requests (trace (snd (snd
     (legacy_removeAddressBook (mock token_T1) legacy_module (at_time 1000) (JStr [])))))) =
     [''https://api.sendpulse.com/addressbooks/'']"
  by (simp add: createAddressBook_def sendRequest.simps getToken.simps mock_defs
        legacy_removeAddressBook_def legacy_sendRequest_def legacy_module_def API_URL_def
        has_length_def JSON_stringify_def json_quote_def json_escape_def Let_def
        utf8_length_def utf8_bytes_def)

lemma empty_has_no_length:
  "undefined_or_empty x = Inr True \<Longrightarrow> x \<noteq> JUndefined \<Longrightarrow> has_length x = Inr False"
  by (simp add: undefined_or_empty_def split: sum.splits)

lemma nonempty_has_length:
  "undefined_or_empty x = Inr False \<Longrightarrow> x \<noteq> JUndefined \<and> has_length x = Inr True"
  by (simp add: undefined_or_empty_def split: sum.splits if_splits)

lemma undefined_is_empty: "undefined_or_empty JUndefined = Inr True"
  by (simp add: undefined_or_empty_def)

text \<open>
  C5, as the code has it.  In both variants every wrapper that has a guard, called with
  \<open>undefined\<close> for an argument that the guard tests by itself, fails with the
  descriptive error of that guard before any network call: the state and the world are
  unchanged and the dispatch is not invoked.  (The arguments that the wrapper tests
  earlier are taken to pass their tests: \<open>a\<close>, \<open>b\<close>, \<open>d\<close>, \<open>e\<close> are
  defined, \<open>p\<close>, \<open>q\<close>, \<open>r\<close>, \<open>t\<close> are defined and not empty; the
  others are arbitrary.)  An empty argument (\<open>emp\<close>: undefined, or without a length
  that counts as true, such as \<open>''\<close> and \<open>[]\<close>) is rejected in the same way
  where the guard also tests the length: in the TypeScript client that is \<open>phones\<close>
  of \<open>smsAddCampaign\<close> and \<open>smsGetCampaignCost\<close>, in the legacy module most
  string and list arguments, and for two arguments of the legacy module the guard tests
  \<open>Object.keys\<close> (\<open>nokeys\<close>).  So \<open>createAddressBook(undefined)\<close>
  fails in both variants and \<open>createAddressBook('')\<close> fails in the legacy module,
  while the TypeScript client, whose guard tests \<open>=== undefined\<close> only, dispatches
  every defined name, the empty string included, as \<open>removeAddressBook\<close> of the
  legacy module dispatches every defined id.  Where two arguments are tested together
  (\<open>book_id\<close> and \<open>emails\<close> of \<open>campaignCost\<close> and
  \<open>createCampaign\<close>, \<open>addressbook_id\<close> and \<open>phones\<close> of
  \<open>smsSend\<close>) the call is rejected when both are undefined; it is dispatched when
  a book id is given without a list, and when a list that is not empty is given without a
  book id.  The declared argument \<open>body\<close> of \<open>campaignCost\<close> and
  \<open>createCampaign\<close> has no guard and is sent as it is.
\<close>

theorem guarded_arguments_are_rejected:
  assumes a: "a \<noteq> JUndefined" and b: "b \<noteq> JUndefined"
      and d: "d \<noteq> JUndefined" and e: "e \<noteq> JUndefined"
      and p: "undefined_or_empty p = Inr False" and q: "undefined_or_empty q = Inr False"
      and r: "undefined_or_empty r = Inr False" and t: "undefined_or_empty t = Inr False"
      and emp: "undefined_or_empty emp = Inr True"
      and nokeys: "undefined_or_no_keys nokeys = Inr True"
  shows "createAddressBook P c w a =
           sendRequest P c w ''addressbooks'' (JStr ''POST'') (JObj [(''name'', a)]) True \<and>
         legacy_createAddressBook P s w p =
           legacy_sendRequest P s w ''addressbooks'' (JStr ''POST'')
             (JObj [(''bookName'', p)]) True \<and>
         legacy_removeAddressBook P s w a =
           legacy_sendRequest P s w (''addressbooks/'' @ ToString a) (JStr ''DELETE'')
             (JObj []) True \<and>
         campaignCost P c w a b d e JUndefined a JUndefined =
           sendRequest P c w ''campaigns'' (JStr ''GET'')
             (JObj [(''name'', a), (''subject'', b), (''from'', d), (''fromName'', e),
                    (''body'', JUndefined), (''addressBookId'', a)]) True \<and>
         createCampaign P c w a b d e JUndefined a JUndefined =
           sendRequest P c w ''campaigns'' (JStr ''POST'')
             (JObj [(''name'', a), (''subject'', b), (''from'', d), (''fromName'', e),
                    (''body'', JUndefined), (''addressBookId'', a)]) True \<and>
         smsSend P c w a b d JUndefined =
           sendRequest P c w ''sms/send'' (JStr ''POST'')
             (JObj [(''sender'', a), (''body'', b), (''addressBookId'', d)]) True \<and>
         campaignCost P c w a b d e body JUndefined p =
           sendRequest P c w ''campaigns'' (JStr ''GET'')
             (JObj [(''name'', a), (''subject'', b), (''from'', d), (''fromName'', e),
                    (''body'', body), (''emails'', JSON_stringify p)]) True \<and>
         createCampaign P c w a b d e body JUndefined p =
           sendRequest P c w ''campaigns'' (JStr ''POST'')
             (JObj [(''name'', a), (''subject'', b), (''from'', d), (''fromName'', e),
                    (''body'', body), (''emails'', JSON_stringify p)]) True \<and>
         smsSend P c w a b JUndefined p =
           sendRequest P c w ''sms/send'' (JStr ''POST'')
             (JObj [(''sender'', a), (''body'', b), (''phones'', JSON_stringify p)]) True \<and>
         rejected ''Empty book name'' c w (createAddressBook P c w JUndefined) \<and>
         rejected ''Empty book id or new name'' c w (editAddressBook P c w JUndefined new_name) \<and>
         rejected ''Empty book id or new name'' c w (editAddressBook P c w id' JUndefined) \<and>
         rejected ''Empty book id'' c w (removeAddressBook P c w JUndefined) \<and>
         rejected ''Empty template id'' c w (getEmailTemplate P c w JUndefined) \<and>
         rejected ''Empty book id'' c w (getBookInfo P c w JUndefined) \<and>
         rejected ''Empty book id'' c w (getAddressBookEmails P c w JUndefined) \<and>
         rejected ''Empty book id or emails'' c w
           (addAddressBookEmails P c w JUndefined emails) \<and>
         rejected ''Empty book id or emails'' c w
           (addAddressBookEmails P c w book_id JUndefined) \<and>
         rejected ''Empty book id or emails'' c w
           (removeAddressBookEmails P c w JUndefined emails) \<and>
         rejected ''Empty book id or emails'' c w
           (removeAddressBookEmails P c w book_id JUndefined) \<and>
         rejected ''Empty email'' c w (getEmailInfo P c w JUndefined) \<and>
         rejected ''Empty book id or email or variables'' c w
           (updateEmailVariables P c w JUndefined email variables) \<and>
         rejected ''Empty book id or email or variables'' c w
           (updateEmailVariables P c w book_id JUndefined variables) \<and>
         rejected ''Empty book id or email or variables'' c w
           (updateEmailVariables P c w book_id email JUndefined) \<and>
         rejected ''Empty campaign name or subject'' c w
           (campaignCost P c w JUndefined subject sender from_name body book_id emails) \<and>
         rejected ''Empty campaign name or subject'' c w
           (campaignCost P c w name JUndefined sender from_name body book_id emails) \<and>
         rejected ''Empty sender credentials'' c w
           (campaignCost P c w a b JUndefined from_name body book_id emails) \<and>
         rejected ''Empty sender credentials'' c w
           (campaignCost P c w a b sender JUndefined body book_id emails) \<and>
         rejected ''Empty book id and emails array'' c w
           (campaignCost P c w a b d e body JUndefined JUndefined) \<and>
         rejected ''Empty campaign id'' c w (getCampaignInfo P c w JUndefined) \<and>
         rejected ''Empty campaign id'' c w (campaignStatByCountries P c w JUndefined) \<and>
         rejected ''Empty campaign id'' c w (campaignStatByReferrals P c w JUndefined) \<and>
         rejected ''Empty campaign name or subject'' c w
           (createCampaign P c w JUndefined subject sender from_name body book_id emails) \<and>
         rejected ''Empty campaign name or subject'' c w
           (createCampaign P c w name JUndefined sender from_name body book_id emails) \<and>
         rejected ''Empty sender credentials'' c w
           (createCampaign P c w a b JUndefined from_name body book_id emails) \<and>
         rejected ''Empty sender credentials'' c w
           (createCampaign P c w a b sender JUndefined body book_id emails) \<and>
         rejected ''Empty book id and emails array'' c w
           (createCampaign P c w a b d e body JUndefined JUndefined) \<and>
         rejected ''Empty campaign id'' c w (cancelCampaign P c w JUndefined) \<and>
         rejected ''Empty sender email or name'' c w (addSender P c w JUndefined name) \<and>
         rejected ''Empty sender email or name'' c w (addSender P c w email JUndefined) \<and>
         rejected ''Empty sender email'' c w (removeSender P c w JUndefined) \<and>
         rejected ''Empty sender email or activation code'' c w
           (activateSender P c w JUndefined code) \<and>
         rejected ''Empty sender email or activation code'' c w
           (activateSender P c w email JUndefined) \<and>
         rejected ''Empty sender email'' c w (getSenderActivationMail P c w JUndefined) \<and>
         rejected ''Empty email'' c w (getEmailGlobalInfo P c w JUndefined) \<and>
         rejected ''Empty email'' c w (removeEmailFromAllBooks P c w JUndefined) \<and>
         rejected ''Empty email'' c w (emailStatByCampaigns P c w JUndefined) \<and>
         rejected ''Empty email'' c w (addToBlackList P c w JUndefined comment) \<and>
         rejected ''Empty email'' c w (removeFromBlackList P c w JUndefined) \<and>
         rejected ''Empty email id'' c w (smtpGetEmailInfoById P c w JUndefined) \<and>
         rejected ''Empty email'' c w (smtpUnsubscribeEmails P c w JUndefined) \<and>
         rejected ''Empty email'' c w (smtpRemoveFromUnsubscribe P c w JUndefined) \<and>
         rejected ''Empty domain name'' c w (smtpAddDomain P c w JUndefined) \<and>
         rejected ''Empty domain name'' c w (smtpVerifyDomain P c w JUndefined) \<and>
         rejected ''Empty email data'' c w (smtpSendMail P c w JUndefined) \<and>
         rejected ''Empty phones'' c w (smsAddPhones P c w JUndefined comment) \<and>
         rejected ''Empty phones'' c w (smsAddPhonesWithVariables P c w JUndefined) \<and>
         rejected ''Empty phones'' c w (smsRemovePhones P c w JUndefined) \<and>
         rejected ''Empty phone'' c w (smsGetPhoneInfo P c w JUndefined) \<and>
         rejected ''Empty phones'' c w (smsUpdatePhonesVariables P c w JUndefined) \<and>
         rejected ''Empty phones'' c w (smsGetPhonesInfoFromBlacklist P c w JUndefined) \<and>
         rejected ''Empty phones'' c w (smsAddPhonesToBlacklist P c w JUndefined) \<and>
         rejected ''Empty phones'' c w (smsDeletePhonesFromBlacklist P c w JUndefined) \<and>
         rejected ''Empty sender name'' c w
           (smsAddCampaign P c w JUndefined body addressbook_id phones) \<and>
         rejected ''Empty sms text'' c w
           (smsAddCampaign P c w a JUndefined addressbook_id phones) \<and>
         rejected ''Empty book id or phones'' c w (smsAddCampaign P c w a b JUndefined phones) \<and>
         rejected ''Empty book id or phones'' c w (smsAddCampaign P c w a b addressbook_id emp) \<and>
         rejected ''Empty sender name'' c w
           (smsSend P c w JUndefined body addressbook_id phones) \<and>
         rejected ''Empty sms text'' c w (smsSend P c w a JUndefined addressbook_id phones) \<and>
         rejected ''Empty book id and phones array'' c w
           (smsSend P c w a b JUndefined JUndefined) \<and>
         rejected ''Empty sms campaign id'' c w (smsGetCampaignInfo P c w JUndefined) \<and>
         rejected ''Empty sms campaign id'' c w (smsCancelCampaign P c w JUndefined) \<and>
         rejected ''Empty sender name'' c w
           (smsGetCampaignCost P c w JUndefined body addressbook_id phones) \<and>
         rejected ''Empty sms text'' c w
           (smsGetCampaignCost P c w a JUndefined addressbook_id phones) \<and>
         rejected ''Empty book id or phones'' c w
           (smsGetCampaignCost P c w a b JUndefined phones) \<and>
         rejected ''Empty book id or phones'' c w
           (smsGetCampaignCost P c w a b addressbook_id emp) \<and>
         rejected ''Empty sms campaign id'' c w (smsDeleteCampaign P c w JUndefined) \<and>
         rejected ''Empty book name'' s w (legacy_createAddressBook P s w emp) \<and>
         rejected ''Empty book name or book id'' s w
           (legacy_editAddressBook P s w JUndefined bookName) \<and>
         rejected ''Empty book name or book id'' s w (legacy_editAddressBook P s w id' emp) \<and>
         rejected ''Empty book id'' s w (legacy_removeAddressBook P s w JUndefined) \<and>
         rejected ''Empty email template id'' s w (legacy_getEmailTemplate P s w JUndefined) \<and>
         rejected ''Empty book id'' s w (legacy_getBookInfo P s w JUndefined) \<and>
         rejected ''Empty book id'' s w (legacy_getEmailsFromBook P s w JUndefined) \<and>
         rejected ''Empty email or book id'' s w (legacy_addEmails P s w JUndefined emails) \<and>
         rejected ''Empty email or book id'' s w (legacy_addEmails P s w id' emp) \<and>
         rejected ''Empty email or book id'' s w (legacy_removeEmails P s w JUndefined emails) \<and>
         rejected ''Empty email or book id'' s w (legacy_removeEmails P s w id' emp) \<and>
         rejected ''Empty email or book id'' s w (legacy_getEmailInfo P s w JUndefined email) \<and>
         rejected ''Empty email or book id'' s w (legacy_getEmailInfo P s w id' emp) \<and>
         rejected ''Empty email, variables or book id'' s w
           (legacy_updateEmailVariables P s w JUndefined email variables) \<and>
         rejected ''Empty email, variables or book id'' s w
           (legacy_updateEmailVariables P s w id' JUndefined variables) \<and>
         rejected ''Empty email, variables or book id'' s w
           (legacy_updateEmailVariables P s w id' email emp) \<and>
         rejected ''Empty book id'' s w (legacy_campaignCost P s w JUndefined) \<and>
         rejected ''Empty book id'' s w (legacy_getCampaignInfo P s w JUndefined) \<and>
         rejected ''Empty book id'' s w (legacy_campaignStatByCountries P s w JUndefined) \<and>
         rejected ''Empty book id'' s w (legacy_campaignStatByReferrals P s w JUndefined) \<and>
         rejected ''Not all data.'' s w
           (legacy_createCampaign P s w emp senderEmail subject body bookId name attachments) \<and>
         rejected ''Not all data.'' s w
           (legacy_createCampaign P s w p emp subject body bookId name attachments) \<and>
         rejected ''Not all data.'' s w
           (legacy_createCampaign P s w p q emp body bookId name attachments) \<and>
         rejected ''Not all data.'' s w
           (legacy_createCampaign P s w p q r emp bookId name attachments) \<and>
         rejected ''Not all data.'' s w
           (legacy_createCampaign P s w p q r t JUndefined name attachments) \<and>
         rejected ''Empty campaign id'' s w (legacy_cancelCampaign P s w JUndefined) \<and>
         rejected ''Empty sender name or email'' s w (legacy_addSender P s w senderName emp) \<and>
         rejected ''Empty sender name or email'' s w (legacy_addSender P s w emp p) \<and>
         rejected ''Empty email'' s w (legacy_removeSender P s w emp) \<and>
         rejected ''Empty email or activation code'' s w (legacy_activateSender P s w emp code) \<and>
         rejected ''Empty email or activation code'' s w (legacy_activateSender P s w p emp) \<and>
         rejected ''Empty email'' s w (legacy_getSenderActivationMail P s w emp) \<and>
         rejected ''Empty email'' s w (legacy_getEmailGlobalInfo P s w emp) \<and>
         rejected ''Empty email'' s w (legacy_removeEmailFromAllBooks P s w emp) \<and>
         rejected ''Empty email'' s w (legacy_emailStatByCampaigns P s w emp) \<and>
         rejected ''Empty email'' s w (legacy_addToBlackList P s w emp comment) \<and>
         rejected ''Empty emails'' s w (legacy_removeFromBlackList P s w emp) \<and>
         rejected ''Empty id'' s w (legacy_smtpGetEmailInfoById P s w emp) \<and>
         rejected ''Empty emails'' s w (legacy_smtpUnsubscribeEmails P s w JUndefined) \<and>
         rejected ''Empty emails'' s w (legacy_smtpRemoveFromUnsubscribe P s w JUndefined) \<and>
         rejected ''Empty email'' s w (legacy_smtpAddDomain P s w emp) \<and>
         rejected ''Empty email'' s w (legacy_smtpVerifyDomain P s w emp) \<and>
         rejected ''Empty email data'' s w (legacy_smtpSendMail P s w JUndefined) \<and>
         rejected ''Empty phones or book id'' s w (legacy_smsAddPhones P s w JUndefined phones) \<and>
         rejected ''Empty phones or book id'' s w
           (legacy_smsAddPhones P s w addressbook_id emp) \<and>
         rejected ''Empty phones or book id'' s w
           (legacy_smsAddPhonesWithVariables P s w JUndefined phones) \<and>
         rejected ''Empty phones or book id'' s w
           (legacy_smsAddPhonesWithVariables P s w addressbook_id nokeys) \<and>
         rejected ''Empty phones or book id'' s w
           (legacy_smsRemovePhones P s w JUndefined phones) \<and>
         rejected ''Empty phones or book id'' s w
           (legacy_smsRemovePhones P s w addressbook_id emp) \<and>
         rejected ''Empty phone or book id'' s w
           (legacy_smsGetPhoneInfo P s w JUndefined phone) \<and>
         rejected ''Empty phone or book id'' s w
           (legacy_smsGetPhoneInfo P s w addressbook_id JUndefined) \<and>
         rejected ''Empty book id'' s w
           (legacy_smsUpdatePhonesVariables P s w JUndefined phones variables) \<and>
         rejected ''Empty phones'' s w (legacy_smsUpdatePhonesVariables P s w a emp variables) \<and>
         rejected ''Empty variables'' s w (legacy_smsUpdatePhonesVariables P s w a p nokeys) \<and>
         rejected ''Empty phones'' s w (legacy_smsGetPhonesInfoFromBlacklist P s w emp) \<and>
         rejected ''Empty phones'' s w (legacy_smsAddPhonesToBlacklist P s w emp comment) \<and>
         rejected ''Empty phones'' s w (legacy_smsDeletePhonesFromBlacklist P s w emp) \<and>
         rejected ''Empty sender name'' s w
           (legacy_smsAddCampaign P s w JUndefined addressbook_id body date transliterate) \<and>
         rejected ''Empty book id'' s w
           (legacy_smsAddCampaign P s w a JUndefined body date transliterate) \<and>
         rejected ''Empty sms text'' s w
           (legacy_smsAddCampaign P s w a b JUndefined date transliterate) \<and>
         rejected ''Empty sender name'' s w
           (legacy_smsSend P s w JUndefined phones body date transliterate route) \<and>
         rejected ''Empty phones'' s w
           (legacy_smsSend P s w a emp body date transliterate route) \<and>
         rejected ''Empty sms text'' s w
           (legacy_smsSend P s w a p JUndefined date transliterate route) \<and>
         rejected ''Empty sms campaign id'' s w (legacy_smsGetCampaignInfo P s w JUndefined) \<and>
         rejected ''Empty sms campaign id'' s w (legacy_smsCancelCampaign P s w JUndefined) \<and>
         rejected ''Empty sender name'' s w
           (legacy_smsGetCampaignCost P s w JUndefined body addressbook_id phones) \<and>
         rejected ''Empty sms text'' s w
           (legacy_smsGetCampaignCost P s w a JUndefined addressbook_id phones) \<and>
         rejected ''Empty book id or phones'' s w
           (legacy_smsGetCampaignCost P s w a b JUndefined phones) \<and>
         rejected ''Empty book id or phones'' s w
           (legacy_smsGetCampaignCost P s w a b addressbook_id emp) \<and>
         rejected ''Empty sms campaign id'' s w (legacy_smsDeleteCampaign P s w JUndefined)"
proof -
  note wrappers =
    createAddressBook_def editAddressBook_def removeAddressBook_def getEmailTemplate_def
    getBookInfo_def getAddressBookEmails_def addAddressBookEmails_def
    removeAddressBookEmails_def getEmailInfo_def updateEmailVariables_def campaignCost_def
    getCampaignInfo_def campaignStatByCountries_def campaignStatByReferrals_def
    createCampaign_def cancelCampaign_def addSender_def removeSender_def activateSender_def
    getSenderActivationMail_def getEmailGlobalInfo_def removeEmailFromAllBooks_def
    emailStatByCampaigns_def addToBlackList_def removeFromBlackList_def
    smtpGetEmailInfoById_def smtpUnsubscribeEmails_def smtpRemoveFromUnsubscribe_def
    smtpAddDomain_def smtpVerifyDomain_def smtpSendMail_def smsAddPhones_def
    smsAddPhonesWithVariables_def smsRemovePhones_def smsGetPhoneInfo_def
    smsUpdatePhonesVariables_def smsGetPhonesInfoFromBlacklist_def smsAddPhonesToBlacklist_def
    smsDeletePhonesFromBlacklist_def smsAddCampaign_def smsSend_def smsGetCampaignInfo_def
    smsCancelCampaign_def smsGetCampaignCost_def smsDeleteCampaign_def
  note legacy_wrappers =
    legacy_createAddressBook_def legacy_editAddressBook_def legacy_removeAddressBook_def
    legacy_getEmailTemplate_def legacy_getBookInfo_def legacy_getEmailsFromBook_def
    legacy_addEmails_def legacy_removeEmails_def legacy_getEmailInfo_def
    legacy_updateEmailVariables_def legacy_campaignCost_def legacy_getCampaignInfo_def
    legacy_campaignStatByCountries_def legacy_campaignStatByReferrals_def
    legacy_createCampaign_def legacy_cancelCampaign_def legacy_addSender_def
    legacy_removeSender_def legacy_activateSender_def legacy_getSenderActivationMail_def
    legacy_getEmailGlobalInfo_def legacy_removeEmailFromAllBooks_def
    legacy_emailStatByCampaigns_def legacy_addToBlackList_def legacy_removeFromBlackList_def
    legacy_smtpGetEmailInfoById_def legacy_smtpUnsubscribeEmails_def
    legacy_smtpRemoveFromUnsubscribe_def legacy_smtpAddDomain_def legacy_smtpVerifyDomain_def
    legacy_smtpSendMail_def legacy_smsAddPhones_def legacy_smsAddPhonesWithVariables_def
    legacy_smsRemovePhones_def legacy_smsGetPhoneInfo_def legacy_smsUpdatePhonesVariables_def
    legacy_smsGetPhonesInfoFromBlacklist_def legacy_smsAddPhonesToBlacklist_def
    legacy_smsDeletePhonesFromBlacklist_def legacy_smsAddCampaign_def legacy_smsSend_def
    legacy_smsGetCampaignInfo_def legacy_smsCancelCampaign_def legacy_smsGetCampaignCost_def
    legacy_smsDeleteCampaign_def
  show ?thesis
    using assms
    by (simp add: rejected_def wrappers legacy_wrappers empty_has_no_length[OF emp]
          nonempty_has_length[OF p] undefined_is_empty Let_def)
qed

theorem guarded_arguments_are_rejected_witness:
  "JStr ''7'' \<noteq> JUndefined \<and>
   undefined_or_empty (JStr ''x'') = Inr False \<and>
   undefined_or_empty (JStr []) = Inr True \<and>
   undefined_or_empty (JArr []) = Inr True \<and>
   undefined_or_no_keys (JObj []) = Inr True \<and>
   createAddressBook (mock token_T1) abc (at_time 1000) JUndefined =
     (Inl (Error ''Empty book name''), abc, at_time 1000) \<and>
   createAddressBook (mock token_T1) abc (at_time 1000) (JStr []) =
     sendRequest (mock token_T1) abc (at_time 1000) ''addressbooks'' (JStr ''POST'')
       (JObj [(''name'', JStr [])]) True \<and>
   legacy_createAddressBook (mock token_T1) legacy_module (at_time 1000) JUndefined =
     (Inl (Error ''Empty book name''), legacy_module, at_time 1000) \<and>
   legacy_createAddressBook (mock token_T1) legacy_module (at_time 1000) (JStr []) =
     (Inl (Error ''Empty book name''), legacy_module, at_time 1000) \<and>
   legacy_createAddressBook (mock token_T1) legacy_module (at_time 1000) (JStr ''x'') =
     legacy_sendRequest (mock token_T1) legacy_module (at_time 1000) ''addressbooks''
       (JStr ''POST'') (JObj [(''bookName'', JStr ''x'')]) True \<and>
   legacy_removeAddressBook (mock token_T1) legacy_module (at_time 1000) (JStr []) =
     legacy_sendRequest (mock token_T1) legacy_module (at_time 1000) ''addressbooks/''
       (JStr ''DELETE'') (JObj []) True \<and>
   campaignCost (mock token_T1) abc (at_time 1000) (JStr ''7'') (JStr ''7'') JUndefined
       (JStr ''7'') (JStr ''7'') (JStr ''7'') (JStr ''7'') =
     (Inl (Error ''Empty sender credentials''), abc, at_time 1000) \<and>
   smsAddCampaign (mock token_T1) abc (at_time 1000) (JStr ''7'') (JStr ''7'') (JStr ''7'')
       (JArr []) =
     (Inl (Error ''Empty book id or phones''), abc, at_time 1000) \<and>
   legacy_createCampaign (mock token_T1) legacy_module (at_time 1000) (JStr ''x'') (JStr ''x'')
       (JStr ''x'') (JStr ''x'') JUndefined (JStr ''7'') (JStr ''7'') =
     (Inl (Error ''Not all data.''), legacy_module, at_time 1000) \<and>
   legacy_smsUpdatePhonesVariables (mock token_T1) legacy_module (at_time 1000) (JStr ''7'')
       (JStr ''x'') (JObj []) =
     (Inl (Error ''Empty variables''), legacy_module, at_time 1000)"
proof -
  have a: "JStr ''7'' \<noteq> JUndefined" by simp
  have a': "JStr [] \<noteq> JUndefined" by simp
  have p: "undefined_or_empty (JStr ''x'') = Inr False"
    by (simp add: undefined_or_empty_def has_length_def)
  have emp: "undefined_or_empty (JStr []) = Inr True"
    by (simp add: undefined_or_empty_def has_length_def)
  have emp': "undefined_or_empty (JArr []) = Inr True"
    by (simp add: undefined_or_empty_def has_length_def)
  have undef: "undefined_or_empty JUndefined = Inr True"
    by (simp add: undefined_or_empty_def)
  have nokeys: "undefined_or_no_keys (JObj []) = Inr True"
    by (simp add: undefined_or_no_keys_def)
  note at = guarded_arguments_are_rejected[where P = "mock token_T1" and c = abc
      and w = "at_time 1000" and s = legacy_module, OF _ a a a p p p p _ nokeys,
      where addressbook_id = "JStr ''7''" and attachments = "JStr ''7''"
        and body = "JStr ''7''" and bookId = "JStr ''7''" and bookName = "JStr ''7''"
        and book_id = "JStr ''7''" and code = "JStr ''7''" and comment = "JStr ''7''"
        and date = "JStr ''7''" and email = "JStr ''7''" and emails = "JStr ''7''"
        and sender = "JStr ''7''" and from_name = "JStr ''7''" and id' = "JStr ''7''"
        and name = "JStr ''7''" and new_name = "JStr ''7''" and phone = "JStr ''7''"
        and phones = "JStr ''7''" and route = "JStr ''7''" and senderEmail = "JStr ''7''"
        and senderName = "JStr ''7''" and subject = "JStr ''7''"
        and transliterate = "JStr ''7''" and variables = "JStr ''7''"]
  from at[OF a emp] at[OF a emp'] at[OF a' emp] at[OF a undef]
  show ?thesis
    using a p emp emp' nokeys by (simp add: rejected_def)
qed

lemma legacy_smsUpdatePhonesVariables_encodes_variables:
  assumes "xs \<noteq> []" and "a \<noteq> JUndefined" and "undefined_or_empty phs = Inr False"
  shows "legacy_dispatched_field P s w ''variables'' (JStr (json_text (JArr xs)))
          (legacy_smsUpdatePhonesVariables P s w a phs (JArr xs))"
  using assms
  by (simp add: legacy_smsUpdatePhonesVariables_def legacy_dispatched_field_sent Let_def)

text \<open>
  The encoding of an array of strings can be read back: every character has its own
  escape, no escape starts with a quote, so the quoted strings and the commas between
  them are found again from left to right.
\<close>

lemma hex_digit_inj:
  assumes "i < 16" "j < 16"
      and "''0123456789abcdef'' ! i = ''0123456789abcdef'' ! j"
  shows "i = j"
proof -
  have "distinct ''0123456789abcdef''" by simp
  moreover have "i < length ''0123456789abcdef''" "j < length ''0123456789abcdef''"
    using assms(1,2) by simp_all
  ultimately show ?thesis using assms(3) by (simp only: nth_eq_iff_index_eq)
qed

lemma hex4_inj:
  assumes "n < 32" "m < 32" "hex4 n = hex4 m"
  shows "n = m"
proof -
  from assms(3) have a: "''0123456789abcdef'' ! (n div 16) = ''0123456789abcdef'' ! (m div 16)"
    and b: "''0123456789abcdef'' ! (n mod 16) = ''0123456789abcdef'' ! (m mod 16)"
    by (simp_all add: hex4_def)
  from assms(1,2) have "n div 16 < 16" "m div 16 < 16" by simp_all
  from hex_digit_inj[OF this a] have "n div 16 = m div 16" .
  moreover from hex_digit_inj[OF _ _ b] have "n mod 16 = m mod 16" by simp
  ultimately show ?thesis by (metis div_mult_mod_eq)
qed

lemma hex4_length [simp]: "length (hex4 n) = 4"
  by (simp add: hex4_def)

lemma json_escape_plain:
  "a \<notin> {CHR ''\"'', CHR 0x5C, CHR 0x08, CHR 0x09, CHR 0x0A, CHR 0x0C, CHR 0x0D} \<Longrightarrow> \<not> (of_char a :: nat) < 32 \<Longrightarrow> json_escape a = [a]"
  by (simp add: json_escape_def)

lemma json_escape_long:
  "a \<notin> {CHR ''\"'', CHR 0x5C, CHR 0x08, CHR 0x09, CHR 0x0A, CHR 0x0C, CHR 0x0D} \<Longrightarrow> (of_char a :: nat) < 32 \<Longrightarrow>
     json_escape a = [CHR 0x5C, CHR ''u''] @ hex4 (of_char a)"
  by (simp add: json_escape_def)

lemma json_escape_prefix_free:
  assumes "json_escape a @ x = json_escape b @ y"
  shows "a = b \<and> x = y"
proof (cases "a \<in> {CHR ''\"'', CHR 0x5C, CHR 0x08, CHR 0x09, CHR 0x0A, CHR 0x0C, CHR 0x0D}")
  case sa: True
  show ?thesis
  proof (cases "b \<in> {CHR ''\"'', CHR 0x5C, CHR 0x08, CHR 0x09, CHR 0x0A, CHR 0x0C, CHR 0x0D}")
    case True
    with sa assms show ?thesis by (auto simp: json_escape_def)
  next
    case sb: False
    show ?thesis
    proof (cases "(of_char b :: nat) < 32")
      case True
      with sa sb assms json_escape_long[OF sb True] show ?thesis
        by (auto simp: json_escape_def)
    next
      case False
      with sa sb assms json_escape_plain[OF sb False] show ?thesis
        by (auto simp: json_escape_def)
    qed
  qed
next
  case na: False
  show ?thesis
  proof (cases "(of_char a :: nat) < 32")
    case la: True
    note ea = json_escape_long[OF na la]
    show ?thesis
    proof (cases "b \<in> {CHR ''\"'', CHR 0x5C, CHR 0x08, CHR 0x09, CHR 0x0A, CHR 0x0C, CHR 0x0D}")
      case True
      with assms ea show ?thesis by (auto simp: json_escape_def)
    next
      case nb: False
      show ?thesis
      proof (cases "(of_char b :: nat) < 32")
        case lb: True
        from assms ea json_escape_long[OF nb lb]
        have "hex4 (of_char a) @ x = hex4 (of_char b) @ y" by simp
        then have "hex4 (of_char a) = hex4 (of_char b)" "x = y" by simp_all
        with hex4_inj[OF la lb] show ?thesis by simp
      next
        case False
        with assms ea json_escape_plain[OF nb False] nb show ?thesis
          by auto
      qed
    qed
  next
    case pa: False
    note ea = json_escape_plain[OF na pa]
    show ?thesis
    proof (cases "b \<in> {CHR ''\"'', CHR 0x5C, CHR 0x08, CHR 0x09, CHR 0x0A, CHR 0x0C, CHR 0x0D}")
      case True
      with assms ea na show ?thesis by (auto simp: json_escape_def)
    next
      case nb: False
      show ?thesis
      proof (cases "(of_char b :: nat) < 32")
        case lb: True
        with assms ea json_escape_long[OF nb lb] na show ?thesis
          by auto
      next
        case False
        with assms ea json_escape_plain[OF nb False] show ?thesis by simp
      qed
    qed
  qed
qed

lemma json_escape_not_quote: "json_escape a @ x \<noteq> CHR ''\"'' # y"
proof (cases "a \<in> {CHR ''\"'', CHR 0x5C, CHR 0x08, CHR 0x09, CHR 0x0A, CHR 0x0C, CHR 0x0D}")
  case True
  then show ?thesis by (auto simp: json_escape_def)
next
  case na: False
  show ?thesis
  proof (cases "(of_char a :: nat) < 32")
    case True
    from json_escape_long[OF na True] show ?thesis by simp
  next
    case False
    from json_escape_plain[OF na False] na show ?thesis by auto
  qed
qed

lemma escaped_unique:
  assumes "concat (map json_escape s) @ CHR ''\"'' # r = concat (map json_escape t) @ CHR ''\"'' # r'"
  shows "s = t \<and> r = r'"
  using assms
proof (induction s arbitrary: t)
  case Nil
  then show ?case
  proof (cases t)
    case (Cons b t')
    with Nil json_escape_not_quote[of b "concat (map json_escape t') @ CHR ''\"'' # r'" r]
    show ?thesis by simp
  qed simp
next
  case (Cons a s)
  show ?case
  proof (cases t)
    case Nil
    with Cons.prems json_escape_not_quote[of a "concat (map json_escape s) @ CHR ''\"'' # r" r']
    show ?thesis by simp
  next
    case (Cons b t')
    with Cons.prems
    have "json_escape a @ (concat (map json_escape s) @ CHR ''\"'' # r) =
          json_escape b @ (concat (map json_escape t') @ CHR ''\"'' # r')" by simp
    from json_escape_prefix_free[OF this] Cons.IH[of t'] Cons show ?thesis by simp
  qed
qed

lemma json_quote_unique:
  assumes "json_quote s @ r = json_quote t @ r'"
  shows "s = t \<and> r = r'"
  using assms escaped_unique[of s r t r'] by (simp add: json_quote_def)

lemma json_quote_head [simp]: "json_quote s \<noteq> []" "hd (json_quote s) = CHR ''\"''"
  by (simp_all add: json_quote_def)

lemma join_Cons:
  "join sep (x # xs) = x @ (if xs = [] then [] else sep @ join sep xs)"
  by (cases xs) simp_all

lemma join_quoted_unique:
  assumes "join '','' (map json_quote ss) = join '','' (map json_quote ts)"
  shows "ss = ts"
  using assms
proof (induction ss arbitrary: ts)
  case Nil
  then show ?case by (cases ts) (simp_all add: join_Cons json_quote_def)
next
  case (Cons s ss)
  show ?case
  proof (cases ts)
    case Nil
    with Cons.prems show ?thesis by (simp add: join_Cons json_quote_def)
  next
    case (Cons t ts')
    let ?r = "if ss = [] then [] else '','' @ join '','' (map json_quote ss)"
    let ?r' = "if ts' = [] then [] else '','' @ join '','' (map json_quote ts')"
    from Cons.prems Cons have "json_quote s @ ?r = json_quote t @ ?r'"
      by (simp add: join_Cons)
    from json_quote_unique[OF this] have st: "s = t" and r: "?r = ?r'" by simp_all
    have "ss = ts'"
    proof (cases "ss = []")
      case True
      with r show ?thesis by (simp split: if_splits)
    next
      case False
      with r have "join '','' (map json_quote ss) = join '','' (map json_quote ts')"
        by (simp split: if_splits)
      then show ?thesis by (rule Cons.IH)
    qed
    with st Cons show ?thesis by simp
  qed
qed

lemma json_text_strings_unique:
  assumes "json_text (JArr (map JStr ss)) = json_text (JArr (map JStr ts))"
  shows "ss = ts"
proof -
  have "map (json_text \<circ> JStr) xs = map json_quote xs" for xs
    by (induction xs) simp_all
  with assms have "join '','' (map json_quote ss) = join '','' (map json_quote ts)"
    by simp
  then show ?thesis by (rule join_quoted_unique)
qed

lemma json_text_array:
  "json_text (JArr xs) = ''['' @ join '','' (map json_text xs) @ '']''"
  by simp

text \<open>
  C7.  Every wrapper that JSON-encodes a list argument, called with a non-empty array
  \<open>xs\<close> (and with its other guarded arguments defined), dispatches a payload whose
  field (\<open>emails\<close>, \<open>phones\<close> or \<open>variables\<close>) is the string
  \<open>JSON.stringify(xs)\<close>: the encoding of exactly that array, which lists the encodings
  of its elements in the order given.  This covers the eighteen such wrappers of the
  TypeScript client and the nine of the legacy module.  For arrays of strings, such as
  phone numbers and addresses, the field determines the array: two arrays with the same
  encoding have the same elements in the same order.
\<close>

theorem list_argument_is_json_encoded:
  assumes xs: "xs \<noteq> []"
      and a: "a \<noteq> JUndefined" and b: "b \<noteq> JUndefined"
      and d: "d \<noteq> JUndefined" and e: "e \<noteq> JUndefined"
      and vars: "undefined_or_no_keys vars = Inr False"
      and phs: "undefined_or_empty phs = Inr False"
  shows "json_text (JArr xs) = ''['' @ join '','' (map json_text xs) @ '']'' \<and>
         (json_text (JArr (map JStr ss)) = json_text (JArr (map JStr ts)) \<longrightarrow> ss = ts) \<and>
         dispatched_field P c w ''emails'' (JStr (json_text (JArr xs)))
           (addAddressBookEmails P c w a (JArr xs)) \<and>
         dispatched_field P c w ''emails'' (JStr (json_text (JArr xs)))
           (removeAddressBookEmails P c w a (JArr xs)) \<and>
         dispatched_field P c w ''emails'' (JStr (json_text (JArr xs)))
           (campaignCost P c w a b d e body book_id (JArr xs)) \<and>
         dispatched_field P c w ''emails'' (JStr (json_text (JArr xs)))
           (createCampaign P c w a b d e body book_id (JArr xs)) \<and>
         dispatched_field P c w ''emails'' (JStr (json_text (JArr xs)))
           (addToBlackList P c w (JArr xs) comment) \<and>
         dispatched_field P c w ''emails'' (JStr (json_text (JArr xs)))
           (removeFromBlackList P c w (JArr xs)) \<and>
         dispatched_field P c w ''emails'' (JStr (json_text (JArr xs)))
           (smtpUnsubscribeEmails P c w (JArr xs)) \<and>
         dispatched_field P c w ''emails'' (JStr (json_text (JArr xs)))
           (smtpRemoveFromUnsubscribe P c w (JArr xs)) \<and>
         dispatched_field P c w ''phones'' (JStr (json_text (JArr xs)))
           (smsAddPhones P c w (JArr xs) comment) \<and>
         dispatched_field P c w ''phones'' (JStr (json_text (JArr xs)))
           (smsAddPhonesWithVariables P c w (JArr xs)) \<and>
         dispatched_field P c w ''phones'' (JStr (json_text (JArr xs)))
           (smsRemovePhones P c w (JArr xs)) \<and>
         dispatched_field P c w ''phones'' (JStr (json_text (JArr xs)))
           (smsUpdatePhonesVariables P c w (JArr xs)) \<and>
         dispatched_field P c w ''phones'' (JStr (json_text (JArr xs)))
           (smsGetPhonesInfoFromBlacklist P c w (JArr xs)) \<and>
         dispatched_field P c w ''phones'' (JStr (json_text (JArr xs)))
           (smsAddPhonesToBlacklist P c w (JArr xs)) \<and>
         dispatched_field P c w ''phones'' (JStr (json_text (JArr xs)))
           (smsDeletePhonesFromBlacklist P c w (JArr xs)) \<and>
         dispatched_field P c w ''phones'' (JStr (json_text (JArr xs)))
           (smsAddCampaign P c w a b d (JArr xs)) \<and>
         dispatched_field P c w ''phones'' (JStr (json_text (JArr xs)))
           (smsSend P c w a b book_id (JArr xs)) \<and>
         dispatched_field P c w ''phones'' (JStr (json_text (JArr xs)))
           (smsGetCampaignCost P c w a b d (JArr xs)) \<and>
         legacy_dispatched_field P s w ''phones'' (JStr (json_text (JArr xs)))
           (legacy_smsAddPhones P s w a (JArr xs)) \<and>
         legacy_dispatched_field P s w ''phones'' (JStr (json_text (JArr xs)))
           (legacy_smsAddPhonesWithVariables P s w a (JArr xs)) \<and>
         legacy_dispatched_field P s w ''phones'' (JStr (json_text (JArr xs)))
           (legacy_smsRemovePhones P s w a (JArr xs)) \<and>
         legacy_dispatched_field P s w ''phones'' (JStr (json_text (JArr xs)))
           (legacy_smsUpdatePhonesVariables P s w a (JArr xs) vars) \<and>
         legacy_dispatched_field P s w ''variables'' (JStr (json_text (JArr xs)))
           (legacy_smsUpdatePhonesVariables P s w a phs (JArr xs)) \<and>
         legacy_dispatched_field P s w ''phones'' (JStr (json_text (JArr xs)))
           (legacy_smsGetPhonesInfoFromBlacklist P s w (JArr xs)) \<and>
         legacy_dispatched_field P s w ''phones'' (JStr (json_text (JArr xs)))
           (legacy_smsAddPhonesToBlacklist P s w (JArr xs) comment) \<and>
         legacy_dispatched_field P s w ''phones'' (JStr (json_text (JArr xs)))
           (legacy_smsDeletePhonesFromBlacklist P s w (JArr xs)) \<and>
         legacy_dispatched_field P s w ''phones'' (JStr (json_text (JArr xs)))
           (legacy_smsSend P s w a (JArr xs) b date transliterate route) \<and>
         legacy_dispatched_field P s w ''phones'' (JStr (json_text (JArr xs)))
           (legacy_smsGetCampaignCost P s w a b d (JArr xs))"
  by (intro conjI impI json_text_array json_text_strings_unique
      addAddressBookEmails_encodes[OF xs a]
      removeAddressBookEmails_encodes[OF xs a]
      campaignCost_encodes[OF xs a b d e]
      createCampaign_encodes[OF xs a b d e]
      addToBlackList_encodes[OF xs]
      removeFromBlackList_encodes[OF xs]
      smtpUnsubscribeEmails_encodes[OF xs]
      smtpRemoveFromUnsubscribe_encodes[OF xs]
      smsAddPhones_encodes[OF xs]
      smsAddPhonesWithVariables_encodes[OF xs]
      smsRemovePhones_encodes[OF xs]
      smsUpdatePhonesVariables_encodes[OF xs]
      smsGetPhonesInfoFromBlacklist_encodes[OF xs]
      smsAddPhonesToBlacklist_encodes[OF xs]
      smsDeletePhonesFromBlacklist_encodes[OF xs]
      smsAddCampaign_encodes[OF xs a b d]
      smsSend_encodes[OF xs a b]
      smsGetCampaignCost_encodes[OF xs a b d]
      legacy_smsAddPhones_encodes[OF xs a]
      legacy_smsAddPhonesWithVariables_encodes[OF xs a]
      legacy_smsRemovePhones_encodes[OF xs a]
      legacy_smsUpdatePhonesVariables_encodes[OF xs a vars]
      legacy_smsUpdatePhonesVariables_encodes_variables[OF xs a phs]
      legacy_smsGetPhonesInfoFromBlacklist_encodes[OF xs]
      legacy_smsAddPhonesToBlacklist_encodes[OF xs]
      legacy_smsDeletePhonesFromBlacklist_encodes[OF xs]
      legacy_smsSend_encodes[OF xs a b]
      legacy_smsGetCampaignCost_encodes[OF xs a b d])

theorem list_argument_is_json_encoded_witness:
  "[JStr ''+380501234567'', JStr ''+380671234567''] \<noteq> [] \<and>
   JStr ''7'' \<noteq> JUndefined \<and>
   undefined_or_no_keys (JObj [(''name'', JStr ''Ann'')]) = Inr False \<and>
   undefined_or_empty (JArr [JStr ''+380501234567'']) = Inr False \<and>
   json_text (JArr [JStr ''+380501234567'', JStr ''+380671234567'']) =
     ''[\"+380501234567\",\"+380671234567\"]'' \<and>
   json_text (JArr (map JStr [''+380501234567'', ''+380671234567''])) =
     json_text (JArr (map JStr [''+380501234567'', ''+380671234567''])) \<and>
   json_text (JArr [JStr ''+380671234567'', JStr ''+380501234567'']) \<noteq>
     ''[\"+380501234567\",\"+380671234567\"]'' \<and>
   dispatched_field (mock token_T1) abc (at_time 1000) ''phones''
     (JStr ''[\"+380501234567\",\"+380671234567\"]'')
     (smsAddPhones (mock token_T1) abc (at_time 1000)
        (JArr [JStr ''+380501234567'', JStr ''+380671234567'']) JUndefined) \<and>
   legacy_dispatched_field (mock token_T1) legacy_module (at_time 1000) ''phones''
     (JStr ''[\"+380501234567\",\"+380671234567\"]'')
     (legacy_smsAddPhones (mock token_T1) legacy_module (at_time 1000) (JStr ''7'')
        (JArr [JStr ''+380501234567'', JStr ''+380671234567'']))"
proof -
  have enc: "json_text (JArr [JStr ''+380501234567'', JStr ''+380671234567'']) =
     ''[\"+380501234567\",\"+380671234567\"]''"
    by (simp add: json_quote_def json_escape_def)
  have swapped: "json_text (JArr [JStr ''+380671234567'', JStr ''+380501234567'']) \<noteq>
     ''[\"+380501234567\",\"+380671234567\"]''"
    by (simp add: json_quote_def json_escape_def)
  have keys: "undefined_or_no_keys (JObj [(''name'', JStr ''Ann'')]) = Inr False"
    by (simp add: undefined_or_no_keys_def)
  have phs: "undefined_or_empty (JArr [JStr ''+380501234567'']) = Inr False"
    by simp
  from list_argument_is_json_encoded[
         where xs = "[JStr ''+380501234567'', JStr ''+380671234567'']"
           and a = "JStr ''7''" and b = "JStr ''7''" and d = "JStr ''7''" and e = "JStr ''7''"
           and vars = "JObj [(''name'', JStr ''Ann'')]" and phs = "JArr [JStr ''+380501234567'']"
           and P = "mock token_T1" and c = abc and w = "at_time 1000" and s = legacy_module
           and ss = "[''+380501234567'', ''+380671234567'']"
           and ts = "[''+380501234567'', ''+380671234567'']"
           and comment = JUndefined, OF _ _ _ _ _ keys phs]
  show ?thesis
    unfolding enc using keys phs swapped by simp
qed

end
